theory Spec2Isabelle
  imports Main "HOL-Library.Sublist"
begin

section \<open>The LLVM component easyblock (llvmcomponent.py)\<close>

text \<open>
  A shallow embedding of \<^verbatim>\<open>EB_LLVMcomponent\<close>: its initialisation (version gate,
  bootstrap gate, build-target selection and validation), the per-project configuration
  functions, the configure step, the staged bootstrap build, the interpretation of the
  test-suite output and the sanity check.

  Python strings are \<^typ>\<open>string\<close>. The initialisation returns the instance or
  the error it raised; every later step works on a state and returns the exception it
  raised, if any, with the state at that moment.
  Functions of the EasyBuild framework that the easyblock only calls (dependency lookup,
  \<^verbatim>\<open>which\<close>, subprocesses, the version ordering, the host architecture) are fields
  of the record \<open>ext\<close> and stay arbitrary in every theorem.
\<close>

subsection \<open>Python string operations\<close>

text \<open>\<^verbatim>\<open>sep.join(xs)\<close>\<close>

fun join :: "string \<Rightarrow> string list \<Rightarrow> string" where
  "join sep [] = []"
| "join sep [x] = x"
| "join sep (x # y # ys) = x @ sep @ join sep (y # ys)"

text \<open>\<^verbatim>\<open>s.lower()\<close> on ASCII letters (the names compared in the source are ASCII).\<close>

definition lower_char :: "char \<Rightarrow> char" where
  "lower_char c =
     (case map_of (zip ''ABCDEFGHIJKLMNOPQRSTUVWXYZ'' ''abcdefghijklmnopqrstuvwxyz'') c of
        None \<Rightarrow> c | Some d \<Rightarrow> d)"

definition lower :: "string \<Rightarrow> string" where
  "lower s = map lower_char s"

text \<open>\<^verbatim>\<open>s.upper()\<close> on ASCII letters.\<close>

definition upper_char :: "char \<Rightarrow> char" where
  "upper_char c =
     (case map_of (zip ''abcdefghijklmnopqrstuvwxyz'' ''ABCDEFGHIJKLMNOPQRSTUVWXYZ'') c of
        None \<Rightarrow> c | Some d \<Rightarrow> d)"

definition upper :: "string \<Rightarrow> string" where
  "upper s = map upper_char s"

text \<open>\<^verbatim>\<open>s.startswith(p)\<close> and \<^verbatim>\<open>s.endswith(p)\<close>\<close>

fun startswith :: "string \<Rightarrow> string \<Rightarrow> bool" where
  "startswith s [] = True"
| "startswith [] (p # ps) = False"
| "startswith (c # cs) (p # ps) = (c = p \<and> startswith cs ps)"

definition endswith :: "string \<Rightarrow> string \<Rightarrow> bool" where
  "endswith s p = startswith (rev s) (rev p)"

text \<open>
  \<^verbatim>\<open>s.replace(old, new)\<close> for a non-empty \<open>old\<close>: the non-overlapping occurrences
  of \<open>old\<close> are replaced from left to right.
\<close>

fun replace :: "string \<Rightarrow> string \<Rightarrow> string \<Rightarrow> string" where
  "replace old new [] = []"
| "replace old new (c # cs) =
     (if old \<noteq> [] \<and> startswith (c # cs) old
      then new @ replace old new (drop (length old) (c # cs))
      else c # replace old new cs)"

text \<open>\<^verbatim>\<open>str(n)\<close> for an integer.\<close>

definition digit_char :: "nat \<Rightarrow> char" where
  "digit_char d = ''0123456789'' ! d"

fun str_nat :: "nat \<Rightarrow> string" where
  "str_nat n = (if n < 10 then [digit_char n] else str_nat (n div 10) @ [digit_char (n mod 10)])"

definition str_int :: "int \<Rightarrow> string" where
  "str_int i = (if i < 0 then CHR ''-'' # str_nat (nat (- i)) else str_nat (nat i))"

text \<open>
  \<^verbatim>\<open>"%s" % v\<close> for a value that is a string or \<^verbatim>\<open>None\<close>.
\<close>

definition fmt_opt :: "string option \<Rightarrow> string" where
  "fmt_opt v = (case v of None \<Rightarrow> ''None'' | Some s \<Rightarrow> s)"

text \<open>
  Python compares strings by code point, lexicographically; \<^verbatim>\<open>min(xs)\<close> returns the
  first least element of a non-empty list.
\<close>

fun str_less :: "string \<Rightarrow> string \<Rightarrow> bool" where
  "str_less [] [] = False"
| "str_less [] (d # ds) = True"
| "str_less (c # cs) [] = False"
| "str_less (c # cs) (d # ds) =
     ((of_char c :: nat) < of_char d \<or> (c = d \<and> str_less cs ds))"

fun py_min :: "string list \<Rightarrow> string" where
  "py_min [] = []"
| "py_min (x # xs) = foldl (\<lambda>m y. if str_less y m then y else m) x xs"

text \<open>\<^verbatim>\<open>os.path.join\<close> (POSIX).\<close>

definition path_join2 :: "string \<Rightarrow> string \<Rightarrow> string" where
  "path_join2 path b =
     (if startswith b ''/'' then b
      else if path = [] \<or> endswith path ''/'' then path @ b
      else path @ ''/'' @ b)"

definition path_join :: "string \<Rightarrow> string list \<Rightarrow> string" where
  "path_join a ps = foldl path_join2 a ps"

subsection \<open>Errors\<close>

text \<open>
  \<open>EasyBuildError m\<close> carries the formatted message. \<open>TypeError\<close> is Python's own
  error for an operation on \<^verbatim>\<open>None\<close>. \<open>CmdFailed c\<close> is the error that the
  framework's \<^verbatim>\<open>run_cmd\<close> raises when the command \<open>c\<close> exits with a non-zero code.
\<close>

datatype error = EasyBuildError string | TypeError | CmdFailed string

subsection \<open>Module constants\<close>

definition CLANG_TARGETS :: "string list" where
  "CLANG_TARGETS = [''all'', ''AArch64'', ''AMDGPU'', ''ARM'', ''CppBackend'', ''Hexagon'', ''Mips'',
                    ''MBlaze'', ''MSP430'', ''NVPTX'', ''PowerPC'', ''R600'', ''RISCV'', ''Sparc'',
                    ''SystemZ'', ''X86'', ''XCore'']"

text \<open>
  The CPU architecture names are constants of the framework
  (\<^verbatim>\<open>easybuild.tools.systemtools\<close>); the source only compares them and formats them
  into file names. They are the constructors of a datatype, \<open>OTHER_ARCH\<close> standing for
  every other value that \<^verbatim>\<open>get_cpu_architecture()\<close> may return.
\<close>

datatype cpu_arch = AARCH32 | AARCH64 | POWER | RISCV64 | X86_64 | OTHER_ARCH string

definition DEFAULT_TARGETS_MAP :: "(cpu_arch \<times> string list) list" where
  "DEFAULT_TARGETS_MAP =
     [(AARCH32, [''ARM'']),
      (AARCH64, [''AArch64'']),
      (POWER, [''PowerPC'']),
      (RISCV64, [''RISCV'']),
      (X86_64, [''X86''])]"

subsection \<open>The build recipe, the framework and the easyblock\<close>

text \<open>
  The easyconfig parameters that the easyblock reads or updates. \<open>configopts\<close> holds the
  values passed to \<^verbatim>\<open>cfg.update('configopts', v)\<close> in order; \<open>dependencies\<close> holds
  the names of the dependencies.
\<close>

record easyconfig =
  amd_gfx_list :: "string list option"
  assertions :: bool
  bootstrap :: bool
  build_targets :: "string list option"
  default_cuda_capability :: "string option"
  default_openmp_runtime :: "string option"
  enable_rtti :: bool
  python_bindings :: bool
  skip_all_tests :: bool
  test_suite_max_failed :: int
  configopts :: "string list"
  dependencies :: "string list"
  cuda_compute_capabilities :: "string list option"
  parallel :: int
  sanity_check_paths :: "string \<rightharpoonup> string list"

text \<open>
  What the easyblock asks of the framework and of the host.
  \<open>LooseVersion_less a b\<close> is \<^verbatim>\<open>LooseVersion(a) < LooseVersion(b)\<close>;
  \<open>which p c\<close> is \<^verbatim>\<open>which(c)\<close> when \<^verbatim>\<open>$PATH\<close> is \<open>p\<close>;
  \<open>prepare_rpath_wrappers\<close> is the change that
  \<^verbatim>\<open>Clang(...).prepare_rpath_wrappers()\<close> makes to the process environment;
  \<open>run_cmd_ok c\<close> says whether the command \<open>c\<close> exits with code 0 and
  \<open>run_cmd_out c\<close> is its output.
\<close>

record ext =
  LooseVersion_less :: "string \<Rightarrow> string \<Rightarrow> bool"
  get_cpu_architecture :: cpu_arch
  arch_name :: "cpu_arch \<Rightarrow> string"
  toolchain_has_COMPILER_CUDA_FAMILY :: bool
  get_software_root :: "string \<Rightarrow> string option"
  path_exists :: "string \<Rightarrow> bool"
  which :: "string option \<Rightarrow> string \<Rightarrow> string option"
  build_option_rpath :: bool
  build_option_cuda_compute_capabilities :: "string list option"
  prepare_rpath_wrappers :: "(string \<rightharpoonup> string) \<Rightarrow> (string \<rightharpoonup> string)"
  run_cmd_ok :: "string \<Rightarrow> bool"
  run_cmd_out :: "string \<Rightarrow> string"
  get_shared_lib_ext :: string

text \<open>The attributes of the easyblock instance.\<close>

record easyblock =
  name :: string
  version :: string
  builddir :: string
  installdir :: string
  build_type :: string
  cfg :: easyconfig
  llvm_src_dir :: "string option"
  llvm_obj_dir_stage1 :: "string option"
  llvm_obj_dir_stage2 :: "string option"
  llvm_obj_dir_stage3 :: "string option"
  test_targets :: "string list"
  check_files :: "string list"
  check_dirs :: "string list"
  check_commands :: "string list"
  make_parallel_opts :: string
  runtime_lib_path :: string
  project_name :: string
  srcdir :: string

text \<open>\<^verbatim>\<open>self.cfg.update('configopts', v)\<close>\<close>

definition update_configopts :: "string \<Rightarrow> easyblock \<Rightarrow> easyblock" where
  "update_configopts v self = self\<lparr>cfg := (cfg self)\<lparr>configopts := configopts (cfg self) @ [v]\<rparr>\<rparr>"

subsection \<open>Initialisation\<close>

text \<open>
  The default build targets (the body of \<^verbatim>\<open>if build_targets is None\<close> in
  \<^verbatim>\<open>__init__\<close>): the entry of the host architecture in the table, then
  \<^verbatim>\<open>NVPTX\<close> when CUDA is a dependency or part of the toolchain, then
  \<^verbatim>\<open>AMDGPU\<close> when ROCR-Runtime is a dependency. A host architecture without an
  entry is the \<^verbatim>\<open>KeyError\<close> that the source turns into an error.
\<close>

definition default_build_targets :: "ext \<Rightarrow> easyconfig \<Rightarrow> error + string list" where
  "default_build_targets x c =
     (let deps = map lower (dependencies c);
          arch = get_cpu_architecture x
      in case map_of DEFAULT_TARGETS_MAP arch of
           None \<Rightarrow> Inl (EasyBuildError (''No default build targets defined for CPU architecture ''
                                          @ arch_name x arch @ ''.''))
         | Some default_targets \<Rightarrow>
             Inr (default_targets
                  @ (if ''cuda'' \<in> set deps \<or> toolchain_has_COMPILER_CUDA_FAMILY x
                     then [''NVPTX''] else [])
                  @ (if ''rocr-runtime'' \<in> set deps then [''AMDGPU''] else [])))"

text \<open>
  The build targets of \<^verbatim>\<open>__init__\<close>: the list of the easyconfig or else the default
  one, rejected when one of its entries is not in \<open>CLANG_TARGETS\<close> and when it contains
  \<^verbatim>\<open>MBlaze\<close>.
\<close>

definition select_build_targets :: "ext \<Rightarrow> easyconfig \<Rightarrow> error + string list" where
  "select_build_targets x c =
     (case (case build_targets c of
              None \<Rightarrow> default_build_targets x c
            | Some ts \<Rightarrow> Inr ts) of
        Inl e \<Rightarrow> Inl e
      | Inr targets \<Rightarrow>
          (let unknown_targets = filter (\<lambda>target. target \<notin> set CLANG_TARGETS) targets
           in if unknown_targets \<noteq> []
              then Inl (EasyBuildError (''Some of the chosen build targets (''
                                        @ join '', '' unknown_targets @ '') are not in ''
                                        @ join '', '' CLANG_TARGETS @ ''.''))
              else if ''MBlaze'' \<in> set targets
              then Inl (EasyBuildError
                          ''Build target MBlaze is not supported anymore in > Clang-3.3'')
              else Inr targets))"

text \<open>
  \<^verbatim>\<open>__init__\<close>, after the constructor of the parent class: the arguments are the
  name, the version, the build and install directories, the build type and the easyconfig.
  It works on no state: it returns the instance or the error it raised.
\<close>

definition init :: "ext \<Rightarrow> string \<Rightarrow> string \<Rightarrow> string \<Rightarrow> string \<Rightarrow> string \<Rightarrow> easyconfig
                     \<Rightarrow> error + easyblock" where
  "init x nm ver bdir idir btype c =
     (if LooseVersion_less x ver ''18.1.6''
      then Inl (EasyBuildError (''LLVM version '' @ ver
                                @ '' is not supported, please use version 18.1.6 or newer''))
      else if bootstrap c \<and> lower nm \<noteq> ''clang''
      then Inl (EasyBuildError ''Bootstrapping only supported for Clang'')
      else
        let c1 = c\<lparr>configopts := configopts c @ [''-DPython3_FIND_VIRTUALENV=STANDARD'']\<rparr>
        in case select_build_targets x c1 of
             Inl e \<Rightarrow> Inl e
           | Inr targets \<Rightarrow>
               (let n = lower nm;
                    n' = (if startswith n ''llvm'' then drop 4 n else n)
                in Inr \<lparr>name = nm, version = ver, builddir = bdir, installdir = idir,
                        build_type = btype, cfg = c1\<lparr>build_targets := Some targets\<rparr>,
                        llvm_src_dir = None,
                        llvm_obj_dir_stage1 = None,
                        llvm_obj_dir_stage2 = None,
                        llvm_obj_dir_stage3 = None,
                        test_targets = [],
                        check_files = [],
                        check_dirs = [],
                        check_commands = [],
                        make_parallel_opts = [],
                        runtime_lib_path = ''lib'',
                        project_name = n',
                        srcdir = path_join bdir [n']\<rparr>))"

subsection \<open>State, effects and exceptions\<close>

text \<open>
  The calls that act on the file system, on subprocesses or on the log are recorded in a
  trace, in the order in which they happen.
\<close>

datatype action =
    Mkdir string
  | ChangeDir string
  | Symlink string string
  | RunCmd string
  | LogWarn string
  | PrintWarning string
  | PrepareRpathWrappers
  | SuperConfigureStep string "string list"
  | SuperBuildStep
  | SuperSanityCheckStep "string \<rightharpoonup> string list" "string list"

text \<open>
  The state that a step works on: the easyblock instance, the environment of the process
  (\<^verbatim>\<open>os.environ\<close>) and the trace. A step returns the exception it raised, if any,
  together with the state at that moment: what was changed before a \<^verbatim>\<open>raise\<close>
  stays changed.
\<close>

record state =
  self :: easyblock
  env :: "string \<rightharpoonup> string"
  trace :: "action list"

type_synonym step = "state \<Rightarrow> error option \<times> state"

definition ok :: step where
  "ok s = (None, s)"

definition raise :: "error \<Rightarrow> step" where
  "raise e s = (Some e, s)"

definition seq :: "step \<Rightarrow> step \<Rightarrow> step" where
  "seq f g s = (case f s of (None, s') \<Rightarrow> g s' | (Some e, s') \<Rightarrow> (Some e, s'))"

fun seqs :: "step list \<Rightarrow> step" where
  "seqs [] = ok"
| "seqs (f # fs) = seq f (seqs fs)"

definition act :: "action \<Rightarrow> step" where
  "act a s = (None, s\<lparr>trace := trace s @ [a]\<rparr>)"

definition setvar :: "string \<Rightarrow> string \<Rightarrow> step" where
  "setvar k v s = (None, s\<lparr>env := (env s)(k \<mapsto> v)\<rparr>)"

definition modify :: "(easyblock \<Rightarrow> easyblock) \<Rightarrow> step" where
  "modify f s = (None, s\<lparr>self := f (self s)\<rparr>)"

definition update :: "string \<Rightarrow> step" where
  "update v = modify (update_configopts v)"

text \<open>
  \<^verbatim>\<open>mkdir\<close> and \<^verbatim>\<open>change_dir\<close> of a directory attribute that is still
  \<^verbatim>\<open>None\<close> fail inside \<^verbatim>\<open>os.path\<close> with a \<^verbatim>\<open>TypeError\<close>.
\<close>

definition mkdir :: "string option \<Rightarrow> step" where
  "mkdir d = (case d of None \<Rightarrow> raise TypeError | Some p \<Rightarrow> act (Mkdir p))"

definition change_dir :: "string option \<Rightarrow> step" where
  "change_dir d = (case d of None \<Rightarrow> raise TypeError | Some p \<Rightarrow> act (ChangeDir p))"

text \<open>Python's truth value of an optional string and of an optional list.\<close>

definition truthy :: "'a list option \<Rightarrow> bool" where
  "truthy v = (case v of None \<Rightarrow> False | Some l \<Rightarrow> l \<noteq> [])"

text \<open>\<^verbatim>\<open>a or b\<close>\<close>

definition py_or :: "'a list option \<Rightarrow> 'a list option \<Rightarrow> 'a list option" where
  "py_or a b = (if truthy a then a else b)"

subsection \<open>Per-project configuration\<close>

text \<open>\<^verbatim>\<open>_clang_config\<close>\<close>

definition clang_config :: "ext \<Rightarrow> step" where
  \<open>clang_config x = seqs [
     (\<lambda>s. if get_software_root x ''LLVMruntimes'' = None
          then raise (EasyBuildError ''LLVMruntimes is required to build Clang'') s else ok s),
     (\<lambda>s. if get_software_root x ''lld'' = None
          then raise (EasyBuildError ''lld is required to build Clang'') s else ok s),
     (\<lambda>s. if get_software_root x ''compiler-rt'' = None
          then raise (EasyBuildError ''compiler-rt is required to build Clang'') s else ok s),
     (\<lambda>s. if enable_rtti (cfg (self s)) \<and> lower (name (self s)) = ''clang''
          then seqs [update ''-DLLVM_REQUIRES_RTTI=ON'',
                     update ''-DLLVM_ENABLE_RTTI=ON'',
                     update ''-DLLVM_ENABLE_EH=ON''] s
          else ok s),
     (\<lambda>s. if truthy (default_openmp_runtime (cfg (self s)))
          then update (''-DCLANG_DEFAULT_OPENMP_RUNTIME=''
                       @ fmt_opt (default_openmp_runtime (cfg (self s)))) s
          else ok s),
     update ''-DCLANG_DEFAULT_LINKER=lld'',
     update ''-DCLANG_DEFAULT_CXX_STDLIB=libc++'',
     update ''-DCLANG_DEFAULT_RTLIB=compiler-rt'',
     update ''-DLLVM_BUILD_UTILS=ON'',
     (\<lambda>s. if \<not> truthy (which x (env s ''PATH'') ''llvm-gtest'')
          then seqs [act (LogWarn ''llvm-gtest not found, disabling tests''),
                     update ''-DLLVM_INCLUDE_TESTS=OFF''] s
          else seqs [update ''-DLLVM_INCLUDE_TESTS=ON'',
                     modify (\<lambda>b. b\<lparr>test_targets := [''check-clang'']\<rparr>)] s),
     (\<lambda>s. let gcc_prefix = (case get_software_root x ''GCCcore'' of
                               None \<Rightarrow> get_software_root x ''GCC'' | Some r \<Rightarrow> Some r)
          in case gcc_prefix of
               None \<Rightarrow> raise (EasyBuildError ''Can't find GCC or GCCcore to use'') s
             | Some r \<Rightarrow> update (''-DGCC_INSTALL_PREFIX='' @ [CHR 0x27] @ r @ [CHR 0x27]) s),
     modify (\<lambda>b. b\<lparr>check_files := check_files b
        @ map (\<lambda>f. ''bin/'' @ f)
            [''clang'', ''clang++'', ''clang-cpp'', ''clang-cl'', ''clang-repl'', ''hmaptool'',
             ''amdgpu-arch'', ''nvptx-arch'', ''intercept-build'', ''scan-build'',
             ''scan-build-py'', ''scan-view'', ''analyze-build'', ''c-index-test'',
             ''clang-tblgen'']
        @ map (\<lambda>f. ''lib/'' @ f)
            [''libclang.so'', ''libclang-cpp.so'', ''libclangAST.a'', ''libclangCrossTU.a'',
             ''libclangFrontend.a'', ''libclangInterpreter.a'', ''libclangParse.a'',
             ''libclangTooling.a'']\<rparr>),
     modify (\<lambda>b. b\<lparr>check_dirs := check_dirs b
        @ [''lib/cmake/clang'', ''lib/libear'', ''lib/libscanbuild'', ''include/clang'']\<rparr>),
     modify (\<lambda>b. b\<lparr>check_commands := check_commands b
        @ [join '' | ''
             [''echo '' @ [CHR 0x27] @ ''int main(int argc, char **argv) { return 1; }''
                @ [CHR 0x27],
              ''clang -xc -fplugin="$EBROOTPOLLY/lib/LLVMPolly.so" -O3 -mllvm -polly -'']]\<rparr>),
     (\<lambda>s. let cte_dir = path_join (builddir (self s)) [''clang-tools-extra'']
          in if path_exists x cte_dir
             then seqs [
               update ''-DLLVM_TOOL_CLANG_TOOLS_EXTRA_BUILD=ON'',
               update (''-DLLVM_EXTERNAL_CLANG_TOOLS_EXTRA_SOURCE_DIR='' @ cte_dir),
               modify (\<lambda>b. b\<lparr>check_files := check_files b
                 @ map (\<lambda>f. ''bin/'' @ f)
                     [''clangd'', ''clang-tidy'', ''clang-pseudo'', ''clang-include-fixer'',
                      ''clang-query'', ''clang-move'', ''clang-reorder-fields'',
                      ''clang-include-cleaner'', ''clang-apply-replacements'',
                      ''clang-change-namespace'', ''pp-trace'', ''modularize'']
                 @ map (\<lambda>f. ''lib/'' @ f)
                     [''libclangTidy.a'', ''libclangQuery.a'', ''libclangIncludeFixer.a'',
                      ''libclangIncludeCleaner.a'']\<rparr>)] s
             else ok s)]\<close>

text \<open>\<^verbatim>\<open>_flang_config\<close>\<close>

definition flang_config :: "ext \<Rightarrow> step" where
  "flang_config x = seqs [
     (\<lambda>s. if get_software_root x ''lld'' = None
          then raise (EasyBuildError ''lld is required to build Clang'') s else ok s),
     (\<lambda>s. if get_software_root x ''compiler-rt'' = None
          then raise (EasyBuildError ''compiler-rt is required to build Clang'') s else ok s),
     update ''-DFLANG_DEFAULT_LINKER=lld'',
     update ''-DFLANG_DEFAULT_RTLIB=compiler-rt'',
     modify (\<lambda>b. b\<lparr>check_files := check_files b
        @ map (\<lambda>f. ''bin/'' @ f)
            [''bbc'', ''flang-new'', ''flang-to-external-fc'', ''f18-parse-demo'', ''fir-opt'',
             ''tco'']
        @ map (\<lambda>f. ''lib/'' @ f)
            [''libFortranRuntime.a'', ''libFortranSNemantics.a'', ''libFortranLower.a'',
             ''libFortranParser.a'', ''libFIRCodeGen.a'', ''libflangFrontend.a'',
             ''libFortranCommon.a'', ''libFortranDecimal.a'', ''libHLFIRDialect.a'']\<rparr>)]"

text \<open>
  \<^verbatim>\<open>_polly_config\<close>. \<^verbatim>\<open>"NVPTX" in build_targets\<close> on a list that is still
  \<^verbatim>\<open>None\<close> is a \<^verbatim>\<open>TypeError\<close>.
\<close>

definition polly_config :: "ext \<Rightarrow> step" where
  "polly_config x = seqs [
     modify (\<lambda>b. b\<lparr>test_targets := [''check-polly'']\<rparr>),
     modify (\<lambda>b. b\<lparr>check_files := check_files b
        @ [''lib/LLVMPolly.so'', ''lib/libPolly.a'', ''lib/libPollyISL.a'']\<rparr>),
     modify (\<lambda>b. b\<lparr>check_dirs := check_dirs b @ [''lib/cmake/polly'', ''include/polly'']\<rparr>),
     (\<lambda>s. case build_targets (cfg (self s)) of
            None \<Rightarrow> raise TypeError s
          | Some targets \<Rightarrow>
              if ''NVPTX'' \<in> set targets
              then update ''-DPOLLY_ENABLE_GPGPU_CODEGEN=ON'' s else ok s)]"

text \<open>\<^verbatim>\<open>_mlir_config\<close>\<close>

definition mlir_config :: "ext \<Rightarrow> step" where
  "mlir_config x = seqs [
     update ''-DLLVM_BUILD_UTILS=ON'',
     update ''-DMLIR_INCLUDE_TESTS=On'',
     modify (\<lambda>b. b\<lparr>test_targets := [''check-mlir'']\<rparr>),
     modify (\<lambda>b. b\<lparr>check_files := check_files b
        @ [''bin/mlir-tblgen'', ''bin/tblgen-to-irdl'', ''bin/mlir-pdll'',
           ''lib/libMLIRIR.a'', ''lib/libmlir_async_runtime.so'',
           ''lib/libmlir_arm_runner_utils.so'', ''lib/libmlir_c_runner_utils.so'',
           ''lib/libmlir_float16_utils.so'']\<rparr>),
     modify (\<lambda>b. b\<lparr>check_dirs := check_dirs b
        @ [''lib/cmake/mlir'', ''include/mlir'', ''include/mlir-c'']\<rparr>),
     (\<lambda>s. if python_bindings (cfg (self s))
          then update ''-DMLIR_ENABLE_BINDINGS_PYTHON=ON'' s else ok s)]"

text \<open>\<^verbatim>\<open>_runtimes_config\<close>\<close>

definition runtimes_config :: "ext \<Rightarrow> step" where
  "runtimes_config x = seqs [
     modify (\<lambda>b. b\<lparr>test_targets :=
        [''check-runtimes'', ''check-unwind'', ''check-cxx'', ''check-cxxabi'']\<rparr>),
     update (''-DLLVM_ENABLE_RUNTIMES='' @ [CHR 0x27] @ ''libunwind;libcxxabi;libcxx''
             @ [CHR 0x27]),
     update ''-DLIBCXX_INCLUDE_BENCHMARKS=OFF'',
     update ''-DCXX_SUPPORTS_NOSTDLIBXX_FLAG=OFF'',
     (\<lambda>s. if get_software_root x ''compiler-rt'' = None
          then raise (EasyBuildError ''compiler-rt is required to build LLVMruntimes'') s
          else ok s),
     update ''-DLIBCXX_CXX_ABI=libcxxabi'',
     update ''-DLIBCXX_USE_COMPILER_RT=On'',
     update ''-DLIBCXXABI_USE_LLVM_UNWINDER=On'',
     update ''-DLIBCXXABI_USE_COMPILER_RT=On'',
     modify (\<lambda>b. b\<lparr>check_files := check_files b
        @ map (\<lambda>f. ''lib/'' @ f)
            [''libunwind.a'', ''libc++.a'', ''libc++abi.a'', ''libunwind.so'', ''libc++.so'',
             ''libc++abi.so'']
        @ map (\<lambda>f. ''include/'' @ f)
            [''unwind.h'', ''libunwind.h'', ''mach-o/compact_unwind_encoding.h'']\<rparr>),
     modify (\<lambda>b. b\<lparr>check_dirs := check_dirs b @ [''include/c++'', ''include/mach-o'']\<rparr>)]"

text \<open>\<^verbatim>\<open>_lld_config\<close>\<close>

definition lld_config :: "ext \<Rightarrow> step" where
  "lld_config x = seqs [
     update ''-DLLVM_INCLUDE_TESTS=On'',
     modify (\<lambda>b. b\<lparr>test_targets := [''check-lld'']\<rparr>),
     modify (\<lambda>b. b\<lparr>check_files := check_files b
        @ [''bin/lld'', ''bin/ld.lld'', ''bin/ld64.lld'', ''bin/wasm-ld'', ''bin/lld-link'',
           ''lib/liblldCOFF.a'', ''lib/liblldCommon.a'', ''lib/liblldELF.a'',
           ''lib/liblldMachO.a'', ''lib/liblldMinGW.a'', ''lib/liblldWasm.a'']\<rparr>),
     modify (\<lambda>b. b\<lparr>check_dirs := check_dirs b @ [''lib/cmake/lld'', ''include/lld'']\<rparr>)]"

text \<open>\<^verbatim>\<open>_lldb_config\<close>\<close>

definition lldb_config :: "ext \<Rightarrow> step" where
  "lldb_config x = modify (\<lambda>b. b\<lparr>check_files := check_files b @ [''bin/lldb'']\<rparr>)"

text \<open>\<^verbatim>\<open>_compiler_rt_config\<close>\<close>

definition compiler_rt_config :: "ext \<Rightarrow> step" where
  "compiler_rt_config x = seqs [
     modify (\<lambda>b. b\<lparr>check_files := check_files b
        @ map (\<lambda>f. ''lib/linux/'' @ f @ ''-'' @ arch_name x (get_cpu_architecture x) @ ''.a'')
            [''libclang_rt.asan'', ''libclang_rt.hwasan'', ''libclang_rt.lsan'',
             ''libclang_rt.memprof'', ''libclang_rt.xray'', ''libclang_rt.scudo_standalone'',
             ''libclang_rt.stats'', ''libclang_rt.tsan'', ''libclang_rt.ubsan_minimal'']
        @ [''bin/hwasan_symbolize'']\<rparr>),
     modify (\<lambda>b. b\<lparr>check_dirs := check_dirs b
        @ [''include/sanitizer'', ''include/fuzzer'', ''include/orc'', ''include/xray'']\<rparr>)]"

text \<open>
  \<^verbatim>\<open>getattr(self, '_%s_config' % self.project_name.replace('-', '_'), None)\<close>:
  the methods of that form which the class defines.
\<close>

definition configure_func :: "ext \<Rightarrow> string \<Rightarrow> step option" where
  "configure_func x pn =
     (let k = replace ''-'' ''_'' pn
      in if k = ''clang'' then Some (clang_config x)
         else if k = ''flang'' then Some (flang_config x)
         else if k = ''polly'' then Some (polly_config x)
         else if k = ''mlir'' then Some (mlir_config x)
         else if k = ''runtimes'' then Some (runtimes_config x)
         else if k = ''lld'' then Some (lld_config x)
         else if k = ''lldb'' then Some (lldb_config x)
         else if k = ''compiler_rt'' then Some (compiler_rt_config x)
         else None)"

subsection \<open>The configure step\<close>

abbreviation (input) apos :: string where
  "apos \<equiv> [CHR 0x27]"

text \<open>
  The part of \<^verbatim>\<open>configure_step\<close> for the \<^verbatim>\<open>NVPTX\<close> target. The list of
  CUDA compute capabilities comes from the framework configuration or else from the
  easyconfig; the default capability is the one of the easyconfig or else
  \<^verbatim>\<open>min(cuda_cc)\<close>, in which case a warning is printed.
\<close>

definition nvptx_config :: "ext \<Rightarrow> step" where
  "nvptx_config x s =
     (let ec_cuda_cc = cuda_compute_capabilities (cfg (self s));
          cfg_cuda_cc = build_option_cuda_compute_capabilities x;
          cuda_cc = (case py_or (py_or cfg_cuda_cc ec_cuda_cc) (Some []) of
                       None \<Rightarrow> [] | Some l \<Rightarrow> l)
      in if cuda_cc = []
         then raise (EasyBuildError (''Can't build Clang with CUDA support ''
                       @ ''without specifying '' @ apos @ ''cuda-compute-capabilities'' @ apos)) s
         else
           let default_cc = (if truthy (default_cuda_capability (cfg (self s)))
                             then fmt_opt (default_cuda_capability (cfg (self s)))
                             else py_min cuda_cc)
           in seqs [
                (if \<not> truthy (default_cuda_capability (cfg (self s)))
                 then act (PrintWarning (''No default CUDA capability defined! ''
                        @ ''Using '' @ apos @ default_cc @ apos
                        @ '' taken as minimum from '' @ apos @ ''cuda_compute_capabilities''
                        @ apos))
                 else ok),
                update (''-DCLANG_OPENMP_NVPTX_DEFAULT_ARCH=sm_'' @ replace ''.'' [] default_cc),
                update (''-DLIBOMPTARGET_NVPTX_COMPUTE_CAPABILITIES=''
                        @ join '','' (map (replace ''.'' []) cuda_cc))] s)"

text \<open>The part of \<^verbatim>\<open>configure_step\<close> for the \<^verbatim>\<open>AMDGPU\<close> target.\<close>

definition amdgpu_config :: "ext \<Rightarrow> step" where
  "amdgpu_config x s =
     (if \<not> truthy (get_software_root x ''ROCR-Runtime'')
      then raise (EasyBuildError (''Can't build Clang with AMDGPU support ''
                    @ ''without dependency '' @ apos @ ''ROCR-Runtime'' @ apos)) s
      else if \<not> truthy (amd_gfx_list (cfg (self s)))
      then raise (EasyBuildError (''Can't build Clang with AMDGPU support ''
                    @ ''without specifying '' @ apos @ ''amd_gfx_list'' @ apos)) s
      else update (''-DLIBOMPTARGET_AMDGCN_GFXLIST=''
                   @ join '' '' (case amd_gfx_list (cfg (self s)) of None \<Rightarrow> [] | Some l \<Rightarrow> l)) s)"

text \<open>
  \<^verbatim>\<open>configure_step\<close> is split into the parts that follow, in the order of the source.
  First the dependencies: LLVM must be there, each sibling project that is installed
  gives its CMake directory, and the CMake modules of an LLVM source tree in the build
  directory are added to the module path.
\<close>

definition configure_deps :: "ext \<Rightarrow> step" where
  "configure_deps x = seqs [
     (\<lambda>s. if \<not> truthy (get_software_root x ''LLVM'')
          then raise (EasyBuildError ''Can't find LLVM to use'') s else ok s),
     seqs (map (\<lambda>prevs s.
                  if truthy (get_software_root x prevs)
                  then update (''-D'' @ upper prevs @ ''_DIR=''
                               @ path_join (fmt_opt (get_software_root x prevs))
                                   [''lib'', ''cmake'', lower prevs]) s
                  else ok s)
             [''LLVM'', ''lld'', ''lldb'', ''clang-tools-extra'', ''clang'', ''flang'', ''mlir'']),
     (\<lambda>s. let llvm_path = path_join (builddir (self s)) [''llvm'']
          in if path_exists x llvm_path
             then (let llvm_path' = path_join llvm_path [''cmake'', ''modules''];
                       cmake_mpath = (case env s ''CMAKE_MODULE_PATH'' of
                                        None \<Rightarrow> llvm_path'
                                      | Some m \<Rightarrow> llvm_path' @ '';'' @ m)
                   in update (''-DCMAKE_MODULE_PATH='' @ cmake_mpath) s)
             else ok s),
     update ''-DLLVM_LINK_LLVM_DYLIB=ON'']"

text \<open>The build directories of the stages; the one of stage 1 is created and entered.\<close>

definition configure_dirs :: "ext \<Rightarrow> step" where
  "configure_dirs x = seqs [
     modify (\<lambda>b. b\<lparr>llvm_obj_dir_stage1 := Some (path_join (builddir b) [''llvm.obj.1''])\<rparr>),
     (\<lambda>s. if bootstrap (cfg (self s))
          then modify (\<lambda>b. b\<lparr>llvm_obj_dir_stage2 := Some (path_join (builddir b) [''llvm.obj.2'']),
                              llvm_obj_dir_stage3 := Some (path_join (builddir b) [''llvm.obj.3''])\<rparr>) s
          else ok s),
     (\<lambda>s. mkdir (llvm_obj_dir_stage1 (self s)) s),
     (\<lambda>s. change_dir (llvm_obj_dir_stage1 (self s)) s)]"

text \<open>The configuration function of the project, when there is one.\<close>

definition configure_project :: "ext \<Rightarrow> step" where
  "configure_project x s =
     (case configure_func x (project_name (self s)) of
        None \<Rightarrow> ok s
      | Some f \<Rightarrow> f s)"

text \<open>The options that every project gets: assertions, the linker and the LLVM tools.\<close>

definition configure_common :: "ext \<Rightarrow> step" where
  "configure_common x = seqs [
     (\<lambda>s. if assertions (cfg (self s))
          then update ''-DLLVM_ENABLE_ASSERTIONS=ON'' s
          else update ''-DLLVM_ENABLE_ASSERTIONS=OFF'' s),
     (\<lambda>s. if truthy (get_software_root x ''lld'')
          then update (''-DCMAKE_EXE_LINKER_FLAGS=-fuse-ld='' @ ''lld'') s
          else ok s),
     update (''-DCMAKE_AR=''
             @ path_join (fmt_opt (get_software_root x ''LLVM'')) [''bin'', ''llvm-ar'']),
     update (''-DCMAKE_NM=''
             @ path_join (fmt_opt (get_software_root x ''LLVM'')) [''bin'', ''llvm-nm'']),
     update (''-DCMAKE_RANLIB=''
             @ path_join (fmt_opt (get_software_root x ''LLVM'')) [''bin'', ''llvm-ranlib''])]"

text \<open>
  The build targets are handed to CMake as they are, joined by semicolons.
\<close>

definition targets_flag :: "string list \<Rightarrow> string" where
  \<open>targets_flag targets = ''-DLLVM_TARGETS_TO_BUILD="'' @ join '';'' targets @ ''"''\<close>

text \<open>
  The steps that depend on the build targets, in the order of the source: the list of
  targets for CMake, the parallelism of \<^verbatim>\<open>make\<close>, hwloc, the CUDA capabilities when
  \<^verbatim>\<open>NVPTX\<close> is a target, the variable that hides CUDA from CMake when CUDA is not
  installed, the AMD GPU list when \<^verbatim>\<open>AMDGPU\<close> is a target.
\<close>

definition targets_steps :: "ext \<Rightarrow> string list \<Rightarrow> step list" where
  "targets_steps x targets =
     [update (targets_flag targets),
      (\<lambda>s. if parallel (cfg (self s)) \<noteq> 0
           then modify (\<lambda>b. b\<lparr>make_parallel_opts :=
                                ''-j '' @ str_int (parallel (cfg b))\<rparr>) s
           else ok s),
      (\<lambda>s. if truthy (get_software_root x ''hwloc'')
           then seqs [update ''-DLIBOMP_USE_HWLOC=ON'',
                      update (''-DLIBOMP_HWLOC_INSTALL_DIR=''
                              @ fmt_opt (get_software_root x ''hwloc''))] s
           else ok s),
      (if ''NVPTX'' \<in> set targets then nvptx_config x else ok),
      (if \<not> truthy (get_software_root x ''CUDA'')
       then setvar ''CUDA_NVCC_EXECUTABLE'' ''IGNORE'' else ok),
      (if ''AMDGPU'' \<in> set targets then amdgpu_config x else ok)]"

text \<open>
  \<^verbatim>\<open>';'.join(build_targets)\<close> on a list that is still \<^verbatim>\<open>None\<close> is a
  \<^verbatim>\<open>TypeError\<close>.
\<close>

definition configure_targets :: "ext \<Rightarrow> step" where
  "configure_targets x s =
     (case build_targets (cfg (self s)) of
        None \<Rightarrow> raise TypeError s
      | Some targets \<Rightarrow> seqs (targets_steps x targets) s)"

text \<open>
  \<^verbatim>\<open>configure_step\<close>. The configure step of the parent class comes last; it is
  recorded with the source directory and the options accumulated so far.
\<close>

definition configure_steps :: "ext \<Rightarrow> step list" where
  "configure_steps x =
     [configure_deps x,
      configure_dirs x,
      configure_project x,
      configure_common x,
      configure_targets x,
      (\<lambda>s. act (SuperConfigureStep (srcdir (self s)) (configopts (cfg (self s)))) s)]"

definition configure_step :: "ext \<Rightarrow> step" where
  "configure_step x = seqs (configure_steps x)"

subsection \<open>The staged build\<close>

text \<open>\<^verbatim>\<open>os.path.dirname\<close> (POSIX).\<close>

definition dirname :: "string \<Rightarrow> string" where
  "dirname p =
     (let head = rev (dropWhile (\<lambda>c. c \<noteq> CHR ''/'') (rev p))
      in if head \<noteq> [] \<and> \<not> list_all (\<lambda>c. c = CHR ''/'') head
         then rev (dropWhile (\<lambda>c. c = CHR ''/'') (rev head))
         else head)"

text \<open>
  \<^verbatim>\<open>run_cmd(c, log_all=True)\<close>: the command runs, and a non-zero exit code raises.
\<close>

definition run_cmd :: "ext \<Rightarrow> string \<Rightarrow> step" where
  "run_cmd x c = seq (act (RunCmd c)) (if run_cmd_ok x c then ok else raise (CmdFailed c))"

text \<open>
  The rpath branch of \<^verbatim>\<open>build_with_prev_stage\<close>: the wrappers are prepared, the
  \<^verbatim>\<open>opt\<close> tool of the previous stage is linked next to the wrapper of
  \<^verbatim>\<open>clang\<close>, and the flag that silences the warning about unused arguments is added
  to \<^verbatim>\<open>CFLAGS\<close> and \<^verbatim>\<open>CXXFLAGS\<close>. \<^verbatim>\<open>os.path.dirname(None)\<close> is a
  \<^verbatim>\<open>TypeError\<close>.
\<close>

definition rpath_wrappers :: "ext \<Rightarrow> string \<Rightarrow> step" where
  "rpath_wrappers x prev_obj_path = seqs [
     act PrepareRpathWrappers,
     (\<lambda>s. (None, s\<lparr>env := prepare_rpath_wrappers x (env s)\<rparr>)),
     (\<lambda>s. case which x (env s ''PATH'') ''clang'' of
            None \<Rightarrow> raise TypeError s
          | Some c \<Rightarrow> act (Symlink (path_join prev_obj_path [''opt''])
                                    (path_join (dirname c) [''opt''])) s),
     (\<lambda>s. let cflags = env s ''CFLAGS'';
              cxxflags = env s ''CXXFLAGS''
          in seqs [
               setvar ''CFLAGS'' (fmt_opt cflags @ '' '' @ ''-Wno-unused-command-line-argument''),
               setvar ''CXXFLAGS'' (fmt_opt cxxflags @ '' '' @ ''-Wno-unused-command-line-argument'')
             ] s)]"

text \<open>
  The options and the two subprocesses of \<^verbatim>\<open>build_with_prev_stage\<close>.
  \<^verbatim>\<open>LooseVersion(a) >= LooseVersion(b)\<close> is the negation of
  \<^verbatim>\<open>LooseVersion(a) < LooseVersion(b)\<close>; \<^verbatim>\<open>self.cfg['configopts']\<close> is the
  accumulated options separated by spaces; \<^verbatim>\<open>os.path.join(None, "llvm")\<close> is a
  \<^verbatim>\<open>TypeError\<close>.
\<close>

definition cmake_and_make :: "ext \<Rightarrow> step" where
  "cmake_and_make x s =
     (let clang = which x (env s ''PATH'') ''clang'';
          clangxx = which x (env s ''PATH'') ''clang++'';
          options =
            [''-DCMAKE_INSTALL_PREFIX='' @ installdir (self s) @ '' '',
             ''-DCMAKE_C_COMPILER='' @ apos @ fmt_opt clang @ apos @ '' '',
             ''-DCMAKE_CXX_COMPILER='' @ apos @ fmt_opt clangxx @ apos @ '' '',
             join '' '' (configopts (cfg (self s))),
             ''-DCMAKE_BUILD_TYPE='' @ build_type (self s) @ '' '']
            @ (if build_option_rpath x
               then [''-DLIBOMPTARGET_NVPTX_BC_LINKER=''
                     @ fmt_opt (which x (env s ''PATH'') ''llvm-link'')]
               else [])
      in seqs [
           (if \<not> LooseVersion_less x (version (self s)) ''14''
            then (case llvm_src_dir (self s) of
                    None \<Rightarrow> raise TypeError
                  | Some d \<Rightarrow> run_cmd x (''cmake '' @ join '' '' options @ '' ''
                                          @ path_join d [''llvm'']))
            else run_cmd x (''cmake '' @ join '' '' options @ '' ''
                            @ fmt_opt (llvm_src_dir (self s)))),
           run_cmd x (''make '' @ make_parallel_opts (self s) @ '' VERBOSE=1'')] s)"

text \<open>
  \<^verbatim>\<open>build_with_prev_stage\<close> from the point where \<^verbatim>\<open>$PATH\<close> is changed, for
  the directory \<open>prev_obj_path\<close> of the compilers of the previous stage and the value
  \<open>orig\<close> that \<^verbatim>\<open>$PATH\<close> had: the directory is put in front of \<^verbatim>\<open>$PATH\<close>,
  the rpath wrappers are prepared when rpath is used, CMake and make run, and the last
  statement sets \<^verbatim>\<open>$PATH\<close> back.
\<close>

definition stage_steps :: "ext \<Rightarrow> string \<Rightarrow> string \<Rightarrow> step list" where
  "stage_steps x prev_obj_path orig =
     [setvar ''PATH'' (prev_obj_path @ '':'' @ orig),
      (if build_option_rpath x then rpath_wrappers x prev_obj_path else ok),
      cmake_and_make x,
      setvar ''PATH'' orig]"

text \<open>
  The part of \<^verbatim>\<open>build_with_prev_stage\<close> after the build directory has been entered.
  \<^verbatim>\<open>os.path.join(None, 'bin')\<close> and the concatenation with a \<^verbatim>\<open>$PATH\<close> that is
  not set are \<^verbatim>\<open>TypeError\<close>s.
\<close>

definition run_stage :: "ext \<Rightarrow> string option \<Rightarrow> step" where
  "run_stage x prev_obj s =
     (let orig_path = env s ''PATH''
      in case prev_obj of
           None \<Rightarrow> raise TypeError s
         | Some prev \<Rightarrow>
             (let prev_obj_path = path_join prev [''bin'']
              in case orig_path of
                   None \<Rightarrow> raise TypeError s
                 | Some orig \<Rightarrow> seqs (stage_steps x prev_obj_path orig) s))"

text \<open>
  \<^verbatim>\<open>build_with_prev_stage(prev_obj, next_obj)\<close>. The two directories are attributes
  of the instance and may still be \<^verbatim>\<open>None\<close>.
\<close>

definition build_with_prev_stage :: "ext \<Rightarrow> string option \<Rightarrow> string option \<Rightarrow> step" where
  "build_with_prev_stage x prev_obj next_obj =
     seqs [mkdir next_obj, change_dir next_obj, run_stage x prev_obj]"

text \<open>
  \<^verbatim>\<open>build_step\<close>: stage 1 is the build step of the parent class; with
  \<^verbatim>\<open>bootstrap\<close>, stage 2 is built with stage 1 and stage 3 with stage 2.
\<close>

definition build_step :: "ext \<Rightarrow> step" where
  "build_step x = seqs [
     (\<lambda>s. change_dir (llvm_obj_dir_stage1 (self s)) s),
     act SuperBuildStep,
     (\<lambda>s. if bootstrap (cfg (self s))
          then seqs [
                 build_with_prev_stage x (llvm_obj_dir_stage1 (self s)) (llvm_obj_dir_stage2 (self s)),
                 build_with_prev_stage x (llvm_obj_dir_stage2 (self s)) (llvm_obj_dir_stage3 (self s))
               ] s
          else ok s)]"

subsection \<open>The test step\<close>

text \<open>
  The two regular expressions of \<^verbatim>\<open>test_step\<close> are
  \<^verbatim>\<open>^ +Failed +: +([0-9]+)\<close> and \<^verbatim>\<open>^ +Passed +: +([0-9]+)\<close>, compiled with
  \<^verbatim>\<open>re.MULTILINE\<close>. \<open>spaces1\<close> is \<^verbatim>\<open> +\<close> (one or more spaces, as many as
  there are), \<open>literal\<close> a fixed text and \<open>digits1\<close> the group \<^verbatim>\<open>([0-9]+)\<close>; each
  returns what is left of the input, \<open>digits1\<close> returns the group. The text that follows
  each \<^verbatim>\<open> +\<close> does not start with a space, so the match never has to give a space
  back.
\<close>

definition spaces1 :: "string \<Rightarrow> string option" where
  "spaces1 s =
     (case s of
        [] \<Rightarrow> None
      | c # cs \<Rightarrow> if c = CHR '' '' then Some (dropWhile (\<lambda>c. c = CHR '' '') cs) else None)"

definition literal :: "string \<Rightarrow> string \<Rightarrow> string option" where
  "literal p s = (if startswith s p then Some (drop (length p) s) else None)"

definition is_digit :: "char \<Rightarrow> bool" where
  "is_digit c = (c \<in> set ''0123456789'')"

definition digits1 :: "string \<Rightarrow> string option" where
  "digits1 s = (let ds = takeWhile is_digit s in if ds = [] then None else Some ds)"

text \<open>The expression \<^verbatim>\<open> +word +: +([0-9]+)\<close> matched at the start of \<open>s\<close>.\<close>

definition match_summary :: "string \<Rightarrow> string \<Rightarrow> string option" where
  "match_summary word s =
     (case spaces1 s of None \<Rightarrow> None | Some s1 \<Rightarrow>
       (case literal word s1 of None \<Rightarrow> None | Some s2 \<Rightarrow>
         (case spaces1 s2 of None \<Rightarrow> None | Some s3 \<Rightarrow>
           (case literal '':'' s3 of None \<Rightarrow> None | Some s4 \<Rightarrow>
             (case spaces1 s4 of None \<Rightarrow> None | Some s5 \<Rightarrow> digits1 s5)))))"

text \<open>
  \<^verbatim>\<open>rgx.search(out)\<close>: the first position, from left to right, at which the expression
  matches. With \<^verbatim>\<open>re.MULTILINE\<close>, \<^verbatim>\<open>^\<close> holds at the start of the text and
  after each newline; \<open>bol\<close> says whether the current position is one of these. The result
  is \<^verbatim>\<open>mch.group(1)\<close>.
\<close>

fun search_from :: "string \<Rightarrow> bool \<Rightarrow> string \<Rightarrow> string option" where
  "search_from word bol [] = None"
| "search_from word bol (c # cs) =
     (case (if bol then match_summary word (c # cs) else None) of
        Some g \<Rightarrow> Some g
      | None \<Rightarrow> search_from word (c = CHR 0x0A) cs)"

definition rgx_search :: "string \<Rightarrow> string \<Rightarrow> string option" where
  "rgx_search word out = search_from word True out"

text \<open>\<^verbatim>\<open>int(ds)\<close> for a string of decimal digits.\<close>

definition digit_val :: "char \<Rightarrow> int" where
  "digit_val c = int (of_char c) - 48"

definition int_of_digits :: "string \<Rightarrow> int" where
  "int_of_digits ds = foldl (\<lambda>n c. 10 * n + digit_val c) 0 ds"

text \<open>The number of failed tests that \<^verbatim>\<open>test_step\<close> reads from the output of a test target.\<close>

definition num_failed :: "string \<Rightarrow> error + int" where
  "num_failed out =
     (case rgx_search ''Failed'' out of
        None \<Rightarrow>
          (case rgx_search ''Passed'' out of
             None \<Rightarrow> Inl (EasyBuildError ''Failed to extract test results from output'')
           | Some g \<Rightarrow> Inr 0)
      | Some g \<Rightarrow> Inr (int_of_digits g))"

text \<open>The body of the loop of \<^verbatim>\<open>test_step\<close> after the test target has run.\<close>

definition check_test_output :: "int \<Rightarrow> string \<Rightarrow> error option" where
  "check_test_output max_failed out =
     (case num_failed out of
        Inl e \<Rightarrow> Some e
      | Inr n \<Rightarrow> if n > max_failed
                 then Some (EasyBuildError (''Too many failed tests: '' @ str_int n))
                 else None)"

text \<open>
  \<^verbatim>\<open>test_step\<close>. The test targets run with \<^verbatim>\<open>log_ok=False\<close>, so the exit code of
  \<^verbatim>\<open>make\<close> raises nothing; the first target whose output is rejected ends the loop.
\<close>

definition test_target :: "ext \<Rightarrow> string \<Rightarrow> step" where
  "test_target x target = seqs [
     act (RunCmd (''make '' @ target)),
     (\<lambda>s. case check_test_output (test_suite_max_failed (cfg (self s)))
                 (run_cmd_out x (''make '' @ target)) of
            None \<Rightarrow> ok s
          | Some e \<Rightarrow> raise e s)]"

definition test_step :: "ext \<Rightarrow> step" where
  "test_step x s =
     (if \<not> skip_all_tests (cfg (self s))
      then seqs [
             (if bootstrap (cfg (self s))
              then change_dir (llvm_obj_dir_stage3 (self s))
              else change_dir (llvm_obj_dir_stage1 (self s))),
             seqs (map (test_target x) (test_targets (self s)))] s
      else ok s)"

subsection \<open>The sanity check\<close>

text \<open>
  The paths that \<^verbatim>\<open>sanity_check_step\<close> hands to the sanity check of the parent class:
  the files and directories of the easyconfig extended by the accumulated expectations;
  when the suffix of shared libraries is not \<^verbatim>\<open>so\<close>, the list of files is replaced by
  the list comprehension
  \<^verbatim>\<open>[f.replace('.so', '.%s' % shlib_ext) for f in files if f.endswith('.so')]\<close>.
\<close>

definition custom_paths :: "ext \<Rightarrow> easyblock \<Rightarrow> (string \<rightharpoonup> string list)" where
  "custom_paths x b =
     (let p0 = sanity_check_paths (cfg b);
          p1 = p0(''files'' \<mapsto> (case p0 ''files'' of None \<Rightarrow> [] | Some l \<Rightarrow> l) @ check_files b);
          p2 = p1(''dirs'' \<mapsto> (case p1 ''dirs'' of None \<Rightarrow> [] | Some l \<Rightarrow> l) @ check_dirs b);
          shlib_ext = get_shared_lib_ext x
      in if shlib_ext \<noteq> ''so''
         then (let files = (case p2 ''files'' of None \<Rightarrow> [] | Some l \<Rightarrow> l);
                   files' = map (\<lambda>f. replace ''.so'' (''.'' @ shlib_ext) f)
                                (filter (\<lambda>f. endswith f ''.so'') files)
               in p2(''files'' \<mapsto> files'))
         else p2)"

text \<open>
  \<^verbatim>\<open>sanity_check_step\<close>: the warning for a host architecture that is none of
  \<^verbatim>\<open>X86_64\<close>, \<^verbatim>\<open>POWER\<close>, \<^verbatim>\<open>AARCH64\<close>, then the sanity check of the parent
  class with the paths and the commands.
\<close>

definition sanity_check_step :: "ext \<Rightarrow> step" where
  "sanity_check_step x = seqs [
     (let arch = get_cpu_architecture x
      in if arch = X86_64 \<or> arch = POWER \<or> arch = AARCH64 then ok
         else act (PrintWarning (''Unknown CPU architecture ('' @ arch_name x arch
                                 @ '') for OpenMP and runtime libraries check!''))),
     (\<lambda>s. act (SuperSanityCheckStep (custom_paths x (self s)) ([] @ check_commands (self s))) s)]"

text \<open>The instance that \<^verbatim>\<open>__init__\<close> leaves behind when it has settled the build targets.\<close>

definition instance_of :: "string \<Rightarrow> string \<Rightarrow> string \<Rightarrow> string \<Rightarrow> string \<Rightarrow> easyconfig
                            \<Rightarrow> string list \<Rightarrow> easyblock" where
  "instance_of nm ver bdir idir btype c targets =
     \<lparr>name = nm, version = ver, builddir = bdir, installdir = idir,
      build_type = btype,
      cfg = c\<lparr>configopts := configopts c @ [''-DPython3_FIND_VIRTUALENV=STANDARD''],
              build_targets := Some targets\<rparr>,
      llvm_src_dir = None, llvm_obj_dir_stage1 = None, llvm_obj_dir_stage2 = None,
      llvm_obj_dir_stage3 = None, test_targets = [], check_files = [], check_dirs = [],
      check_commands = [], make_parallel_opts = [], runtime_lib_path = ''lib'',
      project_name = (if startswith (lower nm) ''llvm'' then drop 4 (lower nm) else lower nm),
      srcdir = path_join bdir
                 [if startswith (lower nm) ''llvm'' then drop 4 (lower nm) else lower nm]\<rparr>"

subsection \<open>What a step leaves unchanged\<close>

text \<open>
  \<open>keeps R f\<close>: the state after the step \<open>f\<close>, whether it raised or not, is related by
  \<open>R\<close> to the state before it.
\<close>

definition keeps :: "(state \<Rightarrow> state \<Rightarrow> bool) \<Rightarrow> step \<Rightarrow> bool" where
  "keeps R f = (\<forall>s. R s (snd (f s)))"

text \<open>
  \<open>extends s s'\<close>: from \<open>s\<close> to \<open>s'\<close> options were only appended, actions were only
  appended to the trace, and the rest of the easyconfig and the identity of the instance
  are the same.
\<close>

definition extends :: "state \<Rightarrow> state \<Rightarrow> bool" where
  "extends s s' =
     (prefix (configopts (cfg (self s))) (configopts (cfg (self s')))
      \<and> prefix (trace s) (trace s')
      \<and> (cfg (self s'))\<lparr>configopts := []\<rparr> = (cfg (self s))\<lparr>configopts := []\<rparr>
      \<and> name (self s') = name (self s)
      \<and> version (self s') = version (self s)
      \<and> builddir (self s') = builddir (self s)
      \<and> installdir (self s') = installdir (self s)
      \<and> build_type (self s') = build_type (self s)
      \<and> project_name (self s') = project_name (self s)
      \<and> srcdir (self s') = srcdir (self s)
      \<and> llvm_src_dir (self s') = llvm_src_dir (self s))"

text \<open>The accumulated expectations and the test targets are the same.\<close>

definition same_expectations :: "state \<Rightarrow> state \<Rightarrow> bool" where
  "same_expectations s s' =
     (check_files (self s') = check_files (self s)
      \<and> check_dirs (self s') = check_dirs (self s)
      \<and> test_targets (self s') = test_targets (self s))"

text \<open>The build directories of the stages are the same.\<close>

definition same_dirs :: "state \<Rightarrow> state \<Rightarrow> bool" where
  "same_dirs s s' =
     (llvm_obj_dir_stage1 (self s') = llvm_obj_dir_stage1 (self s)
      \<and> llvm_obj_dir_stage2 (self s') = llvm_obj_dir_stage2 (self s)
      \<and> llvm_obj_dir_stage3 (self s') = llvm_obj_dir_stage3 (self s))"

subsection \<open>The summary lines of the test output, described\<close>

text \<open>
  The lines of a text, as \<^verbatim>\<open>^\<close> sees them with \<^verbatim>\<open>re.MULTILINE\<close>: a new line
  starts after each newline character.
\<close>

abbreviation (input) newline :: char where "newline \<equiv> CHR 0x0A"
abbreviation (input) blank :: char where "blank \<equiv> CHR '' ''"

fun lines_of :: "string \<Rightarrow> string list" where
  "lines_of [] = [[]]"
| "lines_of (c # cs) =
     (if c = CHR 0x0A then [] # lines_of cs
      else (case lines_of cs of [] \<Rightarrow> [[c]] | l # ls \<Rightarrow> (c # l) # ls))"

definition spaces :: "nat \<Rightarrow> string" where
  "spaces n = replicate n (CHR '' '')"

text \<open>
  \<open>summary_line word l ds\<close>: the line \<open>l\<close> consists of one or more spaces, the word, one
  or more spaces, a colon, one or more spaces, the decimal digits \<open>ds\<close>, of which there
  is at least one, and a rest that does not go on with a digit.
\<close>

definition summary_line :: "string \<Rightarrow> string \<Rightarrow> string \<Rightarrow> bool" where
  "summary_line word l ds =
     (\<exists>a b c rest. 0 < a \<and> 0 < b \<and> 0 < c
        \<and> l = spaces a @ word @ spaces b @ '':'' @ spaces c @ ds @ rest
        \<and> ds \<noteq> [] \<and> list_all is_digit ds
        \<and> (rest = [] \<or> \<not> is_digit (hd rest)))"

text \<open>The digits of the first line of the text that is such a summary line, if there is one.\<close>

definition first_summary :: "string \<Rightarrow> string \<Rightarrow> string \<Rightarrow> bool" where
  "first_summary word out ds =
     (\<exists>ls l ls'. lines_of out = ls @ l # ls'
        \<and> (\<forall>l'\<in>set ls. \<forall>d. \<not> summary_line word l' d)
        \<and> summary_line word l ds)"

definition no_summary :: "string \<Rightarrow> string \<Rightarrow> bool" where
  "no_summary word out = (\<forall>l\<in>set (lines_of out). \<forall>d. \<not> summary_line word l d)"

text \<open>
  The group of the first of the given lines at whose start the expression
  \<^verbatim>\<open> +word +: +([0-9]+)\<close> matches.
\<close>

fun first_match :: "string \<Rightarrow> string list \<Rightarrow> string option" where
  "first_match word [] = None"
| "first_match word (l # ls) =
     (case match_summary word l of Some g \<Rightarrow> Some g | None \<Rightarrow> first_match word ls)"

subsection \<open>The order of CUDA compute capabilities, described\<close>

text \<open>
  A CUDA compute capability is written \<^verbatim>\<open>major.minor\<close>; \<open>capability_less a b\<close>: the
  capability \<open>a\<close> is below \<open>b\<close>, that is, its major number is smaller, or the major
  numbers are the same and its minor number is smaller.
\<close>

definition capability_major :: "string \<Rightarrow> int" where
  "capability_major a = int_of_digits (takeWhile (\<lambda>c. c \<noteq> CHR ''.'') a)"

definition capability_minor :: "string \<Rightarrow> int" where
  "capability_minor a = int_of_digits (drop 1 (dropWhile (\<lambda>c. c \<noteq> CHR ''.'') a))"

definition capability_less :: "string \<Rightarrow> string \<Rightarrow> bool" where
  "capability_less a b =
     (capability_major a < capability_major b
      \<or> (capability_major a = capability_major b \<and> capability_minor a < capability_minor b))"

subsection \<open>Concrete inputs\<close>

text \<open>
  An x86-64 host on which only LLVM is installed, no command is found on the search path,
  every subprocess succeeds, and the version ordering knows that 17.0.6 is below 18.1.6.
\<close>

definition host0 :: ext where
  "host0 = \<lparr>LooseVersion_less = (\<lambda>a b. a = ''17.0.6'' \<and> b = ''18.1.6''),
             get_cpu_architecture = X86_64,
             arch_name = (\<lambda>a. ''x86_64''),
             toolchain_has_COMPILER_CUDA_FAMILY = False,
             get_software_root = (\<lambda>n. if n = ''LLVM'' then Some ''/sw/LLVM'' else None),
             path_exists = (\<lambda>p. False),
             which = (\<lambda>p c. None),
             build_option_rpath = False,
             build_option_cuda_compute_capabilities = None,
             prepare_rpath_wrappers = (\<lambda>e. e),
             run_cmd_ok = (\<lambda>c. True),
             run_cmd_out = (\<lambda>c. []),
             get_shared_lib_ext = ''so''\<rparr>"

text \<open>An easyconfig with the default value of every parameter and no dependency.\<close>

definition recipe0 :: easyconfig where
  "recipe0 = \<lparr>amd_gfx_list = None,
               assertions = True,
               bootstrap = False,
               build_targets = None,
               default_cuda_capability = None,
               default_openmp_runtime = None,
               enable_rtti = False,
               python_bindings = False,
               skip_all_tests = False,
               test_suite_max_failed = 0,
               configopts = [],
               dependencies = [],
               cuda_compute_capabilities = None,
               parallel = 0,
               sanity_check_paths = Map.empty\<rparr>"

text \<open>
  The state in which the configure step starts after an initialisation with the given
  name and easyconfig, on that host: an empty environment and an empty trace.
\<close>

definition start_state :: "string \<Rightarrow> easyconfig \<Rightarrow> string list \<Rightarrow> state" where
  "start_state nm c targets =
     \<lparr>self = instance_of nm ''18.1.8'' ''/b'' ''/i'' ''Release'' c targets,
      env = Map.empty, trace = []\<rparr>"

text \<open>Polly for x86-64 alone; Polly for x86-64 and NVPTX with two CUDA capabilities.\<close>

definition recipe_x86 :: easyconfig where
  "recipe_x86 = recipe0\<lparr>build_targets := Some [''X86'']\<rparr>"

definition recipe_nvptx :: easyconfig where
  "recipe_nvptx = recipe0\<lparr>build_targets := Some [''X86'', ''NVPTX''],
                          cuda_compute_capabilities := Some [''8.0'', ''7.5'']\<rparr>"

text \<open>Polly for x86-64 and NVPTX with the CUDA capabilities 9.0 and 10.0.\<close>

definition recipe_nvptx_mixed :: easyconfig where
  "recipe_nvptx_mixed = recipe0\<lparr>build_targets := Some [''X86'', ''NVPTX''],
                                cuda_compute_capabilities := Some [''9.0'', ''10.0'']\<rparr>"

text \<open>An explicit list of build targets that names a backend twice.\<close>

definition recipe_twice :: easyconfig where
  "recipe_twice = recipe0\<lparr>build_targets := Some [''X86'', ''X86'']\<rparr>"

text \<open>A host on which every dependency is installed under \<^verbatim>\<open>/sw\<close>.\<close>

definition host_full :: ext where
  "host_full = host0\<lparr>get_software_root := (\<lambda>n. Some (''/sw/'' @ n))\<rparr>"

text \<open>
  Clang with \<^verbatim>\<open>bootstrap\<close>, for x86-64: the state in which its configure step starts,
  with a search path and compiler flags in the environment.
\<close>

definition recipe_bootstrap :: easyconfig where
  "recipe_bootstrap = recipe0\<lparr>bootstrap := True, build_targets := Some [''X86'']\<rparr>"

definition clang_start :: state where
  "clang_start =
     (start_state ''Clang'' recipe_bootstrap [''X86''])
       \<lparr>env := [''PATH'' \<mapsto> ''/usr/bin'', ''CFLAGS'' \<mapsto> ''-O2'', ''CXXFLAGS'' \<mapsto> ''-O2'']\<rparr>"

text \<open>
  The same state with the build directories of the three stages as the configure step
  sets them; the attribute \<^verbatim>\<open>llvm_src_dir\<close> is still as \<^verbatim>\<open>__init__\<close> set it.
\<close>

definition clang_configured :: state where
  "clang_configured =
     clang_start\<lparr>self := (self clang_start)
                    \<lparr>llvm_obj_dir_stage1 := Some ''/b/llvm.obj.1'',
                     llvm_obj_dir_stage2 := Some ''/b/llvm.obj.2'',
                     llvm_obj_dir_stage3 := Some ''/b/llvm.obj.3''\<rparr>\<rparr>"

text \<open>The first host on a platform whose shared libraries end in \<^verbatim>\<open>.dylib\<close>.\<close>

definition host_dylib :: ext where
  "host_dylib = host0\<lparr>get_shared_lib_ext := ''dylib''\<rparr>"

text \<open>
  Three outputs of a test target: one with a summary line for the passed and one for the
  failed tests, one with a summary line for the passed tests only, and one with neither.
\<close>

definition output_failed :: string where
  "output_failed = ''Testing Time: 1s'' @ [CHR 0x0A] @ ''   Passed   : 10'' @ [CHR 0x0A]
                     @ ''   Failed   : 3'' @ [CHR 0x0A]"

definition output_passed :: string where
  "output_passed = ''Testing Time: 1s'' @ [CHR 0x0A] @ ''   Passed   : 10'' @ [CHR 0x0A]"

definition output_other :: string where
  "output_other = ''make: *** No rule to make target'' @ [CHR 0x0A]"

section \<open>Properties\<close>

subsection \<open>Initialisation: auxiliary facts\<close>

lemma lower_simps: "lower [] = []" "lower (c # cs) = lower_char c # lower cs"
  by (simp_all add: lower_def)

lemma init_low_version:
  "LooseVersion_less x ver ''18.1.6'' \<Longrightarrow>
   init x nm ver bdir idir btype c =
     Inl (EasyBuildError (''LLVM version '' @ ver
                          @ '' is not supported, please use version 18.1.6 or newer''))"
  by (simp add: init_def)

lemma init_bootstrap_refused:
  "\<not> LooseVersion_less x ver ''18.1.6'' \<Longrightarrow> bootstrap c \<Longrightarrow> lower nm \<noteq> ''clang'' \<Longrightarrow>
   init x nm ver bdir idir btype c = Inl (EasyBuildError ''Bootstrapping only supported for Clang'')"
  by (simp add: init_def)

lemma init_gates_passed:
  assumes "\<not> LooseVersion_less x ver ''18.1.6''" "\<not> bootstrap c \<or> lower nm = ''clang''"
  shows "init x nm ver bdir idir btype c =
     (case select_build_targets x (c\<lparr>configopts := configopts c @ [''-DPython3_FIND_VIRTUALENV=STANDARD'']\<rparr>) of
        Inl e \<Rightarrow> Inl e
      | Inr targets \<Rightarrow> Inr (instance_of nm ver bdir idir btype c targets))"
proof -
  have g: "\<not> (bootstrap c \<and> lower nm \<noteq> ''clang'')" using assms(2) by blast
  show ?thesis
    unfolding init_def Let_def instance_of_def using assms(1) g
    by (simp only: if_False split: sum.split) 
qed

lemma select_build_targets_cases:
  "select_build_targets x c =
     (case build_targets c of None \<Rightarrow> default_build_targets x c | Some ts \<Rightarrow> Inr ts)
   \<or> select_build_targets x c = Inl (EasyBuildError
        ''Build target MBlaze is not supported anymore in > Clang-3.3'')
   \<or> (\<exists>u. select_build_targets x c = Inl (EasyBuildError (''Some of the chosen build targets ('' @ u)))"
  unfolding select_build_targets_def Let_def
  by (cases "case build_targets c of None \<Rightarrow> default_build_targets x c | Some ts \<Rightarrow> Inr ts") simp_all

lemma default_targets_map:
  "map_of DEFAULT_TARGETS_MAP a =
     (case a of AARCH32 \<Rightarrow> Some [''ARM''] | AARCH64 \<Rightarrow> Some [''AArch64'']
      | POWER \<Rightarrow> Some [''PowerPC''] | RISCV64 \<Rightarrow> Some [''RISCV'']
      | X86_64 \<Rightarrow> Some [''X86''] | OTHER_ARCH n \<Rightarrow> None)"
  by (cases a) (simp_all add: DEFAULT_TARGETS_MAP_def)

lemma dom_default_targets_map:
  "dom (map_of DEFAULT_TARGETS_MAP) = {AARCH32, AARCH64, POWER, RISCV64, X86_64}"
  by (simp add: DEFAULT_TARGETS_MAP_def dom_map_of_conv_image_fst) 

lemma default_in_clang_targets:
  assumes "map_of DEFAULT_TARGETS_MAP a = Some t"
  shows "length t = 1 \<and> set t \<subseteq> set CLANG_TARGETS \<and> ''MBlaze'' \<notin> set t
         \<and> ''NVPTX'' \<notin> set t \<and> ''AMDGPU'' \<notin> set t"
proof (cases a)
  case AARCH32
  then have "t = [''ARM'']" using assms by (simp add: default_targets_map)
  then show ?thesis by (simp add: CLANG_TARGETS_def)
next
  case AARCH64
  then have "t = [''AArch64'']" using assms by (simp add: default_targets_map)
  then show ?thesis by (simp add: CLANG_TARGETS_def)
next
  case POWER
  then have "t = [''PowerPC'']" using assms by (simp add: default_targets_map)
  then show ?thesis by (simp add: CLANG_TARGETS_def)
next
  case RISCV64
  then have "t = [''RISCV'']" using assms by (simp add: default_targets_map)
  then show ?thesis by (simp add: CLANG_TARGETS_def)
next
  case X86_64
  then have "t = [''X86'']" using assms by (simp add: default_targets_map)
  then show ?thesis by (simp add: CLANG_TARGETS_def)
next
  case (OTHER_ARCH n)
  then show ?thesis using assms by (simp add: default_targets_map)
qed

lemma select_default:
  assumes "build_targets c = None"
  shows "select_build_targets x c = default_build_targets x c"
proof (cases "default_build_targets x c")
  case (Inl e)
  then show ?thesis using assms by (simp add: select_build_targets_def)
next
  case (Inr ts)
  then obtain t where t: "map_of DEFAULT_TARGETS_MAP (get_cpu_architecture x) = Some t"
    and ts: "ts = t @ (if ''cuda'' \<in> set (map lower (dependencies c)) \<or> toolchain_has_COMPILER_CUDA_FAMILY x
                     then [''NVPTX''] else [])
                  @ (if ''rocr-runtime'' \<in> set (map lower (dependencies c)) then [''AMDGPU''] else [])"
    by (auto simp: default_build_targets_def Let_def split: option.splits)
  note d = default_in_clang_targets [OF t]
  have n: "''NVPTX'' \<in> set CLANG_TARGETS" "''AMDGPU'' \<in> set CLANG_TARGETS"
    by (simp_all add: CLANG_TARGETS_def)
  have "set ts \<subseteq> set CLANG_TARGETS"
    using d n unfolding ts by auto
  then have f: "filter (\<lambda>target. target \<notin> set CLANG_TARGETS) ts = []"
    by (auto simp: filter_empty_conv)
  have m: "''MBlaze'' \<notin> set ts" using d unfolding ts by auto
  show ?thesis using assms Inr f m by (simp add: select_build_targets_def)
qed

lemma select_explicit:
  assumes "build_targets c = Some ts"
  shows "select_build_targets x c =
     (if filter (\<lambda>target. target \<notin> set CLANG_TARGETS) ts \<noteq> []
      then Inl (EasyBuildError (''Some of the chosen build targets (''
                                @ join '', '' (filter (\<lambda>target. target \<notin> set CLANG_TARGETS) ts)
                                @ '') are not in '' @ join '', '' CLANG_TARGETS @ ''.''))
      else if ''MBlaze'' \<in> set ts
      then Inl (EasyBuildError ''Build target MBlaze is not supported anymore in > Clang-3.3'')
      else Inr ts)"
  using assms by (simp add: select_build_targets_def Let_def)

lemma default_ignores_configopts:
  "default_build_targets x (c\<lparr>configopts := v\<rparr>) = default_build_targets x c"
  by (simp add: default_build_targets_def)

lemma select_ignores_configopts:
  "select_build_targets x (c\<lparr>configopts := v\<rparr>) = select_build_targets x c"
  by (cases "build_targets c") (simp_all add: select_build_targets_def default_ignores_configopts)

lemma init_error_cases:
  assumes "\<not> LooseVersion_less x ver ''18.1.6''" "\<not> bootstrap c \<or> lower nm = ''clang''"
  shows "init x nm ver bdir idir btype c =
     (case select_build_targets x c of
        Inl e \<Rightarrow> Inl e
      | Inr targets \<Rightarrow> Inr (instance_of nm ver bdir idir btype c targets))"
  using init_gates_passed [OF assms] by (simp add: select_ignores_configopts)

lemma select_error_message:
  "select_build_targets x c = Inl e \<Longrightarrow>
     \<exists>m. e = EasyBuildError m \<and> (take 1 m = ''N'' \<or> take 1 m = ''S'' \<or> take 2 m = ''Bu'')"
proof (cases "build_targets c")
  case None
  assume "select_build_targets x c = Inl e"
  then show ?thesis using None
    by (auto simp: select_default default_build_targets_def Let_def split: option.splits)
next
  case (Some ts)
  assume "select_build_targets x c = Inl e"
  then show ?thesis using select_explicit [OF Some, of x]
    by (auto split: if_splits)
qed

lemma default_ignores_ordering:
  "default_build_targets (x\<lparr>LooseVersion_less := f\<rparr>) c = default_build_targets x c"
  by (simp add: default_build_targets_def Let_def split: option.splits)

lemma select_ignores_ordering:
  "select_build_targets (x\<lparr>LooseVersion_less := f\<rparr>) c = select_build_targets x c"
  by (cases "build_targets c") (simp_all add: select_build_targets_def default_ignores_ordering)

subsection \<open>Initialisation: the version gate and the bootstrap gate\<close>

text \<open>
  Claim C10. A version that the loose version ordering of the framework puts below
  18.1.6 makes the initialisation raise an error whose message names that version. For
  every other version the version check passes: the initialisation does not raise that
  error and behaves as it would if the check were not there.
\<close>

theorem init_version_gate:
  "(LooseVersion_less x ver ''18.1.6'' \<longrightarrow>
      init x nm ver bdir idir btype c =
        Inl (EasyBuildError (''LLVM version '' @ ver
                             @ '' is not supported, please use version 18.1.6 or newer'')))
   \<and> (\<not> LooseVersion_less x ver ''18.1.6'' \<longrightarrow>
      init x nm ver bdir idir btype c \<noteq>
        Inl (EasyBuildError (''LLVM version '' @ ver
                             @ '' is not supported, please use version 18.1.6 or newer''))
      \<and> init x nm ver bdir idir btype c =
          init (x\<lparr>LooseVersion_less := (\<lambda>a b. False)\<rparr>) nm ver bdir idir btype c)"
proof (intro conjI impI)
  assume "LooseVersion_less x ver ''18.1.6''"
  then show "init x nm ver bdir idir btype c =
        Inl (EasyBuildError (''LLVM version '' @ ver
                             @ '' is not supported, please use version 18.1.6 or newer''))"
    by (rule init_low_version)
next
  assume v: "\<not> LooseVersion_less x ver ''18.1.6''"
  show "init x nm ver bdir idir btype c \<noteq>
        Inl (EasyBuildError (''LLVM version '' @ ver
                             @ '' is not supported, please use version 18.1.6 or newer''))"
  proof (cases "bootstrap c \<and> lower nm \<noteq> ''clang''")
    case True
    then show ?thesis using init_bootstrap_refused [OF v, of c nm] by simp
  next
    case False
    then have g: "\<not> bootstrap c \<or> lower nm = ''clang''" by blast
    show ?thesis
    proof (cases "select_build_targets x c")
      case (Inl e)
      then show ?thesis
        using init_error_cases [OF v g, of bdir idir btype] select_error_message [OF Inl]
        by auto
    next
      case (Inr ts)
      then show ?thesis using init_error_cases [OF v g, of bdir idir btype] by simp
    qed
  qed
  show "init x nm ver bdir idir btype c =
          init (x\<lparr>LooseVersion_less := (\<lambda>a b. False)\<rparr>) nm ver bdir idir btype c"
    using v by (simp add: init_def select_ignores_ordering)
qed

theorem init_version_gate_witness:
  "init host0 ''Clang'' ''17.0.6'' ''/b'' ''/i'' ''Release'' recipe0 =
     Inl (EasyBuildError ''LLVM version 17.0.6 is not supported, please use version 18.1.6 or newer'')
   \<and> init host0 ''Clang'' ''18.1.8'' ''/b'' ''/i'' ''Release'' recipe0 \<noteq>
     Inl (EasyBuildError ''LLVM version 18.1.8 is not supported, please use version 18.1.6 or newer'')"
proof -
  have a: "LooseVersion_less host0 ''17.0.6'' ''18.1.6''" by (simp add: host0_def)
  have b: "\<not> LooseVersion_less host0 ''18.1.8'' ''18.1.6''" by (simp add: host0_def)
  have "init host0 ''Clang'' ''17.0.6'' ''/b'' ''/i'' ''Release'' recipe0 =
          Inl (EasyBuildError (''LLVM version '' @ ''17.0.6''
                               @ '' is not supported, please use version 18.1.6 or newer''))"
    using a init_version_gate [of host0 "''17.0.6''" "''Clang''" "''/b''" "''/i''" "''Release''" recipe0]
    by blast
  moreover have "init host0 ''Clang'' ''18.1.8'' ''/b'' ''/i'' ''Release'' recipe0 \<noteq>
          Inl (EasyBuildError (''LLVM version '' @ ''18.1.8''
                               @ '' is not supported, please use version 18.1.6 or newer''))"
    using b init_version_gate [of host0 "''18.1.8''" "''Clang''" "''/b''" "''/i''" "''Release''" recipe0]
    by blast
  ultimately show ?thesis by simp
qed

text \<open>
  Claim C6. With \<^verbatim>\<open>bootstrap\<close> set and a name that is not \<^verbatim>\<open>clang\<close> (in any
  case of the letters) the initialisation raises: always some error, and, when the version
  gate before it passes, the error that bootstrapping is only supported for Clang. With
  \<^verbatim>\<open>bootstrap\<close> unset, or set for Clang, the initialisation never raises that error.
  The initialisation works on no state and returns no instance when it raises, and every
  stage is a step on a state that holds the instance: no stage runs before it.
\<close>

theorem init_bootstrap_gate:
  "(bootstrap c \<and> lower nm \<noteq> ''clang'' \<longrightarrow>
      (\<exists>e. init x nm ver bdir idir btype c = Inl e)
      \<and> (\<not> LooseVersion_less x ver ''18.1.6'' \<longrightarrow>
           init x nm ver bdir idir btype c =
             Inl (EasyBuildError ''Bootstrapping only supported for Clang'')))
   \<and> (\<not> bootstrap c \<or> lower nm = ''clang'' \<longrightarrow>
      init x nm ver bdir idir btype c \<noteq>
        Inl (EasyBuildError ''Bootstrapping only supported for Clang''))"
proof (intro conjI impI)
  assume b: "bootstrap c \<and> lower nm \<noteq> ''clang''"
  show "\<exists>e. init x nm ver bdir idir btype c = Inl e"
    using b init_low_version [of x ver nm bdir idir btype c]
          init_bootstrap_refused [of x ver c nm bdir idir btype]
    by (cases "LooseVersion_less x ver ''18.1.6''") auto
  assume "\<not> LooseVersion_less x ver ''18.1.6''"
  then show "init x nm ver bdir idir btype c =
             Inl (EasyBuildError ''Bootstrapping only supported for Clang'')"
    using b by (simp add: init_bootstrap_refused)
next
  assume g: "\<not> bootstrap c \<or> lower nm = ''clang''"
  show "init x nm ver bdir idir btype c \<noteq>
        Inl (EasyBuildError ''Bootstrapping only supported for Clang'')"
  proof (cases "LooseVersion_less x ver ''18.1.6''")
    case True
    then show ?thesis using init_low_version [OF True, of nm bdir idir btype c] by simp
  next
    case v: False
    show ?thesis
    proof (cases "select_build_targets x c")
      case (Inl e)
      then show ?thesis
        using init_error_cases [OF v g, of bdir idir btype] select_error_message [OF Inl]
        by auto
    next
      case (Inr ts)
      then show ?thesis using init_error_cases [OF v g, of bdir idir btype] by simp
    qed
  qed
qed

theorem init_bootstrap_gate_witness:
  "init host0 ''polly'' ''18.1.8'' ''/b'' ''/i'' ''Release'' (recipe0\<lparr>bootstrap := True\<rparr>) =
     Inl (EasyBuildError ''Bootstrapping only supported for Clang'')
   \<and> init host0 ''Clang'' ''18.1.8'' ''/b'' ''/i'' ''Release'' (recipe0\<lparr>bootstrap := True\<rparr>) \<noteq>
     Inl (EasyBuildError ''Bootstrapping only supported for Clang'')
   \<and> init host0 ''polly'' ''18.1.8'' ''/b'' ''/i'' ''Release'' recipe0 \<noteq>
     Inl (EasyBuildError ''Bootstrapping only supported for Clang'')"
proof -
  have a: "bootstrap (recipe0\<lparr>bootstrap := True\<rparr>) \<and> lower ''polly'' \<noteq> ''clang''"
    by (simp add: lower_simps lower_char_def)
  have b: "\<not> LooseVersion_less host0 ''18.1.8'' ''18.1.6''" by (simp add: host0_def)
  have c: "lower ''Clang'' = ''clang''" by (simp add: lower_simps lower_char_def)
  have d: "\<not> bootstrap recipe0" by (simp add: recipe0_def)
  from a b c d show ?thesis
    using init_bootstrap_gate [of "recipe0\<lparr>bootstrap := True\<rparr>" "''polly''" host0 "''18.1.8''" "''/b''" "''/i''" "''Release''"]
          init_bootstrap_gate [of "recipe0\<lparr>bootstrap := True\<rparr>" "''Clang''" host0 "''18.1.8''" "''/b''" "''/i''" "''Release''"]
          init_bootstrap_gate [of recipe0 "''polly''" host0 "''18.1.8''" "''/b''" "''/i''" "''Release''"]
    by blast
qed

subsection \<open>Default build targets\<close>

lemma recipe0_simps:
  "build_targets recipe0 = None" "dependencies recipe0 = []" "bootstrap recipe0 = False"
  by (simp_all add: recipe0_def)

lemma host0_simps:
  "get_cpu_architecture host0 = X86_64" "toolchain_has_COMPILER_CUDA_FAMILY host0 = False"
  "LooseVersion_less host0 a b = (a = ''17.0.6'' \<and> b = ''18.1.6'')"
  by (simp_all add: host0_def)

text \<open>
  Claim C3, as the source has it. The table of default targets has five entries, not four:
  the architectures \<^verbatim>\<open>AARCH32\<close>, \<^verbatim>\<open>AARCH64\<close>, \<^verbatim>\<open>POWER\<close>,
  \<^verbatim>\<open>RISCV64\<close> and \<^verbatim>\<open>X86_64\<close>. Each of the five, with no explicit list and no
  accelerator, gives its own single backend.
\<close>

theorem five_architectures_counterexample:
  "select_build_targets (host0\<lparr>get_cpu_architecture := AARCH32\<rparr>) recipe0 = Inr [''ARM'']
   \<and> select_build_targets (host0\<lparr>get_cpu_architecture := AARCH64\<rparr>) recipe0 = Inr [''AArch64'']
   \<and> select_build_targets (host0\<lparr>get_cpu_architecture := POWER\<rparr>) recipe0 = Inr [''PowerPC'']
   \<and> select_build_targets (host0\<lparr>get_cpu_architecture := RISCV64\<rparr>) recipe0 = Inr [''RISCV'']
   \<and> select_build_targets (host0\<lparr>get_cpu_architecture := X86_64\<rparr>) recipe0 = Inr [''X86'']
   \<and> distinct [AARCH32, AARCH64, POWER, RISCV64, X86_64]
   \<and> card (dom (map_of DEFAULT_TARGETS_MAP)) \<noteq> 4"
  by (simp add: select_default recipe0_simps default_build_targets_def host0_simps
                default_targets_map dom_default_targets_map)

text \<open>
  Claim C3, amended. With no explicit list of build targets and no GPU accelerator
  (neither \<^verbatim>\<open>cuda\<close> nor \<^verbatim>\<open>rocr-runtime\<close> among the dependencies, and no CUDA
  in the toolchain), the selected targets are exactly the single default backend of the
  host architecture; the table has exactly five architectures; and a host architecture
  outside the table is an error that names it. When the two gates before it pass, the
  initialisation returns this selection or raises this error.
\<close>

theorem default_targets_without_accelerator:
  assumes "build_targets c = None"
      and "''cuda'' \<notin> set (map lower (dependencies c))"
      and "\<not> toolchain_has_COMPILER_CUDA_FAMILY x"
      and "''rocr-runtime'' \<notin> set (map lower (dependencies c))"
  shows "select_build_targets x c =
           (case get_cpu_architecture x of
              AARCH32 \<Rightarrow> Inr [''ARM'']
            | AARCH64 \<Rightarrow> Inr [''AArch64'']
            | POWER \<Rightarrow> Inr [''PowerPC'']
            | RISCV64 \<Rightarrow> Inr [''RISCV'']
            | X86_64 \<Rightarrow> Inr [''X86'']
            | OTHER_ARCH n \<Rightarrow>
                Inl (EasyBuildError (''No default build targets defined for CPU architecture ''
                                     @ arch_name x (OTHER_ARCH n) @ ''.'')))
         \<and> (\<not> LooseVersion_less x ver ''18.1.6'' \<and> (\<not> bootstrap c \<or> lower nm = ''clang'') \<longrightarrow>
              init x nm ver bdir idir btype c =
                (case select_build_targets x c of
                   Inl e \<Rightarrow> Inl e
                 | Inr targets \<Rightarrow> Inr (instance_of nm ver bdir idir btype c targets)))
         \<and> dom (map_of DEFAULT_TARGETS_MAP) = {AARCH32, AARCH64, POWER, RISCV64, X86_64}
         \<and> card (dom (map_of DEFAULT_TARGETS_MAP)) = 5"
proof (intro conjI)
  show "select_build_targets x c =
           (case get_cpu_architecture x of
              AARCH32 \<Rightarrow> Inr [''ARM'']
            | AARCH64 \<Rightarrow> Inr [''AArch64'']
            | POWER \<Rightarrow> Inr [''PowerPC'']
            | RISCV64 \<Rightarrow> Inr [''RISCV'']
            | X86_64 \<Rightarrow> Inr [''X86'']
            | OTHER_ARCH n \<Rightarrow>
                Inl (EasyBuildError (''No default build targets defined for CPU architecture ''
                                     @ arch_name x (OTHER_ARCH n) @ ''.'')))"
    using assms(2-4) unfolding select_default [OF assms(1)]
    by (cases "get_cpu_architecture x")
       (simp_all add: default_build_targets_def default_targets_map Let_def)
  show "\<not> LooseVersion_less x ver ''18.1.6'' \<and> (\<not> bootstrap c \<or> lower nm = ''clang'') \<longrightarrow>
              init x nm ver bdir idir btype c =
                (case select_build_targets x c of
                   Inl e \<Rightarrow> Inl e
                 | Inr targets \<Rightarrow> Inr (instance_of nm ver bdir idir btype c targets))"
    using init_error_cases by blast
  show d: "dom (map_of DEFAULT_TARGETS_MAP) = {AARCH32, AARCH64, POWER, RISCV64, X86_64}"
    by (rule dom_default_targets_map)
  show "card (dom (map_of DEFAULT_TARGETS_MAP)) = 5"
    unfolding d by simp
qed

theorem default_targets_without_accelerator_witness:
  "select_build_targets host0 recipe0 = Inr [''X86'']
   \<and> init host0 ''polly'' ''18.1.8'' ''/b'' ''/i'' ''Release'' recipe0 =
       Inr (instance_of ''polly'' ''18.1.8'' ''/b'' ''/i'' ''Release'' recipe0 [''X86''])
   \<and> select_build_targets (host0\<lparr>get_cpu_architecture := OTHER_ARCH ''RISC-V-32'',
                                   arch_name := (\<lambda>a. ''RISC-V-32'')\<rparr>) recipe0 =
       Inl (EasyBuildError ''No default build targets defined for CPU architecture RISC-V-32.'')"
proof -
  have h: "build_targets recipe0 = None" "''cuda'' \<notin> set (map lower (dependencies recipe0))"
    "\<not> toolchain_has_COMPILER_CUDA_FAMILY host0"
    "''rocr-runtime'' \<notin> set (map lower (dependencies recipe0))"
    by (simp_all add: recipe0_simps host0_simps)
  have g: "\<not> LooseVersion_less host0 ''18.1.8'' ''18.1.6'' \<and> (\<not> bootstrap recipe0 \<or> lower ''polly'' = ''clang'')"
    by (simp add: recipe0_simps host0_simps)
  note t = default_targets_without_accelerator [OF h, of "''18.1.8''" "''polly''" "''/b''" "''/i''" "''Release''"]
  have 1: "select_build_targets host0 recipe0 = Inr [''X86'']"
    using t by (simp add: host0_simps)
  have 2: "init host0 ''polly'' ''18.1.8'' ''/b'' ''/i'' ''Release'' recipe0 =
       Inr (instance_of ''polly'' ''18.1.8'' ''/b'' ''/i'' ''Release'' recipe0 [''X86''])"
    using t g 1 by simp
  have h': "\<not> toolchain_has_COMPILER_CUDA_FAMILY (host0\<lparr>get_cpu_architecture := OTHER_ARCH ''RISC-V-32'',
                                   arch_name := (\<lambda>a. ''RISC-V-32'')\<rparr>)"
    by (simp add: host0_simps)
  have 3: "select_build_targets (host0\<lparr>get_cpu_architecture := OTHER_ARCH ''RISC-V-32'',
                                   arch_name := (\<lambda>a. ''RISC-V-32'')\<rparr>) recipe0 =
       Inl (EasyBuildError ''No default build targets defined for CPU architecture RISC-V-32.'')"
    using default_targets_without_accelerator [OF h(1) h(2) h' h(4), of "''18.1.8''" "''polly''" "''/b''" "''/i''" "''Release''"]
    by simp
  show ?thesis using 1 2 3 by blast
qed

subsection \<open>Explicit build targets\<close>

text \<open>
  Claim C4. For an explicit list of build targets, once the version gate and the bootstrap
  gate have passed: when some entry is not in \<open>CLANG_TARGETS\<close>, the initialisation raises
  an error whose message lists exactly the entries that are not in it, in their order,
  and not the whole list that was given; a list of known entries that contains
  \<^verbatim>\<open>MBlaze\<close> is rejected as not supported anymore, although \<^verbatim>\<open>MBlaze\<close>
  is in \<open>CLANG_TARGETS\<close>, so every list with \<^verbatim>\<open>MBlaze\<close> is rejected; every other
  list is accepted as it is.
\<close>

theorem explicit_targets_validated:
  assumes "build_targets c = Some ts"
      and "\<not> LooseVersion_less x ver ''18.1.6''"
      and "\<not> bootstrap c \<or> lower nm = ''clang''"
  shows "(\<not> set ts \<subseteq> set CLANG_TARGETS \<longrightarrow>
            init x nm ver bdir idir btype c =
              Inl (EasyBuildError (''Some of the chosen build targets (''
                     @ join '', '' (filter (\<lambda>t. t \<notin> set CLANG_TARGETS) ts)
                     @ '') are not in '' @ join '', '' CLANG_TARGETS @ ''.'')))
         \<and> (set ts \<subseteq> set CLANG_TARGETS \<and> ''MBlaze'' \<in> set ts \<longrightarrow>
            init x nm ver bdir idir btype c =
              Inl (EasyBuildError ''Build target MBlaze is not supported anymore in > Clang-3.3''))
         \<and> (''MBlaze'' \<in> set ts \<longrightarrow> (\<exists>e. init x nm ver bdir idir btype c = Inl e))
         \<and> (set ts \<subseteq> set CLANG_TARGETS \<and> ''MBlaze'' \<notin> set ts \<longrightarrow>
            init x nm ver bdir idir btype c = Inr (instance_of nm ver bdir idir btype c ts))
         \<and> ''MBlaze'' \<in> set CLANG_TARGETS"
proof -
  have f: "(filter (\<lambda>t. t \<notin> set CLANG_TARGETS) ts \<noteq> []) = (\<not> set ts \<subseteq> set CLANG_TARGETS)"
    by (auto simp: filter_empty_conv)
  have m: "''MBlaze'' \<in> set CLANG_TARGETS" by (simp add: CLANG_TARGETS_def)
  show ?thesis
    unfolding init_error_cases [OF assms(2,3)] select_explicit [OF assms(1)] f
    using m by simp
qed

theorem explicit_targets_validated_witness:
  "init host0 ''Clang'' ''18.1.8'' ''/b'' ''/i'' ''Release''
        (recipe0\<lparr>build_targets := Some [''X86'', ''Foo'', ''NVPTX'', ''Bar'']\<rparr>) =
     Inl (EasyBuildError (''Some of the chosen build targets (Foo, Bar) are not in ''
                          @ join '', '' CLANG_TARGETS @ ''.''))
   \<and> init host0 ''Clang'' ''18.1.8'' ''/b'' ''/i'' ''Release''
        (recipe0\<lparr>build_targets := Some [''X86'', ''MBlaze'']\<rparr>) =
     Inl (EasyBuildError ''Build target MBlaze is not supported anymore in > Clang-3.3'')
   \<and> init host0 ''Clang'' ''18.1.8'' ''/b'' ''/i'' ''Release''
        (recipe0\<lparr>build_targets := Some [''X86'', ''NVPTX'']\<rparr>) =
     Inr (instance_of ''Clang'' ''18.1.8'' ''/b'' ''/i'' ''Release''
            (recipe0\<lparr>build_targets := Some [''X86'', ''NVPTX'']\<rparr>) [''X86'', ''NVPTX''])"
proof -
  have v: "\<not> LooseVersion_less host0 ''18.1.8'' ''18.1.6''" by (simp add: host0_simps)
  have g: "\<not> bootstrap (recipe0\<lparr>build_targets := Some ts\<rparr>) \<or> lower ''Clang'' = ''clang''" for ts
    by (simp add: recipe0_simps)
  have b: "build_targets (recipe0\<lparr>build_targets := Some ts\<rparr>) = Some ts" for ts by simp
  have 1: "\<not> set [''X86'', ''Foo'', ''NVPTX'', ''Bar''] \<subseteq> set CLANG_TARGETS"
    by (simp add: CLANG_TARGETS_def)
  have 2: "set [''X86'', ''MBlaze''] \<subseteq> set CLANG_TARGETS \<and> ''MBlaze'' \<in> set [''X86'', ''MBlaze'']"
    by (simp add: CLANG_TARGETS_def)
  have 3: "set [''X86'', ''NVPTX''] \<subseteq> set CLANG_TARGETS \<and> ''MBlaze'' \<notin> set [''X86'', ''NVPTX'']"
    by (simp add: CLANG_TARGETS_def)
  have 4: "filter (\<lambda>t. t \<notin> set CLANG_TARGETS) [''X86'', ''Foo'', ''NVPTX'', ''Bar''] = [''Foo'', ''Bar'']"
    by (simp add: CLANG_TARGETS_def)
  have "init host0 ''Clang'' ''18.1.8'' ''/b'' ''/i'' ''Release''
        (recipe0\<lparr>build_targets := Some [''X86'', ''Foo'', ''NVPTX'', ''Bar'']\<rparr>) =
     Inl (EasyBuildError (''Some of the chosen build targets (''
                     @ join '', '' (filter (\<lambda>t. t \<notin> set CLANG_TARGETS) [''X86'', ''Foo'', ''NVPTX'', ''Bar''])
                     @ '') are not in '' @ join '', '' CLANG_TARGETS @ ''.''))"
    using explicit_targets_validated [OF b v g, of "[''X86'', ''Foo'', ''NVPTX'', ''Bar'']" "''/b''" "''/i''" "''Release''"] 1
    by blast
  then have A: "init host0 ''Clang'' ''18.1.8'' ''/b'' ''/i'' ''Release''
        (recipe0\<lparr>build_targets := Some [''X86'', ''Foo'', ''NVPTX'', ''Bar'']\<rparr>) =
     Inl (EasyBuildError (''Some of the chosen build targets (Foo, Bar) are not in ''
                          @ join '', '' CLANG_TARGETS @ ''.''))"
    unfolding 4 by simp
  have B: "init host0 ''Clang'' ''18.1.8'' ''/b'' ''/i'' ''Release''
        (recipe0\<lparr>build_targets := Some [''X86'', ''MBlaze'']\<rparr>) =
     Inl (EasyBuildError ''Build target MBlaze is not supported anymore in > Clang-3.3'')"
    using explicit_targets_validated [OF b v g, of "[''X86'', ''MBlaze'']" "''/b''" "''/i''" "''Release''"] 2
    by blast
  have C: "init host0 ''Clang'' ''18.1.8'' ''/b'' ''/i'' ''Release''
        (recipe0\<lparr>build_targets := Some [''X86'', ''NVPTX'']\<rparr>) =
     Inr (instance_of ''Clang'' ''18.1.8'' ''/b'' ''/i'' ''Release''
            (recipe0\<lparr>build_targets := Some [''X86'', ''NVPTX'']\<rparr>) [''X86'', ''NVPTX''])"
    using explicit_targets_validated [OF b v g, of "[''X86'', ''NVPTX'']" "''/b''" "''/i''" "''Release''"] 3
    by blast
  show ?thesis using A B C by blast
qed

subsection \<open>Sequencing and what the parts of the configure step leave unchanged\<close>

lemma seq_None: "seq f g s = (None, s') \<longleftrightarrow> (\<exists>s1. f s = (None, s1) \<and> g s1 = (None, s'))"
  by (auto simp: seq_def split: prod.splits option.splits)

lemma seq_raises: "f s = (Some e, s1) \<Longrightarrow> seq f g s = (Some e, s1)"
  by (simp add: seq_def)

lemma seq_continues: "f s = (None, s1) \<Longrightarrow> seq f g s = g s1"
  by (simp add: seq_def)

lemma keeps_ok: "reflp R \<Longrightarrow> keeps R ok"
  by (simp add: keeps_def ok_def reflp_def)

lemma keeps_raise: "reflp R \<Longrightarrow> keeps R (\<lambda>s. raise (e s) s)"
  by (simp add: keeps_def raise_def reflp_def)

lemma keeps_seq:
  assumes "transp R" "keeps R f" "keeps R g"
  shows "keeps R (seq f g)"
proof -
  have "R s (snd (seq f g s))" for s
  proof (cases "f s")
    case (Pair r s1)
    have a: "R s s1" using assms(2) Pair by (auto simp: keeps_def dest: spec [of _ s])
    show ?thesis
    proof (cases r)
      case None
      have "R s1 (snd (g s1))" using assms(3) by (simp add: keeps_def)
      then show ?thesis using a None Pair assms(1) by (auto simp: seq_def dest: transpD)
    next
      case (Some e)
      then show ?thesis using a Pair by (simp add: seq_def)
    qed
  qed
  then show ?thesis by (simp add: keeps_def)
qed

lemma keeps_seqs_const:
  assumes "reflp R" "transp R" "list_all (keeps R) fs"
  shows "keeps R (seqs fs)"
  using assms(3)
  by (induction fs) (simp_all add: keeps_ok [OF assms(1)] keeps_seq [OF assms(2)])

lemma keeps_seqs:
  assumes "reflp R" "transp R" "\<And>t. list_all (keeps R) (fs t)"
  shows "keeps R (\<lambda>s. seqs (fs s) s)"
  using keeps_seqs_const [OF assms(1,2) assms(3)] by (simp add: keeps_def)

lemma keeps_if: "keeps R f \<Longrightarrow> keeps R g \<Longrightarrow> keeps R (\<lambda>s. if P s then f s else g s)"
  by (simp add: keeps_def)

lemma keeps_if_const: "keeps R f \<Longrightarrow> keeps R g \<Longrightarrow> keeps R (if P then f else g)"
  by simp

lemma keeps_case_option:
  "keeps R f \<Longrightarrow> (\<And>v. keeps R (g v)) \<Longrightarrow>
   keeps R (\<lambda>s. case P s of None \<Rightarrow> f s | Some v \<Rightarrow> g v s)"
  by (simp add: keeps_def split: option.splits)

lemma reflp_extends: "reflp extends" by (simp add: reflp_def extends_def)
lemma transp_extends: "transp extends"
  by (rule transpI) (auto simp: extends_def)
lemma reflp_same_expectations: "reflp same_expectations" by (simp add: reflp_def same_expectations_def)
lemma transp_same_expectations: "transp same_expectations"
  by (rule transpI) (auto simp: same_expectations_def)
lemma reflp_same_dirs: "reflp same_dirs" by (simp add: reflp_def same_dirs_def)
lemma transp_same_dirs: "transp same_dirs"
  by (rule transpI) (auto simp: same_dirs_def)

lemma extends_update: "keeps extends (\<lambda>s. update (v s) s)"
  by (simp add: keeps_def extends_def update_def modify_def update_configopts_def)
lemma extends_act: "keeps extends (\<lambda>s. act (a s) s)"
  by (simp add: keeps_def extends_def act_def)
lemma extends_setvar: "keeps extends (\<lambda>s. setvar (k s) (v s) s)"
  by (simp add: keeps_def extends_def setvar_def)
lemma extends_mkdir: "keeps extends (\<lambda>s. mkdir (d s) s)"
  by (simp add: keeps_def extends_def mkdir_def act_def raise_def split: option.splits)
lemma extends_change_dir: "keeps extends (\<lambda>s. change_dir (d s) s)"
  by (simp add: keeps_def extends_def change_dir_def act_def raise_def split: option.splits)

lemma same_expectations_update: "keeps same_expectations (\<lambda>s. update (v s) s)"
  by (simp add: keeps_def same_expectations_def update_def modify_def update_configopts_def)
lemma same_expectations_act: "keeps same_expectations (\<lambda>s. act (a s) s)"
  by (simp add: keeps_def same_expectations_def act_def)
lemma same_expectations_setvar: "keeps same_expectations (\<lambda>s. setvar (k s) (v s) s)"
  by (simp add: keeps_def same_expectations_def setvar_def)
lemma same_expectations_mkdir: "keeps same_expectations (\<lambda>s. mkdir (d s) s)"
  by (simp add: keeps_def same_expectations_def mkdir_def act_def raise_def split: option.splits)
lemma same_expectations_change_dir: "keeps same_expectations (\<lambda>s. change_dir (d s) s)"
  by (simp add: keeps_def same_expectations_def change_dir_def act_def raise_def
           split: option.splits)

lemma same_dirs_update: "keeps same_dirs (\<lambda>s. update (v s) s)"
  by (simp add: keeps_def same_dirs_def update_def modify_def update_configopts_def)
lemma same_dirs_act: "keeps same_dirs (\<lambda>s. act (a s) s)"
  by (simp add: keeps_def same_dirs_def act_def)
lemma same_dirs_setvar: "keeps same_dirs (\<lambda>s. setvar (k s) (v s) s)"
  by (simp add: keeps_def same_dirs_def setvar_def)
lemma same_dirs_mkdir: "keeps same_dirs (\<lambda>s. mkdir (d s) s)"
  by (simp add: keeps_def same_dirs_def mkdir_def act_def raise_def split: option.splits)
lemma same_dirs_change_dir: "keeps same_dirs (\<lambda>s. change_dir (d s) s)"
  by (simp add: keeps_def same_dirs_def change_dir_def act_def raise_def split: option.splits)

lemma extends_modify:
  assumes "\<And>b. cfg (f b) = cfg b \<and> name (f b) = name b \<and> version (f b) = version b
               \<and> builddir (f b) = builddir b \<and> installdir (f b) = installdir b
               \<and> build_type (f b) = build_type b \<and> project_name (f b) = project_name b
               \<and> srcdir (f b) = srcdir b \<and> llvm_src_dir (f b) = llvm_src_dir b"
  shows "keeps extends (modify f)"
  using assms by (simp add: keeps_def extends_def modify_def)

lemma same_expectations_modify:
  assumes "\<And>b. check_files (f b) = check_files b \<and> check_dirs (f b) = check_dirs b
               \<and> test_targets (f b) = test_targets b"
  shows "keeps same_expectations (modify f)"
  using assms by (simp add: keeps_def same_expectations_def modify_def)

lemma same_dirs_modify:
  assumes "\<And>b. llvm_obj_dir_stage1 (f b) = llvm_obj_dir_stage1 b
               \<and> llvm_obj_dir_stage2 (f b) = llvm_obj_dir_stage2 b
               \<and> llvm_obj_dir_stage3 (f b) = llvm_obj_dir_stage3 b"
  shows "keeps same_dirs (modify f)"
  using assms by (simp add: keeps_def same_dirs_def modify_def)

lemmas keeps_rules =
  keeps_ok [OF reflp_extends] keeps_ok [OF reflp_same_expectations] keeps_ok [OF reflp_same_dirs]
  keeps_raise [OF reflp_extends] keeps_raise [OF reflp_same_expectations] keeps_raise [OF reflp_same_dirs]
  keeps_seqs [OF reflp_extends transp_extends]
  keeps_seqs [OF reflp_same_expectations transp_same_expectations]
  keeps_seqs [OF reflp_same_dirs transp_same_dirs]
  keeps_seq [OF transp_extends] keeps_seq [OF transp_same_expectations]
  keeps_seq [OF transp_same_dirs]
  keeps_if keeps_if_const keeps_case_option
  extends_update extends_act extends_setvar extends_mkdir extends_change_dir
  same_expectations_update same_expectations_act same_expectations_setvar
  same_expectations_mkdir same_expectations_change_dir
  same_dirs_update same_dirs_act same_dirs_setvar same_dirs_mkdir same_dirs_change_dir
  extends_modify same_expectations_modify same_dirs_modify

lemmas keeps_simps = list.pred_inject list.map simp_thms

lemma extends_configure_deps: "keeps extends (configure_deps x)"
  unfolding configure_deps_def Let_def
  by ((intro keeps_rules conjI allI impI | simp)+)

lemma same_expectations_configure_deps: "keeps same_expectations (configure_deps x)"
  unfolding configure_deps_def Let_def
  by ((intro keeps_rules conjI allI impI | simp)+)

lemma same_dirs_configure_deps: "keeps same_dirs (configure_deps x)"
  unfolding configure_deps_def Let_def
  by ((intro keeps_rules conjI allI impI | simp)+)

lemma extends_configure_dirs: "keeps extends (configure_dirs x)"
  unfolding configure_dirs_def Let_def
  by ((intro keeps_rules conjI allI impI | simp)+)

lemma same_expectations_configure_dirs: "keeps same_expectations (configure_dirs x)"
  unfolding configure_dirs_def Let_def
  by ((intro keeps_rules conjI allI impI | simp)+)

lemma extends_configure_common: "keeps extends (configure_common x)"
  unfolding configure_common_def
  by ((intro keeps_rules conjI allI impI | simp)+)

lemma same_expectations_configure_common: "keeps same_expectations (configure_common x)"
  unfolding configure_common_def
  by ((intro keeps_rules conjI allI impI | simp)+)

lemma same_dirs_configure_common: "keeps same_dirs (configure_common x)"
  unfolding configure_common_def
  by ((intro keeps_rules conjI allI impI | simp)+)

lemma extends_nvptx_config: "keeps extends (nvptx_config x)"
  unfolding nvptx_config_def [abs_def] Let_def
  by ((intro keeps_rules conjI allI impI | simp)+)

lemma same_expectations_nvptx_config: "keeps same_expectations (nvptx_config x)"
  unfolding nvptx_config_def [abs_def] Let_def
  by ((intro keeps_rules conjI allI impI | simp)+)

lemma same_dirs_nvptx_config: "keeps same_dirs (nvptx_config x)"
  unfolding nvptx_config_def [abs_def] Let_def
  by ((intro keeps_rules conjI allI impI | simp)+)

lemma extends_amdgpu_config: "keeps extends (amdgpu_config x)"
  unfolding amdgpu_config_def [abs_def] Let_def
  by ((intro keeps_rules conjI allI impI | simp)+)

lemma same_expectations_amdgpu_config: "keeps same_expectations (amdgpu_config x)"
  unfolding amdgpu_config_def [abs_def] Let_def
  by ((intro keeps_rules conjI allI impI | simp)+)

lemma same_dirs_amdgpu_config: "keeps same_dirs (amdgpu_config x)"
  unfolding amdgpu_config_def [abs_def] Let_def
  by ((intro keeps_rules conjI allI impI | simp)+)

lemma extends_configure_targets: "keeps extends (configure_targets x)"
  unfolding configure_targets_def [abs_def] targets_steps_def
  by ((intro keeps_rules conjI allI impI extends_nvptx_config extends_amdgpu_config
       | simp)+)

lemma same_expectations_configure_targets: "keeps same_expectations (configure_targets x)"
  unfolding configure_targets_def [abs_def] targets_steps_def
  by ((intro keeps_rules conjI allI impI same_expectations_nvptx_config same_expectations_amdgpu_config
       | simp)+)

lemma same_dirs_configure_targets: "keeps same_dirs (configure_targets x)"
  unfolding configure_targets_def [abs_def] targets_steps_def
  by ((intro keeps_rules conjI allI impI same_dirs_nvptx_config same_dirs_amdgpu_config
       | simp)+)

lemma extends_clang_config: "keeps extends (clang_config x)"
  unfolding clang_config_def Let_def
  by ((intro keeps_rules conjI allI impI | simp)+)

lemma extends_flang_config: "keeps extends (flang_config x)"
  unfolding flang_config_def Let_def
  by ((intro keeps_rules conjI allI impI | simp)+)

lemma extends_polly_config: "keeps extends (polly_config x)"
  unfolding polly_config_def Let_def
  by ((intro keeps_rules conjI allI impI | simp)+)

lemma extends_mlir_config: "keeps extends (mlir_config x)"
  unfolding mlir_config_def Let_def
  by ((intro keeps_rules conjI allI impI | simp)+)

lemma extends_runtimes_config: "keeps extends (runtimes_config x)"
  unfolding runtimes_config_def Let_def
  by ((intro keeps_rules conjI allI impI | simp)+)

lemma extends_lld_config: "keeps extends (lld_config x)"
  unfolding lld_config_def Let_def
  by ((intro keeps_rules conjI allI impI | simp)+)

lemma extends_lldb_config: "keeps extends (lldb_config x)"
  unfolding lldb_config_def Let_def
  by ((intro keeps_rules conjI allI impI | simp)+)

lemma extends_compiler_rt_config: "keeps extends (compiler_rt_config x)"
  unfolding compiler_rt_config_def Let_def
  by ((intro keeps_rules conjI allI impI | simp)+)

lemma same_dirs_clang_config: "keeps same_dirs (clang_config x)"
  unfolding clang_config_def Let_def
  by ((intro keeps_rules conjI allI impI | simp)+)

lemma same_dirs_flang_config: "keeps same_dirs (flang_config x)"
  unfolding flang_config_def Let_def
  by ((intro keeps_rules conjI allI impI | simp)+)

lemma same_dirs_polly_config: "keeps same_dirs (polly_config x)"
  unfolding polly_config_def Let_def
  by ((intro keeps_rules conjI allI impI | simp)+)

lemma same_dirs_mlir_config: "keeps same_dirs (mlir_config x)"
  unfolding mlir_config_def Let_def
  by ((intro keeps_rules conjI allI impI | simp)+)

lemma same_dirs_runtimes_config: "keeps same_dirs (runtimes_config x)"
  unfolding runtimes_config_def Let_def
  by ((intro keeps_rules conjI allI impI | simp)+)

lemma same_dirs_lld_config: "keeps same_dirs (lld_config x)"
  unfolding lld_config_def Let_def
  by ((intro keeps_rules conjI allI impI | simp)+)

lemma same_dirs_lldb_config: "keeps same_dirs (lldb_config x)"
  unfolding lldb_config_def Let_def
  by ((intro keeps_rules conjI allI impI | simp)+)

lemma same_dirs_compiler_rt_config: "keeps same_dirs (compiler_rt_config x)"
  unfolding compiler_rt_config_def Let_def
  by ((intro keeps_rules conjI allI impI | simp)+)

lemma configure_func_keeps:
  assumes "configure_func x pn = Some f"
  shows "keeps extends f \<and> keeps same_dirs f"
  using assms
  by (auto simp: configure_func_def Let_def
        extends_clang_config extends_flang_config extends_polly_config extends_mlir_config
        extends_runtimes_config extends_lld_config extends_lldb_config extends_compiler_rt_config
        same_dirs_clang_config same_dirs_flang_config same_dirs_polly_config same_dirs_mlir_config
        same_dirs_runtimes_config same_dirs_lld_config same_dirs_lldb_config
        same_dirs_compiler_rt_config
      split: if_splits)

lemma extends_configure_project: "keeps extends (configure_project x)"
proof -
  have "extends s (snd (configure_project x s))" for s
  proof (cases "configure_func x (project_name (self s))")
    case None
    then show ?thesis using reflp_extends by (simp add: configure_project_def ok_def reflp_def)
  next
    case (Some f)
    then show ?thesis using configure_func_keeps [OF Some]
      by (simp add: configure_project_def keeps_def)
  qed
  then show ?thesis by (simp add: keeps_def)
qed

lemma same_dirs_configure_project: "keeps same_dirs (configure_project x)"
proof -
  have "same_dirs s (snd (configure_project x s))" for s
  proof (cases "configure_func x (project_name (self s))")
    case None
    then show ?thesis using reflp_same_dirs by (simp add: configure_project_def ok_def reflp_def)
  next
    case (Some f)
    then show ?thesis using configure_func_keeps [OF Some]
      by (simp add: configure_project_def keeps_def)
  qed
  then show ?thesis by (simp add: keeps_def)
qed

lemma extends_configure_step: "keeps extends (configure_step x)"
  unfolding configure_step_def configure_steps_def
  by (intro keeps_seqs_const [OF reflp_extends transp_extends])
     (simp add: extends_configure_deps extends_configure_dirs extends_configure_project
                extends_configure_common extends_configure_targets extends_act)

lemma keepsD: "keeps R f \<Longrightarrow> f s = (r, s') \<Longrightarrow> R s s'"
  by (auto simp: keeps_def dest: spec [of _ s])

lemma seq_ok_left: "seq ok f = f"
  by (rule ext) (simp add: seq_def ok_def)

lemma seq_assoc: "seq (seq f g) h = seq f (seq g h)"
  by (rule ext) (simp add: seq_def split: prod.splits option.splits)

lemma seqs_append: "seqs (xs @ ys) = seq (seqs xs) (seqs ys)"
  by (induction xs) (simp_all add: seq_ok_left seq_assoc)

lemma seqs_split:
  assumes "i < length fs"
  shows "seqs fs = seq (seqs (take i fs)) (seq (fs ! i) (seqs (drop (Suc i) fs)))"
proof -
  have "fs = take i fs @ (fs ! i) # drop (Suc i) fs"
    using assms by (rule id_take_nth_drop)
  then have "seqs fs = seqs (take i fs @ (fs ! i) # drop (Suc i) fs)" by simp
  then show ?thesis by (simp only: seqs_append seqs.simps)
qed

lemma seqs_reaches:
  assumes "seqs fs s = (None, s')" "i < length fs"
  obtains a b where "seqs (take i fs) s = (None, a)" "(fs ! i) a = (None, b)"
    "seqs (drop (Suc i) fs) b = (None, s')"
  using assms(1) unfolding seqs_split [OF assms(2)] seq_None by blast

lemma seqs_fails:
  assumes "i < length fs"
      and "\<And>a. seqs (take i fs) s = (None, a) \<Longrightarrow> fst ((fs ! i) a) \<noteq> None"
  shows "fst (seqs fs s) \<noteq> None"
proof (cases "seqs (take i fs) s")
  case (Pair r a)
  show ?thesis
  proof (cases r)
    case None
    then obtain e b where "(fs ! i) a = (Some e, b)"
      using assms(2) [of a] Pair by (cases "(fs ! i) a") auto
    then show ?thesis
      unfolding seqs_split [OF assms(1)] using Pair None by (simp add: seq_def)
  next
    case (Some e)
    then show ?thesis
      unfolding seqs_split [OF assms(1)] using Pair by (simp add: seq_def)
  qed
qed

lemma extends_cfg:
  assumes "extends s s'"
  shows "build_targets (cfg (self s')) = build_targets (cfg (self s))"
    and "bootstrap (cfg (self s')) = bootstrap (cfg (self s))"
    and "cuda_compute_capabilities (cfg (self s')) = cuda_compute_capabilities (cfg (self s))"
    and "default_cuda_capability (cfg (self s')) = default_cuda_capability (cfg (self s))"
    and "project_name (self s') = project_name (self s)"
    and "builddir (self s') = builddir (self s)"
    and "set (configopts (cfg (self s))) \<subseteq> set (configopts (cfg (self s')))"
    and "set (trace s) \<subseteq> set (trace s')"
proof -
  have e: "(cfg (self s'))\<lparr>configopts := []\<rparr> = (cfg (self s))\<lparr>configopts := []\<rparr>"
    using assms by (simp add: extends_def)
  show "build_targets (cfg (self s')) = build_targets (cfg (self s))"
    using arg_cong [OF e, of build_targets] by simp
  show "bootstrap (cfg (self s')) = bootstrap (cfg (self s))"
    using arg_cong [OF e, of bootstrap] by simp
  show "cuda_compute_capabilities (cfg (self s')) = cuda_compute_capabilities (cfg (self s))"
    using arg_cong [OF e, of cuda_compute_capabilities] by simp
  show "default_cuda_capability (cfg (self s')) = default_cuda_capability (cfg (self s))"
    using arg_cong [OF e, of default_cuda_capability] by simp
  show "project_name (self s') = project_name (self s)" "builddir (self s') = builddir (self s)"
    using assms by (simp_all add: extends_def)
  show "set (configopts (cfg (self s))) \<subseteq> set (configopts (cfg (self s')))"
    using assms by (auto simp: extends_def dest: set_mono_prefix)
  show "set (trace s) \<subseteq> set (trace s')"
    using assms by (auto simp: extends_def dest: set_mono_prefix)
qed

lemma targets_steps_keep: "list_all (keeps extends) (targets_steps x targets)"
  unfolding targets_steps_def
  by ((intro keeps_rules conjI allI impI extends_nvptx_config extends_amdgpu_config | simp)+)

lemma list_all_take: "list_all P xs \<Longrightarrow> list_all P (take n xs)"
  by (auto simp: list_all_iff dest: in_set_takeD)

lemma list_all_drop: "list_all P xs \<Longrightarrow> list_all P (drop n xs)"
  by (auto simp: list_all_iff dest: in_set_dropD)

lemma configure_steps_keep: "list_all (keeps extends) (configure_steps x)"
  by (simp add: configure_steps_def extends_configure_deps extends_configure_dirs
        extends_configure_project extends_configure_common extends_configure_targets extends_act)

lemma extends_before:
  assumes "seqs (take i (configure_steps x)) s = (r, a)"
  shows "extends s a"
  using keepsD [OF keeps_seqs_const [OF reflp_extends transp_extends
          list_all_take [OF configure_steps_keep]] assms] .

lemma extends_after:
  assumes "seqs (drop i (configure_steps x)) b = (r, s')"
  shows "extends b s'"
  using keepsD [OF keeps_seqs_const [OF reflp_extends transp_extends
          list_all_drop [OF configure_steps_keep]] assms] .

lemma configure_steps_nth:
  "length (configure_steps x) = 6"
  "configure_steps x ! 1 = configure_dirs x"
  "configure_steps x ! 2 = configure_project x"
  "configure_steps x ! 4 = configure_targets x"
  by (simp_all add: configure_steps_def)

lemma configure_targets_injects:
  assumes "configure_targets x s = (r, s')" "build_targets (cfg (self s)) = Some ts"
  shows "targets_flag ts \<in> set (configopts (cfg (self s')))"
proof -
  have h: "targets_steps x ts = update (targets_flag ts) # tl (targets_steps x ts)"
    by (simp add: targets_steps_def)
  have "list_all (keeps extends) (update (targets_flag ts) # tl (targets_steps x ts))"
    using targets_steps_keep [of x ts] h by metis
  then have k: "keeps extends (seqs (tl (targets_steps x ts)))"
    by (intro keeps_seqs_const [OF reflp_extends transp_extends]) simp
  obtain s1 where s1: "update (targets_flag ts) s = (None, s1)"
    and m: "targets_flag ts \<in> set (configopts (cfg (self s1)))"
    by (simp add: update_def modify_def update_configopts_def)
  have "configure_targets x s = seq (update (targets_flag ts)) (seqs (tl (targets_steps x ts))) s"
    using assms(2) h by (simp add: configure_targets_def) (metis seqs.simps(2))
  then have "seqs (tl (targets_steps x ts)) s1 = (r, s')"
    using assms(1) s1 by (simp add: seq_def)
  from keepsD [OF k this] show ?thesis using m extends_cfg(7) by blast
qed

lemma configure_step_injects:
  assumes "configure_step x s = (None, s')" "build_targets (cfg (self s)) = Some ts"
  shows "targets_flag ts \<in> set (configopts (cfg (self s')))"
proof -
  have l: "4 < length (configure_steps x)" by (simp add: configure_steps_nth)
  from assms(1) obtain a b where
    a: "seqs (take 4 (configure_steps x)) s = (None, a)"
    and b: "(configure_steps x ! 4) a = (None, b)"
    and c: "seqs (drop (Suc 4) (configure_steps x)) b = (None, s')"
    unfolding configure_step_def by (rule seqs_reaches [OF _ l])
  have "build_targets (cfg (self a)) = Some ts"
    using extends_cfg(1) [OF extends_before [OF a]] assms(2) by simp
  then have "targets_flag ts \<in> set (configopts (cfg (self b)))"
    using b configure_targets_injects by (simp add: configure_steps_nth)
  then show ?thesis using extends_cfg(7) [OF extends_after [OF c]] by blast
qed

subsection \<open>The build targets handed to CMake\<close>

lemma default_selection_shape:
  assumes "build_targets c = None" "select_build_targets x c = Inr ts"
  shows "\<exists>d. map_of DEFAULT_TARGETS_MAP (get_cpu_architecture x) = Some [d]
             \<and> d \<noteq> ''NVPTX'' \<and> d \<noteq> ''AMDGPU''
             \<and> ts = [d]
                  @ (if ''cuda'' \<in> set (map lower (dependencies c))
                        \<or> toolchain_has_COMPILER_CUDA_FAMILY x then [''NVPTX''] else [])
                  @ (if ''rocr-runtime'' \<in> set (map lower (dependencies c))
                     then [''AMDGPU''] else [])"
proof -
  from assms have d: "default_build_targets x c = Inr ts" by (simp add: select_default)
  then obtain t where t: "map_of DEFAULT_TARGETS_MAP (get_cpu_architecture x) = Some t"
    and ts: "ts = t @ (if ''cuda'' \<in> set (map lower (dependencies c)) \<or> toolchain_has_COMPILER_CUDA_FAMILY x
                     then [''NVPTX''] else [])
                  @ (if ''rocr-runtime'' \<in> set (map lower (dependencies c)) then [''AMDGPU''] else [])"
    by (auto simp: default_build_targets_def Let_def split: option.splits)
  from default_in_clang_targets [OF t] obtain d where "t = [d]" "d \<noteq> ''NVPTX''" "d \<noteq> ''AMDGPU''"
    by (cases t) auto
  then show ?thesis using t ts by blast
qed

text \<open>
  Claim C7, as the source has it. An explicit list of build targets is not deduplicated:
  the list \<^verbatim>\<open>['X86', 'X86']\<close> passes the initialisation as it is, and the configure
  step hands \<^verbatim>\<open>X86;X86\<close> to CMake.
\<close>

theorem explicit_targets_not_deduplicated_counterexample:
  \<open>init host0 ''polly'' ''18.1.8'' ''/b'' ''/i'' ''Release'' recipe_twice
     = Inr (instance_of ''polly'' ''18.1.8'' ''/b'' ''/i'' ''Release'' recipe_twice [''X86'', ''X86''])
   \<and> select_build_targets host0 recipe_twice = Inr [''X86'', ''X86'']
   \<and> \<not> distinct [''X86'', ''X86'']
   \<and> fst (configure_step host0 (start_state ''polly'' recipe_twice [''X86'', ''X86''])) = None
   \<and> ''-DLLVM_TARGETS_TO_BUILD="X86;X86"''
        \<in> set (configopts (cfg (self (snd (configure_step host0
                  (start_state ''polly'' recipe_twice [''X86'', ''X86'']))))))\<close>
proof -
  have v: "\<not> LooseVersion_less host0 ''18.1.8'' ''18.1.6''" by (simp add: host0_simps)
  have g: "\<not> bootstrap recipe_twice \<or> lower ''polly'' = ''clang''"
    by (simp add: recipe_twice_def recipe0_simps)
  have 1: "select_build_targets host0 recipe_twice = Inr [''X86'', ''X86'']" by code_simp
  have 2: "init host0 ''polly'' ''18.1.8'' ''/b'' ''/i'' ''Release'' recipe_twice
     = Inr (instance_of ''polly'' ''18.1.8'' ''/b'' ''/i'' ''Release'' recipe_twice [''X86'', ''X86''])"
    using init_error_cases [OF v g, of "''/b''" "''/i''" "''Release''"] 1 by simp
  have 3: "fst (configure_step host0 (start_state ''polly'' recipe_twice [''X86'', ''X86''])) = None"
    by code_simp
  have 4: \<open>''-DLLVM_TARGETS_TO_BUILD="X86;X86"''
        \<in> set (configopts (cfg (self (snd (configure_step host0
                  (start_state ''polly'' recipe_twice [''X86'', ''X86'']))))))\<close>
    by code_simp
  show ?thesis using 1 2 3 4 by simp
qed

text \<open>
  Claim C7, amended. The default selection is an ordered sequence without duplicates:
  the default backend of the host architecture, then \<^verbatim>\<open>NVPTX\<close> when CUDA is a
  dependency or part of the toolchain, then \<^verbatim>\<open>AMDGPU\<close> when ROCR-Runtime is a
  dependency; with both, \<^verbatim>\<open>NVPTX\<close> comes before \<^verbatim>\<open>AMDGPU\<close> and both after the
  CPU backend. An explicit list that passes the validation is kept as it is, in its order
  and with its duplicates. In both cases a configure step that succeeds has put the
  list, joined by semicolons, among the options.
\<close>

theorem target_selection_order:
  "(build_targets c = None \<and> select_build_targets x c = Inr ts \<longrightarrow>
      distinct ts
      \<and> (\<exists>d. map_of DEFAULT_TARGETS_MAP (get_cpu_architecture x) = Some [d]
              \<and> ts = [d]
                   @ (if ''cuda'' \<in> set (map lower (dependencies c))
                         \<or> toolchain_has_COMPILER_CUDA_FAMILY x then [''NVPTX''] else [])
                   @ (if ''rocr-runtime'' \<in> set (map lower (dependencies c))
                      then [''AMDGPU''] else []))
      \<and> (''cuda'' \<in> set (map lower (dependencies c))
           \<and> ''rocr-runtime'' \<in> set (map lower (dependencies c)) \<longrightarrow>
          (\<exists>d. ts = [d, ''NVPTX'', ''AMDGPU''])))
   \<and> (build_targets c = Some ts' \<and> select_build_targets x c = Inr ts \<longrightarrow> ts = ts')
   \<and> (build_targets (cfg (self s)) = Some ts \<and> configure_step x s = (None, s') \<longrightarrow>
        targets_flag ts \<in> set (configopts (cfg (self s'))))"
proof (intro conjI impI)
  assume a: "build_targets c = None \<and> select_build_targets x c = Inr ts"
  then obtain d where d: "map_of DEFAULT_TARGETS_MAP (get_cpu_architecture x) = Some [d]"
    "d \<noteq> ''NVPTX''" "d \<noteq> ''AMDGPU''"
    "ts = [d]
          @ (if ''cuda'' \<in> set (map lower (dependencies c))
                \<or> toolchain_has_COMPILER_CUDA_FAMILY x then [''NVPTX''] else [])
          @ (if ''rocr-runtime'' \<in> set (map lower (dependencies c))
             then [''AMDGPU''] else [])"
    using default_selection_shape by blast
  show "distinct ts" using d(2,3) unfolding d(4) by simp
  show "\<exists>d. map_of DEFAULT_TARGETS_MAP (get_cpu_architecture x) = Some [d]
              \<and> ts = [d]
                   @ (if ''cuda'' \<in> set (map lower (dependencies c))
                         \<or> toolchain_has_COMPILER_CUDA_FAMILY x then [''NVPTX''] else [])
                   @ (if ''rocr-runtime'' \<in> set (map lower (dependencies c))
                      then [''AMDGPU''] else [])"
    using d(1,4) by blast
  assume "''cuda'' \<in> set (map lower (dependencies c))
           \<and> ''rocr-runtime'' \<in> set (map lower (dependencies c))"
  then show "\<exists>d. ts = [d, ''NVPTX'', ''AMDGPU'']" using d(4) by simp
next
  assume "build_targets c = Some ts' \<and> select_build_targets x c = Inr ts"
  then show "ts = ts'" using select_explicit [of c ts' x] by (auto split: if_splits)
next
  assume "build_targets (cfg (self s)) = Some ts \<and> configure_step x s = (None, s')"
  then show "targets_flag ts \<in> set (configopts (cfg (self s')))"
    using configure_step_injects by blast
qed

theorem target_selection_order_witness:
  \<open>select_build_targets host0 (recipe0\<lparr>dependencies := [''CUDA'', ''ROCR-Runtime'']\<rparr>)
      = Inr [''X86'', ''NVPTX'', ''AMDGPU'']
   \<and> distinct [''X86'', ''NVPTX'', ''AMDGPU'']
   \<and> select_build_targets host0 recipe_x86 = Inr [''X86'']
   \<and> ''-DLLVM_TARGETS_TO_BUILD="X86"''
        \<in> set (configopts (cfg (self (snd (configure_step host0
                                               (start_state ''polly'' recipe_x86 [''X86''])))))) \<close>
proof -
  let ?c = "recipe0\<lparr>dependencies := [''CUDA'', ''ROCR-Runtime'']\<rparr>"
  let ?s = "start_state ''polly'' recipe_x86 [''X86'']"
  have 1: "select_build_targets host0 ?c = Inr [''X86'', ''NVPTX'', ''AMDGPU'']" by code_simp
  have 2: "build_targets ?c = None" by (simp add: recipe0_simps)
  have 3: "''cuda'' \<in> set (map lower (dependencies ?c))
           \<and> ''rocr-runtime'' \<in> set (map lower (dependencies ?c))" by code_simp
  have 4: "build_targets recipe_x86 = Some [''X86'']" by (simp add: recipe_x86_def)
  have 5: "select_build_targets host0 recipe_x86 = Inr [''X86'']" by code_simp
  have 6: "build_targets (cfg (self ?s)) = Some [''X86'']"
    by (simp add: start_state_def instance_of_def)
  have "fst (configure_step host0 ?s) = None" by code_simp
  then have 7: "configure_step host0 ?s = (None, snd (configure_step host0 ?s))"
    by (metis prod.collapse)
  note t = target_selection_order [of ?c host0 "[''X86'', ''NVPTX'', ''AMDGPU'']" "[''X86'']" ?s
      "snd (configure_step host0 ?s)"]
  have "distinct [''X86'', ''NVPTX'', ''AMDGPU'']" using t 1 2 by blast
  moreover have "targets_flag [''X86'']
       \<in> set (configopts (cfg (self (snd (configure_step host0 ?s)))))"
    using target_selection_order [of recipe_x86 host0 "[''X86'']" "[''X86'']" ?s
      "snd (configure_step host0 ?s)"] 6 7 by blast
  ultimately show ?thesis using 1 5 by (simp add: targets_flag_def)
qed

subsection \<open>The Polly profile\<close>

lemma polly_config_effect:
  assumes "polly_config x s = (None, s')"
  shows "check_files (self s') = check_files (self s)
           @ [''lib/LLVMPolly.so'', ''lib/libPolly.a'', ''lib/libPollyISL.a'']
         \<and> check_dirs (self s') = check_dirs (self s) @ [''lib/cmake/polly'', ''include/polly'']
         \<and> test_targets (self s') = [''check-polly'']"
  using assms
  by (auto simp: polly_config_def seq_def modify_def update_def ok_def raise_def
        update_configopts_def split: option.splits if_splits)

lemma configure_func_polly: "configure_func x ''polly'' = Some (polly_config x)"
  by (simp add: configure_func_def)

lemma configure_dirs_stage1:
  assumes "configure_dirs x s = (None, s')"
  shows "llvm_obj_dir_stage1 (self s') = Some (path_join (builddir (self s)) [''llvm.obj.1''])"
  using assms
  by (auto simp: configure_dirs_def seq_def modify_def ok_def mkdir_def change_dir_def act_def
        raise_def split: option.splits if_splits)

lemma same_expectations_steps:
  "list_all (keeps same_expectations) (take 2 (configure_steps x))"
  "list_all (keeps same_expectations) (drop 3 (configure_steps x))"
  by (simp_all add: configure_steps_def same_expectations_configure_deps
        same_expectations_configure_dirs same_expectations_configure_common
        same_expectations_configure_targets same_expectations_act)

lemma same_dirs_steps:
  "list_all (keeps same_dirs) (drop 2 (configure_steps x))"
  by (simp add: configure_steps_def same_dirs_configure_project same_dirs_configure_common
        same_dirs_configure_targets same_dirs_act)

lemma build_step_single_stage:
  assumes "llvm_obj_dir_stage1 (self s) = Some d" "\<not> bootstrap (cfg (self s))"
  shows "build_step x s = (None, s\<lparr>trace := trace s @ [ChangeDir d, SuperBuildStep]\<rparr>)"
  using assms by (simp add: build_step_def seq_def change_dir_def act_def ok_def)

lemma configure_step_polly:
  assumes "project_name (self s) = ''polly''" "\<not> bootstrap (cfg (self s))"
      and "configure_step x s = (None, s')"
  shows "check_files (self s') = check_files (self s)
           @ [''lib/LLVMPolly.so'', ''lib/libPolly.a'', ''lib/libPollyISL.a'']"
    and "check_dirs (self s') = check_dirs (self s) @ [''lib/cmake/polly'', ''include/polly'']"
    and "test_targets (self s') = [''check-polly'']"
    and "build_step x s' =
           (None, s'\<lparr>trace := trace s' @ [ChangeDir (path_join (builddir (self s)) [''llvm.obj.1'']),
                                          SuperBuildStep]\<rparr>)"
proof -
  have l: "2 < length (configure_steps x)" "1 < length (configure_steps x)"
    by (simp_all add: configure_steps_nth)
  from assms(3) obtain a b where
    a: "seqs (take 2 (configure_steps x)) s = (None, a)"
    and b: "(configure_steps x ! 2) a = (None, b)"
    and c: "seqs (drop (Suc 2) (configure_steps x)) b = (None, s')"
    unfolding configure_step_def by (rule seqs_reaches [OF _ l(1)])
  have ea: "extends s a" by (rule extends_before [OF a])
  have sa: "same_expectations s a"
    by (rule keepsD [OF keeps_seqs_const [OF reflp_same_expectations transp_same_expectations
          same_expectations_steps(1)] a])
  have c': "seqs (drop 3 (configure_steps x)) b = (None, s')" using c by simp
  have sb: "same_expectations b s'"
    by (rule keepsD [OF keeps_seqs_const [OF reflp_same_expectations transp_same_expectations
          same_expectations_steps(2)] c'])
  have "project_name (self a) = ''polly''" using extends_cfg(5) [OF ea] assms(1) by simp
  then have "polly_config x a = (None, b)"
    using b by (simp add: configure_steps_nth configure_project_def configure_func_polly)
  from polly_config_effect [OF this] sa sb
  show "check_files (self s') = check_files (self s)
           @ [''lib/LLVMPolly.so'', ''lib/libPolly.a'', ''lib/libPollyISL.a'']"
    and "check_dirs (self s') = check_dirs (self s) @ [''lib/cmake/polly'', ''include/polly'']"
    and "test_targets (self s') = [''check-polly'']"
    by (simp_all add: same_expectations_def)
  from assms(3) obtain a0 a1 where
    a0: "seqs (take 1 (configure_steps x)) s = (None, a0)"
    and a1: "(configure_steps x ! 1) a0 = (None, a1)"
    and a2: "seqs (drop (Suc 1) (configure_steps x)) a1 = (None, s')"
    unfolding configure_step_def by (rule seqs_reaches [OF _ l(2)])
  have d: "configure_dirs x a0 = (None, a1)" using a1 by (simp add: configure_steps_def)
  from extends_before [OF a0] have "builddir (self a0) = builddir (self s)"
    by (rule extends_cfg(6))
  then have st: "llvm_obj_dir_stage1 (self a1) = Some (path_join (builddir (self s)) [''llvm.obj.1''])"
    using configure_dirs_stage1 [OF d] by simp
  have "seqs (drop 2 (configure_steps x)) a1 = (None, s')"
    using a2 by (simp add: numeral_2_eq_2)
  from keepsD [OF keeps_seqs_const [OF reflp_same_dirs transp_same_dirs same_dirs_steps] this]
  have "llvm_obj_dir_stage1 (self s') = Some (path_join (builddir (self s)) [''llvm.obj.1''])"
    using st by (simp add: same_dirs_def)
  moreover have "\<not> bootstrap (cfg (self s'))"
    using extends_cfg(2) [OF keepsD [OF extends_configure_step assms(3)]] assms(2) by simp
  ultimately show "build_step x s' =
           (None, s'\<lparr>trace := trace s' @ [ChangeDir (path_join (builddir (self s)) [''llvm.obj.1'']),
                                          SuperBuildStep]\<rparr>)"
    by (rule build_step_single_stage)
qed

lemma init_returns:
  assumes "init x nm ver bdir idir btype c = Inr b"
  obtains targets where "b = instance_of nm ver bdir idir btype c targets"
    and "select_build_targets x c = Inr targets"
proof -
  have v: "\<not> LooseVersion_less x ver ''18.1.6''"
    using assms init_low_version [of x ver nm bdir idir btype c] by auto
  have g: "\<not> bootstrap c \<or> lower nm = ''clang''"
    using assms init_bootstrap_refused [OF v, of c nm bdir idir btype] by auto
  show ?thesis
    using assms that unfolding init_error_cases [OF v g]
    by (auto split: sum.splits)
qed

text \<open>
  Claim C8. For an instance whose project is \<^verbatim>\<open>polly\<close>, initialised without
  \<^verbatim>\<open>bootstrap\<close>, a configure step that succeeds leaves exactly the three files
  \<^verbatim>\<open>lib/LLVMPolly.so\<close>, \<^verbatim>\<open>lib/libPolly.a\<close>, \<^verbatim>\<open>lib/libPollyISL.a\<close> and
  the two directories \<^verbatim>\<open>lib/cmake/polly\<close>, \<^verbatim>\<open>include/polly\<close> as expectations
  and \<^verbatim>\<open>check-polly\<close> as the only test target; the build step that follows runs a
  single stage: it enters the directory of stage 1 and runs the build of the parent class,
  and nothing else.
\<close>

theorem polly_profile:
  assumes "init x nm ver bdir idir btype c = Inr b"
      and "project_name b = ''polly''"
      and "\<not> bootstrap c"
      and "configure_step x \<lparr>self = b, env = e, trace = t\<rparr> = (None, s')"
  shows "check_files (self s') = [''lib/LLVMPolly.so'', ''lib/libPolly.a'', ''lib/libPollyISL.a'']
         \<and> check_dirs (self s') = [''lib/cmake/polly'', ''include/polly'']
         \<and> test_targets (self s') = [''check-polly'']
         \<and> build_step x s' =
             (None, s'\<lparr>trace := trace s' @ [ChangeDir (path_join bdir [''llvm.obj.1'']),
                                            SuperBuildStep]\<rparr>)"
proof -
  from assms(1) obtain targets where b: "b = instance_of nm ver bdir idir btype c targets"
    by (rule init_returns)
  let ?s = "\<lparr>self = b, env = e, trace = t\<rparr>"
  have p: "project_name (self ?s) = ''polly''" using assms(2) by simp
  have n: "\<not> bootstrap (cfg (self ?s))" using assms(3) b by (simp add: instance_of_def)
  have i: "check_files (self ?s) = []" "check_dirs (self ?s) = []" "builddir (self ?s) = bdir"
    using b by (simp_all add: instance_of_def)
  show ?thesis
    using configure_step_polly [OF p n assms(4)] i by simp
qed

theorem polly_profile_witness:
  "check_files (self (snd (configure_step host0 (start_state ''polly'' recipe_x86 [''X86'']))))
     = [''lib/LLVMPolly.so'', ''lib/libPolly.a'', ''lib/libPollyISL.a'']
   \<and> check_dirs (self (snd (configure_step host0 (start_state ''polly'' recipe_x86 [''X86'']))))
     = [''lib/cmake/polly'', ''include/polly'']
   \<and> test_targets (self (snd (configure_step host0 (start_state ''polly'' recipe_x86 [''X86'']))))
     = [''check-polly'']
   \<and> trace (snd (build_step host0
                (snd (configure_step host0 (start_state ''polly'' recipe_x86 [''X86''])))))
     = trace (snd (configure_step host0 (start_state ''polly'' recipe_x86 [''X86''])))
       @ [ChangeDir ''/b/llvm.obj.1'', SuperBuildStep]"
proof -
  let ?b = "instance_of ''polly'' ''18.1.8'' ''/b'' ''/i'' ''Release'' recipe_x86 [''X86'']"
  let ?s = "start_state ''polly'' recipe_x86 [''X86'']"
  have v: "\<not> LooseVersion_less host0 ''18.1.8'' ''18.1.6''" by (simp add: host0_simps)
  have g: "\<not> bootstrap recipe_x86" by (simp add: recipe_x86_def recipe0_simps)
  have "select_build_targets host0 recipe_x86 = Inr [''X86'']" by code_simp
  then have 1: "init host0 ''polly'' ''18.1.8'' ''/b'' ''/i'' ''Release'' recipe_x86 = Inr ?b"
    using init_error_cases [OF v, of recipe_x86 "''polly''" "''/b''" "''/i''" "''Release''"] g
    by simp
  have 2: "project_name ?b = ''polly''" by code_simp
  have "fst (configure_step host0 ?s) = None" by code_simp
  then have 3: "configure_step host0 \<lparr>self = ?b, env = Map.empty, trace = []\<rparr>
                  = (None, snd (configure_step host0 ?s))"
    unfolding start_state_def by (metis prod.collapse)
  have 4: "path_join ''/b'' [''llvm.obj.1''] = ''/b/llvm.obj.1''" by code_simp
  show ?thesis
    using polly_profile [OF 1 2 g 3] unfolding 4 by simp
qed

subsection \<open>CUDA capabilities for the NVPTX target\<close>

lemma nvptx_no_capabilities:
  assumes "\<not> truthy (build_option_cuda_compute_capabilities x)"
      and "\<not> truthy (cuda_compute_capabilities (cfg (self s)))"
  shows "nvptx_config x s =
           (Some (EasyBuildError (''Can't build Clang with CUDA support without specifying ''
                                  @ apos @ ''cuda-compute-capabilities'' @ apos)), s)"
  using assms
  by (auto simp: nvptx_config_def py_or_def truthy_def raise_def split: option.splits)

lemma nvptx_default_min:
  assumes "py_or (build_option_cuda_compute_capabilities x)
                 (cuda_compute_capabilities (cfg (self s))) = Some cc"
      and "cc \<noteq> []"
      and "\<not> truthy (default_cuda_capability (cfg (self s)))"
  shows "fst (nvptx_config x s) = None"
    and "trace (snd (nvptx_config x s)) =
           trace s @ [PrintWarning (''No default CUDA capability defined! Using '' @ apos
                        @ py_min cc @ apos @ '' taken as minimum from '' @ apos
                        @ ''cuda_compute_capabilities'' @ apos)]"
    and "configopts (cfg (self (snd (nvptx_config x s)))) =
           configopts (cfg (self s))
           @ [''-DCLANG_OPENMP_NVPTX_DEFAULT_ARCH=sm_'' @ replace ''.'' [] (py_min cc),
              ''-DLIBOMPTARGET_NVPTX_COMPUTE_CAPABILITIES=''
              @ join '','' (map (replace ''.'' []) cc)]"
    and "env (snd (nvptx_config x s)) = env s"
proof -
  have t: "truthy (Some cc)" using assms(2) by (simp add: truthy_def)
  have c: "(case py_or (py_or (build_option_cuda_compute_capabilities x)
                          (cuda_compute_capabilities (cfg (self s)))) (Some []) of
              None \<Rightarrow> [] | Some l \<Rightarrow> l) = cc"
    unfolding assms(1) using t by (simp add: py_or_def)
  show "fst (nvptx_config x s) = None"
    and "trace (snd (nvptx_config x s)) =
           trace s @ [PrintWarning (''No default CUDA capability defined! Using '' @ apos
                        @ py_min cc @ apos @ '' taken as minimum from '' @ apos
                        @ ''cuda_compute_capabilities'' @ apos)]"
    and "configopts (cfg (self (snd (nvptx_config x s)))) =
           configopts (cfg (self s))
           @ [''-DCLANG_OPENMP_NVPTX_DEFAULT_ARCH=sm_'' @ replace ''.'' [] (py_min cc),
              ''-DLIBOMPTARGET_NVPTX_COMPUTE_CAPABILITIES=''
              @ join '','' (map (replace ''.'' []) cc)]"
    and "env (snd (nvptx_config x s)) = env s"
    unfolding nvptx_config_def c Let_def using assms(2,3)
    by (simp_all add: seq_def act_def update_def modify_def update_configopts_def ok_def)
qed

lemma targets_steps_nth:
  "length (targets_steps x ts) = 6"
  "''NVPTX'' \<in> set ts \<Longrightarrow> targets_steps x ts ! 3 = nvptx_config x"
  by (simp_all add: targets_steps_def)

lemma extends_before_targets:
  assumes "seqs (take i (targets_steps x ts)) s = (r, a)"
  shows "extends s a"
  using keepsD [OF keeps_seqs_const [OF reflp_extends transp_extends
          list_all_take [OF targets_steps_keep]] assms] .

lemma extends_after_targets:
  assumes "seqs (drop i (targets_steps x ts)) b = (r, s')"
  shows "extends b s'"
  using keepsD [OF keeps_seqs_const [OF reflp_extends transp_extends
          list_all_drop [OF targets_steps_keep]] assms] .

lemma configure_targets_fails_without_capabilities:
  assumes "build_targets (cfg (self s)) = Some ts" "''NVPTX'' \<in> set ts"
      and "\<not> truthy (build_option_cuda_compute_capabilities x)"
      and "\<not> truthy (cuda_compute_capabilities (cfg (self s)))"
  shows "fst (configure_targets x s) \<noteq> None"
proof -
  have l: "3 < length (targets_steps x ts)" by (simp add: targets_steps_nth)
  have "fst (seqs (targets_steps x ts) s) \<noteq> None"
  proof (rule seqs_fails [OF l])
    fix a assume "seqs (take 3 (targets_steps x ts)) s = (None, a)"
    from extends_cfg(3) [OF extends_before_targets [OF this]]
    have "\<not> truthy (cuda_compute_capabilities (cfg (self a)))" using assms(4) by simp
    from nvptx_no_capabilities [OF assms(3) this]
    show "fst ((targets_steps x ts ! 3) a) \<noteq> None"
      by (simp add: targets_steps_nth(2) [OF assms(2)])
  qed
  then show ?thesis using assms(1) by (simp add: configure_targets_def)
qed

lemma configure_step_fails_without_capabilities:
  assumes "build_targets (cfg (self s)) = Some ts" "''NVPTX'' \<in> set ts"
      and "\<not> truthy (build_option_cuda_compute_capabilities x)"
      and "\<not> truthy (cuda_compute_capabilities (cfg (self s)))"
  shows "fst (configure_step x s) \<noteq> None"
  unfolding configure_step_def
proof (rule seqs_fails [of 4])
  show "4 < length (configure_steps x)" by (simp add: configure_steps_nth)
  fix a assume "seqs (take 4 (configure_steps x)) s = (None, a)"
  from extends_before [OF this] have e: "extends s a" .
  have "fst (configure_targets x a) \<noteq> None"
    using configure_targets_fails_without_capabilities [of a ts x]
      extends_cfg(1) [OF e] extends_cfg(3) [OF e] assms by simp
  then show "fst ((configure_steps x ! 4) a) \<noteq> None" by (simp add: configure_steps_nth)
qed

lemma configure_step_default_capability:
  assumes "build_targets (cfg (self s)) = Some ts" "''NVPTX'' \<in> set ts"
      and "py_or (build_option_cuda_compute_capabilities x)
                 (cuda_compute_capabilities (cfg (self s))) = Some cc"
      and "cc \<noteq> []"
      and "\<not> truthy (default_cuda_capability (cfg (self s)))"
      and "configure_step x s = (None, s')"
  shows "''-DCLANG_OPENMP_NVPTX_DEFAULT_ARCH=sm_'' @ replace ''.'' [] (py_min cc)
           \<in> set (configopts (cfg (self s')))"
    and "PrintWarning (''No default CUDA capability defined! Using '' @ apos
                        @ py_min cc @ apos @ '' taken as minimum from '' @ apos
                        @ ''cuda_compute_capabilities'' @ apos) \<in> set (trace s')"
proof -
  have l: "4 < length (configure_steps x)" by (simp add: configure_steps_nth)
  from assms(6) obtain a b where
    a: "seqs (take 4 (configure_steps x)) s = (None, a)"
    and b: "(configure_steps x ! 4) a = (None, b)"
    and c: "seqs (drop (Suc 4) (configure_steps x)) b = (None, s')"
    unfolding configure_step_def by (rule seqs_reaches [OF _ l])
  note ea = extends_before [OF a]
  have ta: "build_targets (cfg (self a)) = Some ts" using extends_cfg(1) [OF ea] assms(1) by simp
  then have "seqs (targets_steps x ts) a = (None, b)"
    using b by (simp add: configure_steps_nth configure_targets_def)
  moreover have l3: "3 < length (targets_steps x ts)" by (simp add: targets_steps_nth)
  ultimately obtain a' b' where
    a': "seqs (take 3 (targets_steps x ts)) a = (None, a')"
    and b': "(targets_steps x ts ! 3) a' = (None, b')"
    and c': "seqs (drop (Suc 3) (targets_steps x ts)) b' = (None, b)"
    by (rule seqs_reaches)
  note ea' = extends_before_targets [OF a']
  have n: "nvptx_config x a' = (None, b')" using b' by (simp add: targets_steps_nth(2) [OF assms(2)])
  have h: "py_or (build_option_cuda_compute_capabilities x)
                 (cuda_compute_capabilities (cfg (self a'))) = Some cc"
    "\<not> truthy (default_cuda_capability (cfg (self a')))"
    using assms(3,5) extends_cfg(3,4) [OF ea] extends_cfg(3,4) [OF ea'] by simp_all
  have "extends b' b" by (rule extends_after_targets [OF c'])
  moreover have "extends b s'" by (rule extends_after [OF c])
  ultimately have sub: "set (configopts (cfg (self b'))) \<subseteq> set (configopts (cfg (self s')))"
    "set (trace b') \<subseteq> set (trace s')"
    using extends_cfg(7,8) by blast+
  have "''-DCLANG_OPENMP_NVPTX_DEFAULT_ARCH=sm_'' @ replace ''.'' [] (py_min cc)
           \<in> set (configopts (cfg (self b')))"
    using nvptx_default_min(3) [OF h(1) assms(4) h(2)] n by simp
  then show "''-DCLANG_OPENMP_NVPTX_DEFAULT_ARCH=sm_'' @ replace ''.'' [] (py_min cc)
           \<in> set (configopts (cfg (self s')))" using sub by blast
  have "PrintWarning (''No default CUDA capability defined! Using '' @ apos
                        @ py_min cc @ apos @ '' taken as minimum from '' @ apos
                        @ ''cuda_compute_capabilities'' @ apos) \<in> set (trace b')"
    using nvptx_default_min(2) [OF h(1) assms(4) h(2)] n by simp
  then show "PrintWarning (''No default CUDA capability defined! Using '' @ apos
                        @ py_min cc @ apos @ '' taken as minimum from '' @ apos
                        @ ''cuda_compute_capabilities'' @ apos) \<in> set (trace s')"
    using sub by blast
qed

lemma str_less_irrefl: "\<not> str_less a a"
  by (induction a) simp_all

lemma str_less_trans: "str_less a b \<Longrightarrow> str_less b c \<Longrightarrow> str_less a c"
proof (induction a b arbitrary: c rule: str_less.induct)
  case 1
  then show ?case by simp
next
  case (2 d ds)
  then show ?case by (cases c) simp_all
next
  case (3 c cs)
  then show ?case by simp
next
  case (4 a as b bs)
  then show ?case
    by (cases c) (auto dest: less_trans)
qed

lemma foldl_min_least:
  assumes "m \<in> set done" "\<forall>c\<in>set done. \<not> str_less c m"
  shows "foldl (\<lambda>m y. if str_less y m then y else m) m xs \<in> set (done @ xs)
         \<and> (\<forall>c\<in>set (done @ xs).
               \<not> str_less c (foldl (\<lambda>m y. if str_less y m then y else m) m xs))"
  using assms
proof (induction xs arbitrary: m "done")
  case Nil
  then show ?case by simp
next
  case (Cons y ys)
  let ?m = "if str_less y m then y else m"
  have 1: "?m \<in> set (done @ [y])" using Cons.prems(1) by simp
  have 2: "\<forall>c\<in>set (done @ [y]). \<not> str_less c ?m"
    using Cons.prems(2) str_less_irrefl str_less_trans by auto
  from Cons.IH [OF 1 2] show ?case by simp
qed

lemma py_min_least:
  assumes "cc \<noteq> []"
  shows "py_min cc \<in> set cc \<and> (\<forall>c\<in>set cc. \<not> str_less c (py_min cc))"
proof -
  obtain x xs where cc: "cc = x # xs" using assms by (cases cc) auto
  have "x \<in> set [x]" "\<forall>c\<in>set [x]. \<not> str_less c x" by (simp_all add: str_less_irrefl)
  from foldl_min_least [OF this, of xs] show ?thesis by (simp add: cc)
qed

text \<open>
  With \<^verbatim>\<open>NVPTX\<close> among the build targets: when neither the framework configuration
  nor the easyconfig gives a non-empty list of CUDA compute capabilities, the NVPTX part
  raises the error that names \<^verbatim>\<open>cuda-compute-capabilities\<close> and the configure step
  fails. When a list \<open>cc\<close> is given and no default capability is set, the NVPTX part
  raises nothing: it prints one warning and appends two options, the first of which sets
  the default architecture to \<^verbatim>\<open>min(cc)\<close> without its dots, and a configure step
  that succeeds still has that option and that warning. \<^verbatim>\<open>min\<close> is applied to strings:
  its result is an element of the list, and no element is below it in the order of
  Python's strings, which compares code points.
\<close>

lemma nvptx_config_cases:
  assumes "build_targets (cfg (self s)) = Some ts" and "''NVPTX'' \<in> set ts"
  shows "(\<not> truthy (build_option_cuda_compute_capabilities x)
          \<and> \<not> truthy (cuda_compute_capabilities (cfg (self s))) \<longrightarrow>
            nvptx_config x s =
              (Some (EasyBuildError (''Can't build Clang with CUDA support without specifying ''
                                     @ apos @ ''cuda-compute-capabilities'' @ apos)), s)
            \<and> fst (configure_step x s) \<noteq> None)
       \<and> (py_or (build_option_cuda_compute_capabilities x)
                 (cuda_compute_capabilities (cfg (self s))) = Some cc
          \<and> cc \<noteq> [] \<and> \<not> truthy (default_cuda_capability (cfg (self s))) \<longrightarrow>
            py_min cc \<in> set cc \<and> (\<forall>c\<in>set cc. \<not> str_less c (py_min cc))
            \<and> fst (nvptx_config x s) = None
            \<and> trace (snd (nvptx_config x s)) =
                trace s @ [PrintWarning (''No default CUDA capability defined! Using '' @ apos
                             @ py_min cc @ apos @ '' taken as minimum from '' @ apos
                             @ ''cuda_compute_capabilities'' @ apos)]
            \<and> configopts (cfg (self (snd (nvptx_config x s)))) =
                configopts (cfg (self s))
                @ [''-DCLANG_OPENMP_NVPTX_DEFAULT_ARCH=sm_'' @ replace ''.'' [] (py_min cc),
                   ''-DLIBOMPTARGET_NVPTX_COMPUTE_CAPABILITIES=''
                   @ join '','' (map (replace ''.'' []) cc)]
            \<and> (configure_step x s = (None, s') \<longrightarrow>
                  ''-DCLANG_OPENMP_NVPTX_DEFAULT_ARCH=sm_'' @ replace ''.'' [] (py_min cc)
                    \<in> set (configopts (cfg (self s')))
                  \<and> PrintWarning (''No default CUDA capability defined! Using '' @ apos
                             @ py_min cc @ apos @ '' taken as minimum from '' @ apos
                             @ ''cuda_compute_capabilities'' @ apos) \<in> set (trace s')))"
proof (intro conjI impI)
  assume a: "\<not> truthy (build_option_cuda_compute_capabilities x)
          \<and> \<not> truthy (cuda_compute_capabilities (cfg (self s)))"
  show "nvptx_config x s =
              (Some (EasyBuildError (''Can't build Clang with CUDA support without specifying ''
                                     @ apos @ ''cuda-compute-capabilities'' @ apos)), s)"
    using a nvptx_no_capabilities by blast
  show "fst (configure_step x s) \<noteq> None"
    using a configure_step_fails_without_capabilities [OF assms] by blast
next
  assume b: "py_or (build_option_cuda_compute_capabilities x)
                 (cuda_compute_capabilities (cfg (self s))) = Some cc
          \<and> cc \<noteq> [] \<and> \<not> truthy (default_cuda_capability (cfg (self s)))"
  then have h: "py_or (build_option_cuda_compute_capabilities x)
                 (cuda_compute_capabilities (cfg (self s))) = Some cc"
    "cc \<noteq> []" "\<not> truthy (default_cuda_capability (cfg (self s)))" by simp_all
  show "py_min cc \<in> set cc" "\<forall>c\<in>set cc. \<not> str_less c (py_min cc)"
    using py_min_least [OF h(2)] by simp_all
  show "fst (nvptx_config x s) = None" by (rule nvptx_default_min(1) [OF h])
  show "trace (snd (nvptx_config x s)) =
                trace s @ [PrintWarning (''No default CUDA capability defined! Using '' @ apos
                             @ py_min cc @ apos @ '' taken as minimum from '' @ apos
                             @ ''cuda_compute_capabilities'' @ apos)]"
    by (rule nvptx_default_min(2) [OF h])
  show "configopts (cfg (self (snd (nvptx_config x s)))) =
                configopts (cfg (self s))
                @ [''-DCLANG_OPENMP_NVPTX_DEFAULT_ARCH=sm_'' @ replace ''.'' [] (py_min cc),
                   ''-DLIBOMPTARGET_NVPTX_COMPUTE_CAPABILITIES=''
                   @ join '','' (map (replace ''.'' []) cc)]"
    by (rule nvptx_default_min(3) [OF h])
  assume c: "configure_step x s = (None, s')"
  show "''-DCLANG_OPENMP_NVPTX_DEFAULT_ARCH=sm_'' @ replace ''.'' [] (py_min cc)
                    \<in> set (configopts (cfg (self s')))"
    by (rule configure_step_default_capability(1) [OF assms h c])
  show "PrintWarning (''No default CUDA capability defined! Using '' @ apos
                             @ py_min cc @ apos @ '' taken as minimum from '' @ apos
                             @ ''cuda_compute_capabilities'' @ apos) \<in> set (trace s')"
    by (rule configure_step_default_capability(2) [OF assms h c])
qed

lemma nvptx_config_example:
  "fst (configure_step host0
          (start_state ''polly'' (recipe_nvptx\<lparr>cuda_compute_capabilities := None\<rparr>)
             [''X86'', ''NVPTX''])) \<noteq> None
   \<and> py_min [''8.0'', ''7.5''] = ''7.5''
   \<and> ''-DCLANG_OPENMP_NVPTX_DEFAULT_ARCH=sm_75''
        \<in> set (configopts (cfg (self (snd (configure_step host0
                  (start_state ''polly'' recipe_nvptx [''X86'', ''NVPTX'']))))))
   \<and> PrintWarning (''No default CUDA capability defined! Using '' @ apos @ ''7.5'' @ apos
                    @ '' taken as minimum from '' @ apos @ ''cuda_compute_capabilities'' @ apos)
        \<in> set (trace (snd (configure_step host0
                  (start_state ''polly'' recipe_nvptx [''X86'', ''NVPTX'']))))"
proof -
  let ?u = "start_state ''polly'' (recipe_nvptx\<lparr>cuda_compute_capabilities := None\<rparr>)
               [''X86'', ''NVPTX'']"
  let ?s = "start_state ''polly'' recipe_nvptx [''X86'', ''NVPTX'']"
  have t0: "build_targets (cfg (self ?u)) = Some [''X86'', ''NVPTX'']"
    and t: "build_targets (cfg (self ?s)) = Some [''X86'', ''NVPTX'']"
    by (simp_all add: start_state_def instance_of_def)
  have n: "''NVPTX'' \<in> set [''X86'', ''NVPTX'']" by simp
  have a: "\<not> truthy (build_option_cuda_compute_capabilities host0)
          \<and> \<not> truthy (cuda_compute_capabilities (cfg (self ?u)))"
    by code_simp
  have 1: "fst (configure_step host0 ?u) \<noteq> None"
    using nvptx_config_cases [OF t0 n, of host0] a by blast
  have b: "py_or (build_option_cuda_compute_capabilities host0)
                 (cuda_compute_capabilities (cfg (self ?s))) = Some [''8.0'', ''7.5'']
          \<and> [''8.0'', ''7.5''] \<noteq> [] \<and> \<not> truthy (default_cuda_capability (cfg (self ?s)))"
    by code_simp
  have "fst (configure_step host0 ?s) = None" by code_simp
  then have c: "configure_step host0 ?s = (None, snd (configure_step host0 ?s))"
    by (metis prod.collapse)
  have m: "py_min [''8.0'', ''7.5''] = ''7.5''" by code_simp
  have r: "replace ''.'' [] ''7.5'' = ''75''" by code_simp
  note w = nvptx_config_cases [OF t n, of host0 "[''8.0'', ''7.5'']" "snd (configure_step host0 ?s)"]
  have 2: "''-DCLANG_OPENMP_NVPTX_DEFAULT_ARCH=sm_'' @ replace ''.'' [] (py_min [''8.0'', ''7.5''])
             \<in> set (configopts (cfg (self (snd (configure_step host0 ?s)))))"
    using w b c by blast
  have 3: "PrintWarning (''No default CUDA capability defined! Using '' @ apos
             @ py_min [''8.0'', ''7.5''] @ apos @ '' taken as minimum from '' @ apos
             @ ''cuda_compute_capabilities'' @ apos)
             \<in> set (trace (snd (configure_step host0 ?s)))"
    using w b c by blast
  show ?thesis using 1 2 3 unfolding m r by simp
qed

text \<open>
  Claim C9, on the source. With the CUDA capabilities \<^verbatim>\<open>['9.0', '10.0']\<close>, \<^verbatim>\<open>NVPTX\<close>
  among the build targets and no default capability set, the configure step succeeds,
  warns that it is using \<^verbatim>\<open>10.0\<close>, ``taken as minimum'', and bakes
  \<^verbatim>\<open>sm_100\<close> into the options as the default architecture: \<^verbatim>\<open>min\<close> compares
  the strings, and \<^verbatim>\<open>'10.0'\<close> is below \<^verbatim>\<open>'9.0'\<close> as a string. The minimum of the
  requested capabilities is 9.0.
\<close>

theorem nvptx_default_not_minimum:
  "capability_less ''9.0'' ''10.0''
   \<and> str_less ''10.0'' ''9.0''
   \<and> py_min [''9.0'', ''10.0''] = ''10.0''
   \<and> fst (configure_step host0
             (start_state ''polly'' recipe_nvptx_mixed [''X86'', ''NVPTX''])) = None
   \<and> ''-DCLANG_OPENMP_NVPTX_DEFAULT_ARCH=sm_100''
        \<in> set (configopts (cfg (self (snd (configure_step host0
                  (start_state ''polly'' recipe_nvptx_mixed [''X86'', ''NVPTX'']))))))
   \<and> ''-DCLANG_OPENMP_NVPTX_DEFAULT_ARCH=sm_90''
        \<notin> set (configopts (cfg (self (snd (configure_step host0
                  (start_state ''polly'' recipe_nvptx_mixed [''X86'', ''NVPTX'']))))))
   \<and> PrintWarning (''No default CUDA capability defined! Using '' @ apos @ ''10.0'' @ apos
                    @ '' taken as minimum from '' @ apos @ ''cuda_compute_capabilities'' @ apos)
        \<in> set (trace (snd (configure_step host0
                  (start_state ''polly'' recipe_nvptx_mixed [''X86'', ''NVPTX'']))))"
proof -
  let ?s = "start_state ''polly'' recipe_nvptx_mixed [''X86'', ''NVPTX'']"
  have 1: "capability_less ''9.0'' ''10.0''" by code_simp
  have 2: "str_less ''10.0'' ''9.0''" by code_simp
  have 3: "py_min [''9.0'', ''10.0''] = ''10.0''" by code_simp
  have 4: "fst (configure_step host0 ?s) = None" by code_simp
  have 5: "''-DCLANG_OPENMP_NVPTX_DEFAULT_ARCH=sm_100''
             \<in> set (configopts (cfg (self (snd (configure_step host0 ?s)))))" by code_simp
  have 6: "''-DCLANG_OPENMP_NVPTX_DEFAULT_ARCH=sm_90''
             \<notin> set (configopts (cfg (self (snd (configure_step host0 ?s)))))" by code_simp
  have t: "build_targets (cfg (self ?s)) = Some [''X86'', ''NVPTX'']"
    by (simp add: start_state_def instance_of_def)
  have n: "''NVPTX'' \<in> set [''X86'', ''NVPTX'']" by simp
  have b: "py_or (build_option_cuda_compute_capabilities host0)
                 (cuda_compute_capabilities (cfg (self ?s))) = Some [''9.0'', ''10.0'']
          \<and> [''9.0'', ''10.0''] \<noteq> [] \<and> \<not> truthy (default_cuda_capability (cfg (self ?s)))"
    by code_simp
  from 4 have c: "configure_step host0 ?s = (None, snd (configure_step host0 ?s))"
    by (metis prod.collapse)
  have "PrintWarning (''No default CUDA capability defined! Using '' @ apos
             @ py_min [''9.0'', ''10.0''] @ apos @ '' taken as minimum from '' @ apos
             @ ''cuda_compute_capabilities'' @ apos)
             \<in> set (trace (snd (configure_step host0 ?s)))"
    using nvptx_config_cases [OF t n, of host0 "[''9.0'', ''10.0'']" "snd (configure_step host0 ?s)"]
      b c by blast
  then have 7: "PrintWarning (''No default CUDA capability defined! Using '' @ apos @ ''10.0''
                    @ apos @ '' taken as minimum from '' @ apos @ ''cuda_compute_capabilities''
                    @ apos)
             \<in> set (trace (snd (configure_step host0 ?s)))"
    unfolding 3 .
  from 1 2 3 4 5 6 7 show ?thesis by blast
qed

subsection \<open>The environment across a bootstrap stage\<close>

text \<open>
  \<^verbatim>\<open>build_with_prev_stage\<close> puts the directory of the previous stage in front of
  \<^verbatim>\<open>$PATH\<close> and sets \<^verbatim>\<open>$PATH\<close> back in its last statement; nothing in the method
  catches an exception. \<^verbatim>\<open>__init__\<close> sets \<^verbatim>\<open>llvm_src_dir\<close> to \<^verbatim>\<open>None\<close> and no
  other statement of the easyblock assigns it, so for the versions that \<^verbatim>\<open>__init__\<close>
  accepts the argument of CMake, \<^verbatim>\<open>os.path.join(self.llvm_src_dir, "llvm")\<close>, raises
  before either subprocess runs.
\<close>

lemma configure_dirs_bootstrap:
  assumes "configure_dirs x s = (None, s')" "bootstrap (cfg (self s))"
  shows "llvm_obj_dir_stage1 (self s') = Some (path_join (builddir (self s)) [''llvm.obj.1''])"
    and "llvm_obj_dir_stage2 (self s') = Some (path_join (builddir (self s)) [''llvm.obj.2''])"
  using assms
  by (auto simp: configure_dirs_def seq_def modify_def ok_def mkdir_def change_dir_def act_def
        raise_def split: option.splits if_splits)

lemma rpath_wrappers_result:
  assumes "rpath_wrappers x p s = (r, s')"
  shows "(r = None \<or> r = Some TypeError) \<and> self s' = self s"
  using assms
  by (auto simp: rpath_wrappers_def seq_def act_def setvar_def ok_def raise_def Let_def
           split: option.splits)

lemma cmake_raises:
  assumes "llvm_src_dir (self s) = None" "\<not> LooseVersion_less x (version (self s)) ''14''"
  shows "cmake_and_make x s = (Some TypeError, s)"
  using assms by (simp add: cmake_and_make_def Let_def seq_def raise_def)

lemma run_stage_raises:
  assumes "llvm_src_dir (self s) = None" "\<not> LooseVersion_less x (version (self s)) ''14''"
  shows "fst (run_stage x prev_obj s) = Some TypeError"
    and "\<not> build_option_rpath x \<Longrightarrow> prev_obj = Some d \<Longrightarrow> env s ''PATH'' = Some p \<Longrightarrow>
           env (snd (run_stage x prev_obj s)) = (env s)(''PATH'' \<mapsto> path_join d [''bin''] @ '':'' @ p)"
proof -
  show "fst (run_stage x prev_obj s) = Some TypeError"
  proof (cases prev_obj)
    case None
    then show ?thesis by (simp add: run_stage_def raise_def)
  next
    case (Some prev)
    show ?thesis
    proof (cases "env s ''PATH''")
      case None
      then show ?thesis using Some by (simp add: run_stage_def raise_def)
    next
      case (Some orig)
      let ?s1 = "s\<lparr>env := (env s)(''PATH'' \<mapsto> path_join prev [''bin''] @ '':'' @ orig)\<rparr>"
      have c1: "cmake_and_make x ?s1 = (Some TypeError, ?s1)"
        using assms by (intro cmake_raises) simp_all
      show ?thesis
      proof (cases "build_option_rpath x")
        case False
        then show ?thesis using \<open>prev_obj = Some prev\<close> Some c1
          by (simp add: run_stage_def stage_steps_def seq_def setvar_def ok_def)
      next
        case True
        obtain r s2 where w: "rpath_wrappers x (path_join prev [''bin'']) ?s1 = (r, s2)"
          by (cases "rpath_wrappers x (path_join prev [''bin'']) ?s1") auto
        from rpath_wrappers_result [OF w] have r: "r = None \<or> r = Some TypeError"
          and e: "self s2 = self s" by simp_all
        have c2: "cmake_and_make x s2 = (Some TypeError, s2)"
          using assms e by (intro cmake_raises) simp_all
        show ?thesis using \<open>prev_obj = Some prev\<close> Some True w r c2
          by (auto simp: run_stage_def stage_steps_def seq_def setvar_def ok_def)
      qed
    qed
  qed
  show "env (snd (run_stage x prev_obj s)) = (env s)(''PATH'' \<mapsto> path_join d [''bin''] @ '':'' @ p)"
    if "\<not> build_option_rpath x" "prev_obj = Some d" "env s ''PATH'' = Some p"
  proof -
    let ?s1 = "s\<lparr>env := (env s)(''PATH'' \<mapsto> path_join d [''bin''] @ '':'' @ p)\<rparr>"
    have c1: "cmake_and_make x ?s1 = (Some TypeError, ?s1)"
      using assms by (intro cmake_raises) simp_all
    show ?thesis using that c1
      by (simp add: run_stage_def stage_steps_def seq_def setvar_def ok_def)
  qed
qed

lemma bootstrap_build_raises:
  assumes "llvm_src_dir (self s) = None" "\<not> LooseVersion_less x (version (self s)) ''14''"
      and "bootstrap (cfg (self s))"
      and "llvm_obj_dir_stage1 (self s) = Some d1" "llvm_obj_dir_stage2 (self s) = Some d2"
  shows "fst (build_step x s) = Some TypeError"
    and "\<not> build_option_rpath x \<Longrightarrow> env s ''PATH'' = Some p \<Longrightarrow>
           env (snd (build_step x s)) ''PATH'' = Some (path_join d1 [''bin''] @ '':'' @ p)"
proof -
  let ?s2 = "s\<lparr>trace := trace s @ [ChangeDir d1, SuperBuildStep, Mkdir d2, ChangeDir d2]\<rparr>"
  have h: "llvm_src_dir (self ?s2) = None" "\<not> LooseVersion_less x (version (self ?s2)) ''14''"
    using assms by simp_all
  obtain r s3 where rs: "run_stage x (Some d1) ?s2 = (r, s3)"
    by (cases "run_stage x (Some d1) ?s2") auto
  have b: "build_step x s = (r, s3)"
  proof -
    have "r = Some TypeError" using run_stage_raises(1) [OF h, of "Some d1"] rs by simp
    then show ?thesis
      using assms(3-5) rs
      by (simp add: build_step_def build_with_prev_stage_def seq_def change_dir_def mkdir_def
            act_def ok_def)
  qed
  show "fst (build_step x s) = Some TypeError"
    using run_stage_raises(1) [OF h, of "Some d1"] rs b by simp
  show "env (snd (build_step x s)) ''PATH'' = Some (path_join d1 [''bin''] @ '':'' @ p)"
    if "\<not> build_option_rpath x" "env s ''PATH'' = Some p"
    using run_stage_raises(2) [OF h that(1), of "Some d1" d1 p] that(2) rs b by simp
qed

text \<open>
  After an initialisation with \<^verbatim>\<open>bootstrap\<close> and a configure step that returned, the
  build step raises in stage 2, and without rpath wrappers it leaves the directory of
  stage 1 in front of \<^verbatim>\<open>$PATH\<close>.
\<close>

lemma bootstrap_after_configure:
  assumes "init x nm ver bdir idir btype c = Inr b" "bootstrap c"
      and "\<not> LooseVersion_less x ver ''14''"
      and "configure_step x \<lparr>self = b, env = e, trace = t\<rparr> = (None, s')"
  shows "fst (build_step x s') = Some TypeError"
    and "\<not> build_option_rpath x \<Longrightarrow> env s' ''PATH'' = Some p \<Longrightarrow>
           env (snd (build_step x s')) ''PATH''
             = Some (path_join (path_join bdir [''llvm.obj.1'']) [''bin''] @ '':'' @ p)"
proof -
  let ?s = "\<lparr>self = b, env = e, trace = t\<rparr>"
  from assms(1) obtain targets where b: "b = instance_of nm ver bdir idir btype c targets"
    by (rule init_returns)
  have ex: "extends ?s s'" by (rule keepsD [OF extends_configure_step assms(4)])
  have 1: "llvm_src_dir (self s') = None"
    using ex b by (simp add: extends_def instance_of_def)
  have 2: "\<not> LooseVersion_less x (version (self s')) ''14''"
    using ex b assms(3) by (simp add: extends_def instance_of_def)
  have 3: "bootstrap (cfg (self s'))"
    using extends_cfg(2) [OF ex] b assms(2) by (simp add: instance_of_def)
  have l: "1 < length (configure_steps x)" by (simp add: configure_steps_nth)
  from assms(4) obtain a0 a1 where
    a0: "seqs (take 1 (configure_steps x)) ?s = (None, a0)"
    and a1: "(configure_steps x ! 1) a0 = (None, a1)"
    and a2: "seqs (drop (Suc 1) (configure_steps x)) a1 = (None, s')"
    unfolding configure_step_def by (rule seqs_reaches [OF _ l])
  have d: "configure_dirs x a0 = (None, a1)" using a1 by (simp add: configure_steps_def)
  have e0: "extends ?s a0" by (rule extends_before [OF a0])
  have bd: "builddir (self a0) = bdir"
    using extends_cfg(6) [OF e0] b by (simp add: instance_of_def)
  have bs: "bootstrap (cfg (self a0))"
    using extends_cfg(2) [OF e0] b assms(2) by (simp add: instance_of_def)
  have "seqs (drop 2 (configure_steps x)) a1 = (None, s')"
    using a2 by (simp add: numeral_2_eq_2)
  from keepsD [OF keeps_seqs_const [OF reflp_same_dirs transp_same_dirs same_dirs_steps] this]
  have 4: "llvm_obj_dir_stage1 (self s') = Some (path_join bdir [''llvm.obj.1''])"
    and 5: "llvm_obj_dir_stage2 (self s') = Some (path_join bdir [''llvm.obj.2''])"
    using configure_dirs_bootstrap [OF d bs] bd by (simp_all add: same_dirs_def)
  show "fst (build_step x s') = Some TypeError"
    by (rule bootstrap_build_raises(1) [OF 1 2 3 4 5])
  show "env (snd (build_step x s')) ''PATH''
          = Some (path_join (path_join bdir [''llvm.obj.1'']) [''bin''] @ '':'' @ p)"
    if "\<not> build_option_rpath x" "env s' ''PATH'' = Some p"
    by (rule bootstrap_build_raises(2) [OF 1 2 3 4 5 that])
qed

text \<open>
  Claim C1, on the source. A bootstrap build of Clang 18.1.8 without rpath wrappers, from
  the state that \<^verbatim>\<open>__init__\<close> and the configure step leave, with \<^verbatim>\<open>$PATH\<close> equal to
  \<^verbatim>\<open>/usr/bin\<close>: stage 2 raises a \<^verbatim>\<open>TypeError\<close> at
  \<^verbatim>\<open>os.path.join(self.llvm_src_dir, "llvm")\<close>, and after it \<^verbatim>\<open>$PATH\<close> is
  \<^verbatim>\<open>/b/llvm.obj.1/bin:/usr/bin\<close>, not the value it had before the stage. The claim and the
  comments of the method (``temporarily in PATH'', ``restore \<^verbatim>\<open>$PATH\<close>'') say that the
  value is the one before the stage also when the stage raises.
\<close>

theorem bootstrap_stage_leaves_path:
  "llvm_src_dir (self clang_configured) = None
   \<and> bootstrap (cfg (self clang_configured))
   \<and> llvm_obj_dir_stage1 (self clang_configured) = Some (path_join ''/b'' [''llvm.obj.1''])
   \<and> llvm_obj_dir_stage2 (self clang_configured) = Some (path_join ''/b'' [''llvm.obj.2''])
   \<and> env clang_configured ''PATH'' = Some ''/usr/bin''
   \<and> fst (build_step host_full clang_configured) = Some TypeError
   \<and> env (snd (build_step host_full clang_configured)) ''PATH''
       = Some ''/b/llvm.obj.1/bin:/usr/bin''"
proof -
  have 1: "llvm_src_dir (self clang_configured) = None" by code_simp
  have 2: "bootstrap (cfg (self clang_configured))" by code_simp
  have 3: "llvm_obj_dir_stage1 (self clang_configured) = Some (path_join ''/b'' [''llvm.obj.1''])"
    by code_simp
  have 4: "llvm_obj_dir_stage2 (self clang_configured) = Some (path_join ''/b'' [''llvm.obj.2''])"
    by code_simp
  have 5: "env clang_configured ''PATH'' = Some ''/usr/bin''" by code_simp
  have 6: "fst (build_step host_full clang_configured) = Some TypeError" by code_simp
  have 7: "env (snd (build_step host_full clang_configured)) ''PATH''
             = Some ''/b/llvm.obj.1/bin:/usr/bin''" by code_simp
  from 1 2 3 4 5 6 7 show ?thesis by blast
qed

subsection \<open>The files of the sanity check\<close>

lemma custom_paths_other_suffix:
  assumes "get_shared_lib_ext x \<noteq> ''so''"
  shows "custom_paths x b ''files'' =
           Some (map (replace ''.so'' (''.'' @ get_shared_lib_ext x))
                   (filter (\<lambda>f. endswith f ''.so'')
                      ((case sanity_check_paths (cfg b) ''files'' of None \<Rightarrow> [] | Some l \<Rightarrow> l)
                       @ check_files b)))"
  using assms by (simp add: custom_paths_def Let_def)

lemma custom_paths_default_suffix:
  assumes "get_shared_lib_ext x = ''so''"
  shows "custom_paths x b ''files'' =
           Some ((case sanity_check_paths (cfg b) ''files'' of None \<Rightarrow> [] | Some l \<Rightarrow> l)
                 @ check_files b)"
  using assms by (simp add: custom_paths_def Let_def)

text \<open>
  Claim C2, on the source. On a platform whose shared libraries end in \<^verbatim>\<open>.dylib\<close>
  the list comprehension keeps only the files that end in \<^verbatim>\<open>.so\<close>: of the three
  files that Polly expects, only \<^verbatim>\<open>lib/LLVMPolly.dylib\<close> is checked, and of
  \<^verbatim>\<open>lib/libclang.so\<close>, \<^verbatim>\<open>lib/libclangAST.a\<close> and \<^verbatim>\<open>bin/clang\<close> only
  \<^verbatim>\<open>lib/libclang.dylib\<close>; the static libraries and the binaries are dropped from
  the list instead of being left in it. Where the suffix is \<^verbatim>\<open>so\<close> the list is
  checked as it is.
\<close>

theorem sanity_check_drops_other_files:
  "check_files (self (snd (configure_step host_dylib (start_state ''polly'' recipe_x86 [''X86'']))))
     = [''lib/LLVMPolly.so'', ''lib/libPolly.a'', ''lib/libPollyISL.a'']
   \<and> custom_paths host_dylib
         (self (snd (configure_step host_dylib (start_state ''polly'' recipe_x86 [''X86'']))))
         ''files''
     = Some [''lib/LLVMPolly.dylib'']
   \<and> custom_paths host_dylib
         ((self (start_state ''Clang'' recipe_x86 [''X86'']))
            \<lparr>check_files := [''lib/libclang.so'', ''lib/libclangAST.a'', ''bin/clang'']\<rparr>)
         ''files''
     = Some [''lib/libclang.dylib'']
   \<and> custom_paths host0
         ((self (start_state ''Clang'' recipe_x86 [''X86'']))
            \<lparr>check_files := [''lib/libclang.so'', ''lib/libclangAST.a'', ''bin/clang'']\<rparr>)
         ''files''
     = Some [''lib/libclang.so'', ''lib/libclangAST.a'', ''bin/clang'']"
proof -
  have 1: "check_files (self (snd (configure_step host_dylib (start_state ''polly'' recipe_x86 [''X86'']))))
     = [''lib/LLVMPolly.so'', ''lib/libPolly.a'', ''lib/libPollyISL.a'']" by code_simp
  have 2: "custom_paths host_dylib
         (self (snd (configure_step host_dylib (start_state ''polly'' recipe_x86 [''X86'']))))
         ''files''
     = Some [''lib/LLVMPolly.dylib'']" by code_simp
  have 3: "custom_paths host_dylib
         ((self (start_state ''Clang'' recipe_x86 [''X86'']))
            \<lparr>check_files := [''lib/libclang.so'', ''lib/libclangAST.a'', ''bin/clang'']\<rparr>)
         ''files''
     = Some [''lib/libclang.dylib'']" by code_simp
  have 4: "custom_paths host0
         ((self (start_state ''Clang'' recipe_x86 [''X86'']))
            \<lparr>check_files := [''lib/libclang.so'', ''lib/libclangAST.a'', ''bin/clang'']\<rparr>)
         ''files''
     = Some [''lib/libclang.so'', ''lib/libclangAST.a'', ''bin/clang'']" by code_simp
  show ?thesis using 1 2 3 4 by blast
qed

subsection \<open>The test step: what is read from the output of a test target\<close>

lemma is_digit_simps: "\<not> is_digit newline" "\<not> is_digit blank"
  by (simp_all add: is_digit_def)

text \<open>The parts of the expression do not look beyond the end of the line.\<close>

lemma spaces1_line: "spaces1 (l @ newline # r) = map_option (\<lambda>t. t @ newline # r) (spaces1 l)"
proof (cases l)
  case Nil
  then show ?thesis by (simp add: spaces1_def)
next
  case (Cons c cs)
  have "dropWhile (\<lambda>c. c = blank) (cs @ newline # r) = dropWhile (\<lambda>c. c = blank) cs @ newline # r"
    by (induction cs) simp_all
  then show ?thesis using Cons by (simp add: spaces1_def)
qed

lemma startswith_append: "startswith (s @ t) p = (if length p \<le> length s then startswith s p
   else take (length s) p = s \<and> startswith t (drop (length s) p))"
proof (induction s p rule: startswith.induct)
  case (1 s)
  then show ?case by simp
next
  case (2 p ps)
  then show ?case by simp
next
  case (3 c cs p ps)
  then show ?case by auto
qed

lemma startswith_prefix: "startswith s p \<longleftrightarrow> (\<exists>t. s = p @ t)"
  by (induction s p rule: startswith.induct) auto

lemma literal_line:
  assumes "newline \<notin> set p"
  shows "literal p (l @ newline # r) = map_option (\<lambda>t. t @ newline # r) (literal p l)"
proof (cases "length p \<le> length l")
  case True
  then show ?thesis by (simp add: literal_def startswith_append)
next
  case False
  then have n: "drop (length l) p \<noteq> []" by simp
  then obtain q qs where q: "drop (length l) p = q # qs" by (cases "drop (length l) p") auto
  then have "q \<in> set p" by (metis in_set_dropD list.set_intros(1))
  then have "q \<noteq> newline" using assms by auto
  then have "\<not> startswith (newline # r) (drop (length l) p)" using q by simp
  moreover have "\<not> startswith l p"
    using False by (auto simp: startswith_prefix)
  ultimately show ?thesis using False by (simp add: literal_def startswith_append)
qed

lemma digits1_line: "digits1 (l @ newline # r) = digits1 l"
proof -
  have "takeWhile is_digit (l @ newline # r) = takeWhile is_digit l"
    by (induction l) (simp_all add: is_digit_simps)
  then show ?thesis by (simp add: digits1_def)
qed

lemma match_summary_line:
  assumes "newline \<notin> set word"
  shows "match_summary word (l @ newline # r) = match_summary word l"
proof -
  have c: "newline \<notin> set '':''" by simp
  show ?thesis
    unfolding match_summary_def
    by (auto simp: spaces1_line literal_line [OF assms] literal_line [OF c] digits1_line
             split: option.splits)
qed

lemma match_summary_Nil: "match_summary word [] = None"
  by (simp add: match_summary_def spaces1_def)

lemma match_summary_newline: "match_summary word (newline # r) = None"
  by (simp add: match_summary_def spaces1_def)

text \<open>A text is its first line, or its first line, a newline and the text of the other lines.\<close>

lemma lines_of_not_Nil: "lines_of s \<noteq> []"
  by (induction s) (auto split: list.splits)

lemma lines_of_first:
  assumes "lines_of s = l # ls"
  shows "(ls = [] \<and> s = l) \<or> (\<exists>r. s = l @ newline # r \<and> lines_of r = ls)"
  using assms
proof (induction s arbitrary: l ls)
  case Nil
  then show ?case by simp
next
  case (Cons c cs)
  show ?case
  proof (cases "c = newline")
    case True
    then show ?thesis using Cons.prems by auto
  next
    case False
    obtain l' ls' where l': "lines_of cs = l' # ls'"
      using lines_of_not_Nil [of cs] by (cases "lines_of cs") auto
    then have "l = c # l'" "ls = ls'" using Cons.prems False by simp_all
    then show ?thesis using Cons.IH [OF l'] by auto
  qed
qed

lemma search_from_lines:
  assumes "newline \<notin> set word"
  shows "search_from word True s = first_match word (lines_of s)
         \<and> search_from word False s = first_match word (tl (lines_of s))"
proof (induction s)
  case Nil
  then show ?case by (simp add: match_summary_Nil)
next
  case (Cons c cs)
  show ?case
  proof (cases "c = newline")
    case True
    then show ?thesis using Cons
      by (simp add: match_summary_newline match_summary_Nil)
  next
    case False
    obtain l ls where l: "lines_of cs = l # ls"
      using lines_of_not_Nil [of cs] by (cases "lines_of cs") auto
    have m: "match_summary word (c # cs) = match_summary word (c # l)"
    proof -
      from lines_of_first [OF l] show ?thesis
      proof
        assume "ls = [] \<and> cs = l"
        then show ?thesis by simp
      next
        assume "\<exists>r. cs = l @ newline # r \<and> lines_of r = ls"
        then obtain r where "cs = l @ newline # r" by blast
        then have "c # cs = (c # l) @ newline # r" by simp
        then show ?thesis using match_summary_line [OF assms] by metis
      qed
    qed
    show ?thesis using False Cons l m by (simp split: option.splits)
  qed
qed

lemma rgx_search_lines:
  assumes "newline \<notin> set word"
  shows "rgx_search word out = first_match word (lines_of out)"
  using search_from_lines [OF assms] by (simp add: rgx_search_def)


text \<open>What the parts of the expression accept.\<close>

lemma spaces1_Some:
  "spaces1 s = Some t \<longleftrightarrow> (\<exists>a. 0 < a \<and> s = spaces a @ t \<and> (t = [] \<or> hd t \<noteq> blank))"
proof
  assume h: "spaces1 s = Some t"
  then obtain cs where s: "s = blank # cs" and t: "t = dropWhile (\<lambda>c. c = blank) cs"
    by (auto simp: spaces1_def split: list.splits if_splits)
  have "cs = takeWhile (\<lambda>c. c = blank) cs @ t" using t by simp
  moreover have "takeWhile (\<lambda>c. c = blank) cs = spaces (length (takeWhile (\<lambda>c. c = blank) cs))"
    unfolding spaces_def
    by (rule replicate_eqI) (auto dest: set_takeWhileD)
  ultimately have "s = spaces (Suc (length (takeWhile (\<lambda>c. c = blank) cs))) @ t"
    using s by (simp add: spaces_def)
  moreover have "t = [] \<or> hd t \<noteq> blank"
    using t hd_dropWhile [of "\<lambda>c. c = blank" cs] by auto
  ultimately show "\<exists>a. 0 < a \<and> s = spaces a @ t \<and> (t = [] \<or> hd t \<noteq> blank)" by blast
next
  assume "\<exists>a. 0 < a \<and> s = spaces a @ t \<and> (t = [] \<or> hd t \<noteq> blank)"
  then obtain a where a: "0 < a" "s = spaces a @ t" "t = [] \<or> hd t \<noteq> blank" by blast
  then obtain a' where a': "a = Suc a'" by (cases a) auto
  have "dropWhile (\<lambda>c. c = blank) (replicate a' blank @ t) = t"
    using a(3) by (induction a') (auto simp: dropWhile_eq_self_iff)
  then show "spaces1 s = Some t" using a(2) a' by (simp add: spaces1_def spaces_def)
qed

lemma literal_Some: "literal p s = Some t \<longleftrightarrow> s = p @ t"
  by (auto simp: literal_def startswith_prefix)

lemma digits1_Some:
  "digits1 s = Some ds \<longleftrightarrow>
     (ds \<noteq> [] \<and> list_all is_digit ds \<and> (\<exists>rest. s = ds @ rest \<and> (rest = [] \<or> \<not> is_digit (hd rest))))"
proof
  assume "digits1 s = Some ds"
  then have d: "ds = takeWhile is_digit s" "ds \<noteq> []"
    by (auto simp: digits1_def Let_def split: if_splits)
  have "s = ds @ dropWhile is_digit s" using d by simp
  moreover have "dropWhile is_digit s = [] \<or> \<not> is_digit (hd (dropWhile is_digit s))"
    using hd_dropWhile [of is_digit s] by auto
  moreover have "list_all is_digit ds" using d by (auto simp: list_all_iff dest: set_takeWhileD)
  ultimately show "ds \<noteq> [] \<and> list_all is_digit ds
      \<and> (\<exists>rest. s = ds @ rest \<and> (rest = [] \<or> \<not> is_digit (hd rest)))"
    using d(2) by blast
next
  assume "ds \<noteq> [] \<and> list_all is_digit ds
      \<and> (\<exists>rest. s = ds @ rest \<and> (rest = [] \<or> \<not> is_digit (hd rest)))"
  then obtain rest where r: "ds \<noteq> []" "list_all is_digit ds" "s = ds @ rest"
    "rest = [] \<or> \<not> is_digit (hd rest)" by blast
  have "takeWhile is_digit (ds @ rest) = ds"
  proof (cases rest)
    case Nil
    then show ?thesis using r(2) by (simp add: list_all_iff)
  next
    case (Cons c cs)
    then show ?thesis using r(2,4) by (simp add: list_all_iff)
  qed
  then show "digits1 s = Some ds" using r by (simp add: digits1_def)
qed

lemma match_summary_iff:
  assumes "word \<noteq> []" "hd word \<noteq> blank"
  shows "match_summary word l = Some ds \<longleftrightarrow> summary_line word l ds"
proof
  assume m: "match_summary word l = Some ds"
  then obtain s1 s2 s3 s4 s5 where
    1: "spaces1 l = Some s1" and 2: "literal word s1 = Some s2" and 3: "spaces1 s2 = Some s3"
    and 4: "literal '':'' s3 = Some s4" and 5: "spaces1 s4 = Some s5" and 6: "digits1 s5 = Some ds"
    by (auto simp: match_summary_def split: option.splits)
  from 1 obtain a where a: "0 < a" "l = spaces a @ s1" unfolding spaces1_Some by blast
  from 2 have w: "s1 = word @ s2" unfolding literal_Some .
  from 3 obtain b where b: "0 < b" "s2 = spaces b @ s3" unfolding spaces1_Some by blast
  from 4 have c: "s3 = '':'' @ s4" unfolding literal_Some .
  from 5 obtain c' where c': "0 < c'" "s4 = spaces c' @ s5" unfolding spaces1_Some by blast
  from 6 obtain rest where d: "ds \<noteq> []" "list_all is_digit ds" "s5 = ds @ rest"
    "rest = [] \<or> \<not> is_digit (hd rest)" unfolding digits1_Some by blast
  have "l = spaces a @ word @ spaces b @ '':'' @ spaces c' @ ds @ rest"
    using a(2) w b(2) c c'(2) d(3) by simp
  then show "summary_line word l ds"
    unfolding summary_line_def using a(1) b(1) c'(1) d(1,2,4) by blast
next
  assume "summary_line word l ds"
  then obtain a b c rest where h: "0 < a" "0 < b" "0 < c"
    "l = spaces a @ word @ spaces b @ '':'' @ spaces c @ ds @ rest"
    "ds \<noteq> []" "list_all is_digit ds" "rest = [] \<or> \<not> is_digit (hd rest)"
    unfolding summary_line_def by blast
  have 1: "spaces1 l = Some (word @ spaces b @ '':'' @ spaces c @ ds @ rest)"
    unfolding spaces1_Some using h(1,4) assms by auto
  have 2: "literal word (word @ spaces b @ '':'' @ spaces c @ ds @ rest)
             = Some (spaces b @ '':'' @ spaces c @ ds @ rest)"
    unfolding literal_Some by simp
  have 3: "spaces1 (spaces b @ '':'' @ spaces c @ ds @ rest) = Some ('':'' @ spaces c @ ds @ rest)"
    unfolding spaces1_Some using h(2) by auto
  have 4: "literal '':'' ('':'' @ spaces c @ ds @ rest) = Some (spaces c @ ds @ rest)"
    unfolding literal_Some by simp
  have "hd ds \<noteq> blank" using h(5,6) by (cases ds) (auto simp: is_digit_def)
  then have 5: "spaces1 (spaces c @ ds @ rest) = Some (ds @ rest)"
    unfolding spaces1_Some using h(3,5) by auto
  have 6: "digits1 (ds @ rest) = Some ds"
    unfolding digits1_Some using h(5,6,7) by blast
  show "match_summary word l = Some ds"
    using 1 2 3 4 5 6 by (simp add: match_summary_def)
qed

lemma first_match_Some:
  "first_match word ls = Some ds \<longleftrightarrow>
     (\<exists>pre l post. ls = pre @ l # post \<and> (\<forall>l'\<in>set pre. match_summary word l' = None)
        \<and> match_summary word l = Some ds)"
proof (induction ls)
  case Nil
  then show ?case by simp
next
  case (Cons x xs)
  show ?case
  proof (cases "match_summary word x")
    case None
    have "(\<exists>pre l post. x # xs = pre @ l # post \<and> (\<forall>l'\<in>set pre. match_summary word l' = None)
              \<and> match_summary word l = Some ds)
          \<longleftrightarrow> (\<exists>pre l post. xs = pre @ l # post \<and> (\<forall>l'\<in>set pre. match_summary word l' = None)
              \<and> match_summary word l = Some ds)" (is "?L \<longleftrightarrow> ?R")
    proof
      assume ?L
      then obtain pre l post where p: "x # xs = pre @ l # post"
        "\<forall>l'\<in>set pre. match_summary word l' = None" "match_summary word l = Some ds" by blast
      then obtain pre' where "pre = x # pre'" using None by (cases pre) auto
      then show ?R using p by auto
    next
      assume ?R
      then obtain pre l post where p: "xs = pre @ l # post"
        "\<forall>l'\<in>set pre. match_summary word l' = None" "match_summary word l = Some ds" by blast
      then have "x # xs = (x # pre) @ l # post" "\<forall>l'\<in>set (x # pre). match_summary word l' = None"
        using None by simp_all
      then show ?L using p(3) by blast
    qed
    then show ?thesis using None Cons by simp
  next
    case (Some g)
    have "(\<exists>pre l post. x # xs = pre @ l # post \<and> (\<forall>l'\<in>set pre. match_summary word l' = None)
              \<and> match_summary word l = Some ds) \<longleftrightarrow> g = ds" (is "?L \<longleftrightarrow> _")
    proof
      assume ?L
      then obtain pre l post where p: "x # xs = pre @ l # post"
        "\<forall>l'\<in>set pre. match_summary word l' = None" "match_summary word l = Some ds" by blast
      then have "pre = []" using Some by (cases pre) auto
      then show "g = ds" using p Some by simp
    next
      assume "g = ds"
      then have "x # xs = [] @ x # xs" "\<forall>l'\<in>set []. match_summary word l' = None"
        "match_summary word x = Some ds" using Some by simp_all
      then show ?L by blast
    qed
    then show ?thesis using Some by simp
  qed
qed

lemma first_match_None:
  "first_match word ls = None \<longleftrightarrow> (\<forall>l\<in>set ls. match_summary word l = None)"
  by (induction ls) (auto split: option.splits)

lemma first_summary_iff:
  assumes "word \<noteq> []" "hd word \<noteq> blank" "newline \<notin> set word"
  shows "first_summary word out ds \<longleftrightarrow> rgx_search word out = Some ds"
proof -
  have n: "(\<forall>d. \<not> summary_line word l d) \<longleftrightarrow> match_summary word l = None" for l
    using match_summary_iff [OF assms(1,2), of l] by (cases "match_summary word l") auto
  show ?thesis
    unfolding rgx_search_lines [OF assms(3)] first_match_Some first_summary_def
    by (simp add: n match_summary_iff [OF assms(1,2)])
qed

lemma no_summary_iff:
  assumes "word \<noteq> []" "hd word \<noteq> blank" "newline \<notin> set word"
  shows "no_summary word out \<longleftrightarrow> rgx_search word out = None"
proof -
  have n: "(\<forall>d. \<not> summary_line word l d) \<longleftrightarrow> match_summary word l = None" for l
    using match_summary_iff [OF assms(1,2), of l] by (cases "match_summary word l") auto
  show ?thesis
    unfolding rgx_search_lines [OF assms(3)] first_match_None no_summary_def
    by (simp add: n)
qed


lemma word_facts:
  "''Failed'' \<noteq> []" "hd ''Failed'' \<noteq> blank" "newline \<notin> set ''Failed''"
  "''Passed'' \<noteq> []" "hd ''Passed'' \<noteq> blank" "newline \<notin> set ''Passed''"
  by simp_all

lemmas failed_summary =
  first_summary_iff [OF word_facts(1-3)] no_summary_iff [OF word_facts(1-3)]

lemmas passed_summary =
  first_summary_iff [OF word_facts(4-6)] no_summary_iff [OF word_facts(4-6)]

text \<open>\<^verbatim>\<open>int\<close> reads the decimal digits of a number as that number.\<close>

lemma int_of_digits_snoc: "int_of_digits (ds @ [c]) = 10 * int_of_digits ds + digit_val c"
  by (simp add: int_of_digits_def)

lemma digit_val_char:
  assumes "d < 10"
  shows "digit_val (digit_char d) = int d"
proof -
  have "d \<in> {0, 1, 2, 3, 4, 5, 6, 7, 8, 9}" using assms by auto
  then show ?thesis by (auto simp: digit_val_def digit_char_def)
qed

lemma int_of_digits_str_nat: "int_of_digits (str_nat k) = int k"
proof (induction k rule: str_nat.induct)
  case (1 n)
  show ?case
  proof (cases "n < 10")
    case True
    have "str_nat n = [digit_char n]" using True by (subst str_nat.simps) simp
    then show ?thesis using digit_val_char [OF True] by (simp add: int_of_digits_def)
  next
    case False
    have s: "str_nat n = str_nat (n div 10) @ [digit_char (n mod 10)]"
      using False by (subst str_nat.simps) simp
    have "int_of_digits (str_nat n) = 10 * int (n div 10) + int (n mod 10)"
      unfolding s int_of_digits_snoc using 1 [OF False] digit_val_char [of "n mod 10"]
      by simp
    also have "\<dots> = int n" by presburger
    finally show ?thesis .
  qed
qed

lemma test_target_result:
  "fst (test_target x target s)
     = check_test_output (test_suite_max_failed (cfg (self s))) (run_cmd_out x (''make '' @ target))"
  by (simp add: test_target_def seq_def act_def ok_def raise_def split: option.splits)

text \<open>
  Claim C5, amended. A summary line for a word is a line that consists of one or more
  spaces, the word, one or more spaces, a colon, one or more spaces and a decimal number,
  followed by anything that is not a digit. For every output of a test target: when it has
  a summary line for \<^verbatim>\<open>Failed\<close>, the number of failed tests is the number on the first
  of them; when it has none but has a summary line for \<^verbatim>\<open>Passed\<close>, the number of failed
  tests is 0; when it has neither, the error ``Failed to extract test results from output''
  is raised; one of the three is the case. When the number was extracted, the error
  ``Too many failed tests'' with that number is raised if the number is above
  \<^verbatim>\<open>test_suite_max_failed\<close>, and nothing is raised otherwise. The test step raises for a
  target what this check of its output raises, and the digits of a number are read as that
  number.
\<close>

theorem test_output_interpreted:
  "((\<exists>ds. first_summary ''Failed'' out ds) \<or> no_summary ''Failed'' out)
   \<and> ((\<exists>ds. first_summary ''Passed'' out ds) \<or> no_summary ''Passed'' out)
   \<and> (first_summary ''Failed'' out ds \<longrightarrow> num_failed out = Inr (int_of_digits ds))
   \<and> (no_summary ''Failed'' out \<and> first_summary ''Passed'' out ds \<longrightarrow> num_failed out = Inr 0)
   \<and> (no_summary ''Failed'' out \<and> no_summary ''Passed'' out \<longrightarrow>
        num_failed out = Inl (EasyBuildError ''Failed to extract test results from output''))
   \<and> (num_failed out = Inl e \<longrightarrow> check_test_output max_failed out = Some e)
   \<and> (num_failed out = Inr n \<and> n > max_failed \<longrightarrow>
        check_test_output max_failed out
          = Some (EasyBuildError (''Too many failed tests: '' @ str_int n)))
   \<and> (num_failed out = Inr n \<and> \<not> n > max_failed \<longrightarrow> check_test_output max_failed out = None)
   \<and> fst (test_target x target s)
       = check_test_output (test_suite_max_failed (cfg (self s)))
           (run_cmd_out x (''make '' @ target))
   \<and> int_of_digits (str_nat k) = int k
   \<and> str_int (int k) = str_nat k"
proof (intro conjI impI)
  show "(\<exists>ds. first_summary ''Failed'' out ds) \<or> no_summary ''Failed'' out"
    unfolding failed_summary by (cases "rgx_search ''Failed'' out") simp_all
  show "(\<exists>ds. first_summary ''Passed'' out ds) \<or> no_summary ''Passed'' out"
    unfolding passed_summary by (cases "rgx_search ''Passed'' out") simp_all
  show "num_failed out = Inr (int_of_digits ds)" if "first_summary ''Failed'' out ds"
    using that unfolding failed_summary by (simp add: num_failed_def)
  show "num_failed out = Inr 0"
    if "no_summary ''Failed'' out \<and> first_summary ''Passed'' out ds"
    using that unfolding failed_summary passed_summary by (simp add: num_failed_def)
  show "num_failed out = Inl (EasyBuildError ''Failed to extract test results from output'')"
    if "no_summary ''Failed'' out \<and> no_summary ''Passed'' out"
    using that unfolding failed_summary passed_summary by (simp add: num_failed_def)
  show "check_test_output max_failed out = Some e" if "num_failed out = Inl e"
    using that by (simp add: check_test_output_def)
  show "check_test_output max_failed out
          = Some (EasyBuildError (''Too many failed tests: '' @ str_int n))"
    if "num_failed out = Inr n \<and> n > max_failed"
    using that by (simp add: check_test_output_def)
  show "check_test_output max_failed out = None"
    if "num_failed out = Inr n \<and> \<not> n > max_failed"
    using that by (simp add: check_test_output_def)
  show "fst (test_target x target s)
       = check_test_output (test_suite_max_failed (cfg (self s)))
           (run_cmd_out x (''make '' @ target))"
    by (rule test_target_result)
  show "int_of_digits (str_nat k) = int k" by (rule int_of_digits_str_nat)
  show "str_int (int k) = str_nat k" by (simp add: str_int_def del: str_nat.simps)
qed

theorem test_output_interpreted_witness:
  "first_summary ''Failed'' output_failed ''3''
   \<and> num_failed output_failed = Inr 3
   \<and> check_test_output 0 output_failed = Some (EasyBuildError ''Too many failed tests: 3'')
   \<and> check_test_output 3 output_failed = None
   \<and> no_summary ''Failed'' output_passed
   \<and> first_summary ''Passed'' output_passed ''10''
   \<and> num_failed output_passed = Inr 0
   \<and> check_test_output 0 output_passed = None
   \<and> no_summary ''Failed'' output_other
   \<and> no_summary ''Passed'' output_other
   \<and> check_test_output 0 output_other
       = Some (EasyBuildError ''Failed to extract test results from output'')"
proof -
  have "rgx_search ''Failed'' output_failed = Some ''3''" by code_simp
  then have 1: "first_summary ''Failed'' output_failed ''3''" unfolding failed_summary .
  have i: "int_of_digits ''3'' = 3" by code_simp
  have j: "str_int 3 = ''3''" by code_simp
  have 2: "num_failed output_failed = Inr 3"
    using test_output_interpreted [of output_failed "''3''"] 1 i by (simp del: str_nat.simps)
  have 3: "check_test_output 0 output_failed = Some (EasyBuildError ''Too many failed tests: 3'')"
    using test_output_interpreted [of output_failed _ _ 0 3] 2 j by (simp del: str_nat.simps)
  have 4: "check_test_output 3 output_failed = None"
    using test_output_interpreted [of output_failed _ _ 3 3] 2 by (simp del: str_nat.simps)
  have "rgx_search ''Failed'' output_passed = None" by code_simp
  then have 5: "no_summary ''Failed'' output_passed" unfolding failed_summary .
  have "rgx_search ''Passed'' output_passed = Some ''10''" by code_simp
  then have 6: "first_summary ''Passed'' output_passed ''10''" unfolding passed_summary .
  have 7: "num_failed output_passed = Inr 0"
    using test_output_interpreted [of output_passed "''10''"] 5 6 by (simp del: str_nat.simps)
  have 8: "check_test_output 0 output_passed = None"
    using test_output_interpreted [of output_passed _ _ 0 0] 7 by (simp del: str_nat.simps)
  have "rgx_search ''Failed'' output_other = None" by code_simp
  then have 9: "no_summary ''Failed'' output_other" unfolding failed_summary .
  have "rgx_search ''Passed'' output_other = None" by code_simp
  then have 10: "no_summary ''Passed'' output_other" unfolding passed_summary .
  have "num_failed output_other
          = Inl (EasyBuildError ''Failed to extract test results from output'')"
    using test_output_interpreted [of output_other] 9 10 by (simp del: str_nat.simps)
  then have 11: "check_test_output 0 output_other
       = Some (EasyBuildError ''Failed to extract test results from output'')"
    using test_output_interpreted
            [of output_other _ "EasyBuildError ''Failed to extract test results from output''" 0 0]
    by (simp del: str_nat.simps)
  from 1 2 3 4 5 6 7 8 9 10 11 show ?thesis by blast
qed

text \<open>
  Claim C5, as the source has it. The space before the word is not optional: a line that
  has \<^verbatim>\<open>Failed : 3\<close> in its first column, or after a tab, is not a summary line, and
  with no other summary line in the output the test step raises
  ``Failed to extract test results from output'' and extracts no count. With one space
  before the word the count is 3.
\<close>

theorem summary_needs_leading_space_counterexample:
  "num_failed ''Failed : 3''
     = Inl (EasyBuildError ''Failed to extract test results from output'')
   \<and> num_failed (CHR 0x09 # ''Failed : 3'')
     = Inl (EasyBuildError ''Failed to extract test results from output'')
   \<and> num_failed '' Failed : 3'' = Inr 3"
proof -
  have 1: "num_failed ''Failed : 3''
     = Inl (EasyBuildError ''Failed to extract test results from output'')" by code_simp
  have 2: "num_failed (CHR 0x09 # ''Failed : 3'')
     = Inl (EasyBuildError ''Failed to extract test results from output'')" by code_simp
  have 3: "num_failed '' Failed : 3'' = Inr 3" by code_simp
  from 1 2 3 show ?thesis by blast
qed

end
